theory Spec2Isabelle
  imports Complex_Main "HOL-Library.AList" "HOL-Library.Sublist"
begin

section \<open>Common Python values\<close>

text \<open>
  Bytes and text are character lists. Exceptions are values: the two classes declared in
  \<^verbatim>\<open>model_loader.py\<close>, Python's \<^verbatim>\<open>ImportError\<close>, and one constructor for every other
  subclass of \<^verbatim>\<open>Exception\<close>; each carries the text that \<^verbatim>\<open>str(e)\<close> returns.
\<close>

type_synonym bytes = string

datatype exn =
    ModelIntegrityError string
  | ModelLoadingError string
  | ImportError string
  | OtherException string

fun str_exn :: "exn \<Rightarrow> string" where
  "str_exn (ModelIntegrityError m) = m"
| "str_exn (ModelLoadingError m) = m"
| "str_exn (ImportError m) = m"
| "str_exn (OtherException m) = m"

fun is_integrity_error :: "exn \<Rightarrow> bool" where
  "is_integrity_error (ModelIntegrityError m) = True"
| "is_integrity_error e = False"

fun is_loading_error :: "exn \<Rightarrow> bool" where
  "is_loading_error (ModelLoadingError m) = True"
| "is_loading_error e = False"

text \<open>
  A float that the code only produces and hands on is kept symbolic:
  \<open>Round2MB n\<close> stands for \<^verbatim>\<open>round(n / 1024 / 1024, 2)\<close>.
\<close>

datatype pynum = Round2MB nat | PyInt int | PyFloatZero

section \<open>Model loader: \<^verbatim>\<open>services/model_loader.py\<close>\<close>

subsection \<open>File system\<close>

text \<open>
  A path either does not exist, or holds a node. \<^verbatim>\<open>open(path, "rb")\<close> returns the bytes
  of a readable node and raises on any other node (a directory, a file without read
  permission), which carries the error text and its size. \<^verbatim>\<open>open(path, "w")\<close> raises
  where \<open>write_error\<close> is set.
\<close>

datatype node = Readable bytes | Unreadable string nat

record filesystem =
  nodes :: "string \<rightharpoonup> node"
  write_error :: "string \<rightharpoonup> string"

definition path_exists :: "filesystem \<Rightarrow> string \<Rightarrow> bool" where
  "path_exists F p = (nodes F p \<noteq> None)"

fun st_size :: "node \<Rightarrow> nat" where
  "st_size (Readable content) = length content"
| "st_size (Unreadable msg sz) = sz"

definition path_join :: "string \<Rightarrow> string \<Rightarrow> string" where
  "path_join d f = d @ ''/'' @ f"

definition write_text :: "string \<Rightarrow> bytes \<Rightarrow> filesystem \<Rightarrow> string + filesystem" where
  "write_text p txt F =
     (case write_error F p of
        Some msg \<Rightarrow> Inl msg
      | None \<Rightarrow> Inr (F\<lparr>nodes := (nodes F)(p \<mapsto> Readable txt)\<rparr>))"

text \<open>
  \<^verbatim>\<open>for chunk in iter(lambda: f.read(4096), b""): sha256_hash.update(chunk)\<close>:
  the file is consumed in chunks until a read returns no byte.
\<close>

function read_chunks :: "nat \<Rightarrow> bytes \<Rightarrow> bytes list" where
  "read_chunks n bs =
     (if take n bs = [] then [] else take n bs # read_chunks n (drop n bs))"
  by pat_completeness auto
termination
  by (relation "measure (\<lambda>(n, bs). length bs)") (auto simp: take_eq_Nil)

declare read_chunks.simps [simp del]

subsection \<open>Loader state and the libraries it calls\<close>

record model_config_entry =
  cfg_filename :: string
  expected_sha256 :: "string option"
  url :: string
  description :: string
  cfg_version :: string

record saved_metadata =
  sm_checksum :: string
  sm_file_size :: nat
  sm_last_verified :: string
  sm_version :: string

record load_metadata =
  lm_loaded_at :: string
  lm_version :: string
  lm_status :: string
  lm_memory_size_mb :: pynum

text \<open>
  The three dictionaries of \<^verbatim>\<open>ProductionModelLoader\<close> are association lists in insertion
  order, updated with \<^const>\<open>AList.update\<close>; a Python model object is \<open>Some m\<close> and
  \<^verbatim>\<open>None\<close> is \<open>None\<close>.
\<close>

record 'm loader =
  models_dir :: string
  loaded_models :: "(string \<times> 'm option) list"
  model_metadata :: "(string \<times> load_metadata) list"
  model_config :: "(string \<times> model_config_entry) list"

text \<open>
  \<^verbatim>\<open>hashlib\<close>, \<^verbatim>\<open>json\<close>, \<^verbatim>\<open>datetime\<close>, \<^verbatim>\<open>torch\<close> and \<^verbatim>\<open>super_gradients\<close> are libraries outside the
  repository: what they return is a parameter. A call that can raise returns a sum.
  \<open>sha256_hexdigest\<close> is the digest of all bytes fed to the hash object;
  \<open>models_get name weights\<close> is \<^verbatim>\<open>models.get(name, pretrained_weights=weights)\<close>;
  \<open>torch_load\<close> gets the bytes of the checkpoint file; \<open>tensor_sizes\<close> lists
  \<^verbatim>\<open>(nelement(), element_size())\<close> of the model's parameters and buffers.
\<close>

record ('m, 'sd) ml_env =
  sha256_hexdigest :: "bytes \<Rightarrow> string"
  json_dump :: "saved_metadata \<Rightarrow> bytes"
  now_isoformat :: string
  import_models :: "string option"
  import_torch :: "string option"
  models_get :: "string \<Rightarrow> string option \<Rightarrow> exn + 'm option"
  torch_load :: "bytes \<Rightarrow> exn + 'sd"
  load_state_dict :: "'m \<Rightarrow> 'sd \<Rightarrow> exn + 'm"
  model_eval :: "'m \<Rightarrow> exn + 'm"
  tensor_sizes :: "'m \<Rightarrow> exn + ((nat \<times> nat) list \<times> (nat \<times> nat) list)"

definition ProductionModelLoader :: "string \<Rightarrow> 'm loader" where
  "ProductionModelLoader dir =
     \<lparr>models_dir = dir,
      loaded_models = [],
      model_metadata = [],
      model_config =
        [(''yolo_nas_s'',
          \<lparr>cfg_filename = ''yolo_nas_s_coco.pth'',
           expected_sha256 = None,
           url = ''https://sghub.deci.ai/models/yolo_nas_s_coco.pth'',
           description = ''YOLO-NAS Small model trained on COCO dataset'',
           cfg_version = ''1.0''\<rparr>)]\<rparr>"

subsection \<open>\<^verbatim>\<open>_save_model_metadata\<close>\<close>

definition save_model_metadata ::
  "('m, 'sd) ml_env \<Rightarrow> 'm loader \<Rightarrow> string \<Rightarrow> saved_metadata \<Rightarrow> filesystem \<Rightarrow> filesystem" where
  "save_model_metadata env L model_name metadata F =
     (let metadata_file = path_join (models_dir L) (model_name @ ''_metadata.json'')
      in case write_text metadata_file (json_dump env metadata) F of
           Inr F' \<Rightarrow> F'
         | Inl msg \<Rightarrow> F)"

subsection \<open>\<^verbatim>\<open>verify_model_integrity\<close>\<close>

definition mismatch_message :: "string \<Rightarrow> string \<Rightarrow> string \<Rightarrow> string" where
  "mismatch_message model_name expected calculated =
     ''Model '' @ model_name @ '' integrity check FAILED!'' @ [CHR 0x0A] @
     ''Expected: '' @ take 16 expected @ ''...'' @ [CHR 0x0A] @
     ''Calculated: '' @ take 16 calculated @ ''...'' @ [CHR 0x0A] @
     ''File may be corrupted or tampered with!''"

definition verify_failed :: "string \<Rightarrow> string \<Rightarrow> exn" where
  "verify_failed model_name msg =
     ModelIntegrityError (''Failed to verify model '' @ model_name @ '': '' @ msg)"

definition verify_model_integrity ::
  "('m, 'sd) ml_env \<Rightarrow> string \<Rightarrow> 'm loader \<times> filesystem
     \<Rightarrow> (exn + bool) \<times> 'm loader \<times> filesystem" where
  "verify_model_integrity env model_name LF =
     (case LF of (L, F) \<Rightarrow>
      case map_of (model_config L) model_name of
        None \<Rightarrow> (Inl (ModelIntegrityError (''Unknown model: '' @ model_name)), L, F)
      | Some config \<Rightarrow>
          let model_path = path_join (models_dir L) (cfg_filename config) in
          case nodes F model_path of
            None \<Rightarrow>
              (Inl (ModelIntegrityError (''Model file not found: '' @ model_path)), L, F)
          | Some (Unreadable msg sz) \<Rightarrow> (Inl (verify_failed model_name msg), L, F)
          | Some (Readable content) \<Rightarrow>
              let calculated_checksum =
                    sha256_hexdigest env (concat (read_chunks 4096 content)) in
              case expected_sha256 config of
                None \<Rightarrow>
                  let L' = L\<lparr>model_config :=
                             AList.update model_name
                               (config\<lparr>expected_sha256 := Some calculated_checksum\<rparr>)
                               (model_config L)\<rparr>;
                      F' = save_model_metadata env L' model_name
                             \<lparr>sm_checksum = calculated_checksum,
                              sm_file_size = length content,
                              sm_last_verified = now_isoformat env,
                              sm_version = cfg_version config\<rparr> F
                  in (Inr True, L', F')
              | Some expected \<Rightarrow>
                  if calculated_checksum \<noteq> expected
                  then (Inl (verify_failed model_name
                               (mismatch_message model_name expected calculated_checksum)),
                        L, F)
                  else (Inr True, L, F))"

subsection \<open>\<^verbatim>\<open>_estimate_model_size\<close>\<close>

definition estimate_model_size :: "('m, 'sd) ml_env \<Rightarrow> 'm \<Rightarrow> pynum" where
  "estimate_model_size env model =
     (case import_torch env of
        Some msg \<Rightarrow> PyFloatZero
      | None \<Rightarrow>
          (case tensor_sizes env model of
             Inl e \<Rightarrow> PyFloatZero
           | Inr (params, buffers) \<Rightarrow>
               let param_size = sum_list (map (\<lambda>(nelement, element_size). nelement * element_size) params);
                   buffer_size = sum_list (map (\<lambda>(nelement, element_size). nelement * element_size) buffers)
               in Round2MB (param_size + buffer_size)))"

subsection \<open>\<^verbatim>\<open>load_yolo_nas_model\<close>\<close>

definition no_attribute :: "string \<Rightarrow> string" where
  "no_attribute a =
     [CHR 0x27] @ ''NoneType'' @ [CHR 0x27] @ '' object has no attribute '' @
     [CHR 0x27] @ a @ [CHR 0x27]"

text \<open>
  The innermost \<^verbatim>\<open>try\<close> (lines 149 to 153): \<^verbatim>\<open>import torch\<close>, \<^verbatim>\<open>torch.load(model_path)\<close>,
  \<^verbatim>\<open>model.load_state_dict(state_dict)\<close>.
\<close>

definition load_local_checkpoint ::
  "('m, 'sd) ml_env \<Rightarrow> filesystem \<Rightarrow> string \<Rightarrow> 'm option \<Rightarrow> exn + 'm option" where
  "load_local_checkpoint env F model_path model =
     (case import_torch env of
        Some msg \<Rightarrow> Inl (ImportError msg)
      | None \<Rightarrow>
          (case nodes F model_path of
             None \<Rightarrow> Inl (OtherException (''No such file or directory: '' @ model_path))
           | Some (Unreadable msg sz) \<Rightarrow> Inl (OtherException msg)
           | Some (Readable content) \<Rightarrow>
               (case torch_load env content of
                  Inl e \<Rightarrow> Inl e
                | Inr state_dict \<Rightarrow>
                    (case model of
                       None \<Rightarrow> Inl (OtherException (no_attribute ''load_state_dict''))
                     | Some m \<Rightarrow>
                         (case load_state_dict env m state_dict of
                            Inl e \<Rightarrow> Inl e
                          | Inr m' \<Rightarrow> Inr (Some m'))))))"

text \<open>
  Lines 143 to 161: the local file first; when the innermost \<^verbatim>\<open>try\<close> raises, the handler
  logs a warning and takes \<^verbatim>\<open>models.get('yolo_nas_s', pretrained_weights='coco')\<close>.
\<close>

definition obtain_model ::
  "('m, 'sd) ml_env \<Rightarrow> filesystem \<Rightarrow> string \<Rightarrow> exn + 'm option" where
  "obtain_model env F model_path =
     (if path_exists F model_path
      then (case models_get env ''yolo_nas_s'' None of
              Inl e \<Rightarrow> Inl e
            | Inr model \<Rightarrow>
                (case load_local_checkpoint env F model_path model of
                   Inr model' \<Rightarrow> Inr model'
                 | Inl load_error \<Rightarrow> models_get env ''yolo_nas_s'' (Some ''coco'')))
      else models_get env ''yolo_nas_s'' (Some ''coco''))"

definition eval_model :: "('m, 'sd) ml_env \<Rightarrow> 'm option \<Rightarrow> exn + 'm" where
  "eval_model env model =
     (case model of
        None \<Rightarrow> Inl (OtherException (no_attribute ''eval''))
      | Some m \<Rightarrow> model_eval env m)"

text \<open>The body of the inner \<^verbatim>\<open>try\<close> (lines 137 to 177), before its handlers.\<close>

definition load_body ::
  "('m, 'sd) ml_env \<Rightarrow> string \<Rightarrow> 'm loader \<times> filesystem \<Rightarrow> (exn + 'm option) \<times> 'm loader" where
  "load_body env model_name LF =
     (case LF of (L, F) \<Rightarrow>
      case import_models env of
        Some msg \<Rightarrow> (Inl (ImportError msg), L)
      | None \<Rightarrow>
          (case map_of (model_config L) model_name of
             None \<Rightarrow> (Inl (OtherException (''KeyError: '' @ model_name)), L)
           | Some config \<Rightarrow>
               (case obtain_model env F (path_join (models_dir L) (cfg_filename config)) of
                  Inl e \<Rightarrow> (Inl e, L)
                | Inr model \<Rightarrow>
                    (case eval_model env model of
                       Inl e \<Rightarrow> (Inl e, L)
                     | Inr m \<Rightarrow>
                         let L1 = L\<lparr>model_metadata :=
                                    AList.update model_name
                                      \<lparr>lm_loaded_at = now_isoformat env,
                                       lm_version = cfg_version config,
                                       lm_status = ''loaded'',
                                       lm_memory_size_mb = estimate_model_size env m\<rparr>
                                      (model_metadata L)\<rparr>;
                             L2 = L1\<lparr>loaded_models :=
                                     AList.update model_name (Some m) (loaded_models L1)\<rparr>
                         in (Inr (Some m), L2)))))"

text \<open>The handlers of the inner \<^verbatim>\<open>try\<close> (lines 179 to 182) and of the outer one (184 to 188).\<close>

fun inner_handler :: "exn \<Rightarrow> exn" where
  "inner_handler (ImportError m) =
     ModelLoadingError (''Required ML libraries not available: '' @ m)"
| "inner_handler e = ModelLoadingError (''Failed to load YOLO-NAS model: '' @ str_exn e)"

definition outer_handler :: "string \<Rightarrow> exn \<Rightarrow> exn" where
  "outer_handler model_name e =
     (if is_integrity_error e then e
      else ModelLoadingError
             (''Unexpected error loading model '' @ model_name @ '': '' @ str_exn e))"

definition load_yolo_nas_model ::
  "('m, 'sd) ml_env \<Rightarrow> 'm loader \<times> filesystem
     \<Rightarrow> (exn + 'm option) \<times> 'm loader \<times> filesystem" where
  "load_yolo_nas_model env LF =
     (let model_name = ''yolo_nas_s'' in
      case verify_model_integrity env model_name LF of
        (Inl e, L1, F1) \<Rightarrow> (Inl (outer_handler model_name e), L1, F1)
      | (Inr ok, L1, F1) \<Rightarrow>
          (case load_body env model_name (L1, F1) of
             (Inl e, L2) \<Rightarrow> (Inl (outer_handler model_name (inner_handler e)), L2, F1)
           | (Inr model, L2) \<Rightarrow> (Inr model, L2, F1)))"

subsection \<open>\<^verbatim>\<open>get_model_status\<close>\<close>

record model_status =
  ms_file_exists :: bool
  ms_file_size_mb :: pynum
  ms_version :: string
  ms_loaded :: bool
  ms_integrity_verified :: bool

record status_report =
  sr_models_directory :: string
  sr_models_available :: "(string \<times> model_status) list"
  sr_loaded_models :: "string list"
  sr_integrity_status :: string
  sr_last_check :: string

text \<open>
  One round of the loop over \<^verbatim>\<open>self.model_config.items()\<close> (lines 205 to 224).
  \<^verbatim>\<open>verify_model_integrity\<close> raises nothing but \<^verbatim>\<open>ModelIntegrityError\<close>, so every error it
  returns reaches the handler of line 221.
\<close>

definition status_round ::
  "('m, 'sd) ml_env \<Rightarrow> string \<times> model_config_entry
     \<Rightarrow> (string \<times> model_status) list \<times> 'm loader \<times> filesystem
     \<Rightarrow> (string \<times> model_status) list \<times> 'm loader \<times> filesystem" where
  "status_round env item acc =
     (case item of (model_name, config) \<Rightarrow>
      case acc of (available, L, F) \<Rightarrow>
        let model_path = path_join (models_dir L) (cfg_filename config);
            model_status =
              \<lparr>ms_file_exists = path_exists F model_path,
               ms_file_size_mb =
                 (case nodes F model_path of
                    Some nd \<Rightarrow> Round2MB (st_size nd)
                  | None \<Rightarrow> PyInt 0),
               ms_version = cfg_version config,
               ms_loaded = (model_name \<in> set (map fst (loaded_models L))),
               ms_integrity_verified = False\<rparr>
        in if path_exists F model_path
           then (case verify_model_integrity env model_name (L, F) of
                   (Inr ok, L', F') \<Rightarrow>
                     (AList.update model_name
                        (model_status\<lparr>ms_integrity_verified := True\<rparr>) available, L', F')
                 | (Inl e, L', F') \<Rightarrow>
                     (AList.update model_name
                        (model_status\<lparr>ms_integrity_verified := False\<rparr>) available, L', F'))
           else (AList.update model_name model_status available, L, F))"

definition get_model_status ::
  "('m, 'sd) ml_env \<Rightarrow> 'm loader \<times> filesystem
     \<Rightarrow> status_report \<times> 'm loader \<times> filesystem" where
  "get_model_status env LF =
     (case LF of (L, F) \<Rightarrow>
      case fold (status_round env) (model_config L) ([], L, F) of
        (available, L', F') \<Rightarrow>
          let all_verified =
                list_all (\<lambda>model. ms_integrity_verified model)
                  (filter (\<lambda>model. ms_file_exists model) (map snd available))
          in (\<lparr>sr_models_directory = models_dir L,
               sr_models_available = available,
               sr_loaded_models = map fst (loaded_models L),
               sr_integrity_status = (if all_verified then ''verified'' else ''failed''),
               sr_last_check = now_isoformat env\<rparr>, L', F'))"

subsection \<open>\<^verbatim>\<open>initialize_all_models\<close>\<close>

definition initialize_all_models ::
  "('m, 'sd) ml_env \<Rightarrow> 'm loader \<times> filesystem \<Rightarrow> (exn + bool) \<times> 'm loader \<times> filesystem" where
  "initialize_all_models env LF =
     (case load_yolo_nas_model env LF of
        (Inl e, L', F') \<Rightarrow>
          (Inl (if is_integrity_error e \<or> is_loading_error e then e
                else ModelLoadingError
                       (''Unexpected model initialization error: '' @ str_exn e)), L', F')
      | (Inr yolo_model, L', F') \<Rightarrow>
          (case yolo_model of
             None \<Rightarrow> (Inl (ModelLoadingError ''YOLO-NAS model returned None''), L', F')
           | Some m \<Rightarrow> (Inr True, L', F')))"

section \<open>Upload routes: \<^verbatim>\<open>api/upload.py\<close>\<close>

subsection \<open>Data\<close>

datatype http_error = HTTPException nat string

record user =
  user_id :: nat
  username :: string
  can_view_all_data :: bool

text \<open>An \<^verbatim>\<open>UploadFile\<close>: its name, and what \<^verbatim>\<open>await file.read()\<close> returns or raises.\<close>

record upload_file =
  uf_filename :: string
  uf_read :: "exn + bytes"

text \<open>
  The dictionary returned by \<^verbatim>\<open>extract_image_metadata\<close>, read with \<^verbatim>\<open>metadata.get(key)\<close>:
  a missing key is \<open>None\<close>. Timestamps are integers (microseconds), coordinates and
  temperatures rationals; the code only tests them for truth and hands them on.
\<close>

record image_metadata =
  md_camera_model :: "string option"
  md_camera_software_version :: "string option"
  md_image_width :: "nat option"
  md_image_height :: "nat option"
  md_latitude :: "rat option"
  md_longitude :: "rat option"
  md_altitude :: "rat option"
  md_gps_timestamp :: "int option"
  md_capture_timestamp :: "int option"
  md_camera_settings :: "string option"

text \<open>
  A row of \<^verbatim>\<open>ThermalScan\<close>. The class is declared in \<^verbatim>\<open>app/models/thermal_scan.py\<close>, which is
  not among the sources: the columns are those that \<^verbatim>\<open>upload.py\<close> writes and reads.
\<close>

record thermal_scan =
  scan_id :: nat
  original_filename :: string
  file_path :: string
  file_size_bytes :: nat
  file_hash :: string
  camera_model :: "string option"
  camera_software_version :: "string option"
  image_width :: "nat option"
  image_height :: "nat option"
  latitude :: "rat option"
  longitude :: "rat option"
  altitude :: "rat option"
  gps_timestamp :: "int option"
  capture_timestamp :: int
  ambient_temperature :: "rat option"
  camera_settings :: "string option"
  batch_id :: string
  batch_sequence :: nat
  substation_id :: "nat option"
  uploaded_by :: nat
  scan_notes :: "string option"
  processing_status :: string
  created_at :: int
  processing_completed_at :: "int option"

record file_upload_status =
  fu_filename :: string
  fu_status :: string
  fu_message :: string
  fu_thermal_scan_id :: "nat option"

record upload_response =
  ur_batch_id :: string
  ur_total_files :: nat
  ur_successful_uploads :: nat
  ur_failed_uploads :: nat
  ur_processing_status :: string
  ur_message :: string

record batch_status =
  bs_batch_id :: string
  bs_total_images :: nat
  bs_processed_images :: nat
  bs_failed_images :: nat
  bs_status :: string
  bs_created_at :: string
  bs_processing_duration :: "string option"

text \<open>
  What the routes act on: the table of scans in insertion order with its next primary key,
  the active substations, the state \<open>'p\<close> owned by \<^verbatim>\<open>thermal_processor\<close> (stored files,
  batch identifiers), and the tasks handed to \<^verbatim>\<open>asyncio.create_task\<close>.
\<close>

record ('p, 's) world =
  thermal_scans :: "thermal_scan list"
  next_scan_id :: nat
  active_substations :: "'s list"
  processor :: 'p
  tasks :: "(string \<times> nat) list"

text \<open>
  \<^verbatim>\<open>thermal_processor\<close> (\<^verbatim>\<open>app/utils/thermal_processing.py\<close>), the \<^verbatim>\<open>ThermalScan\<close> class and the
  database session are not among the sources: their operations are parameters.
  \<open>query_error hash\<close> is the text of the exception that the lookup of line 104 raises
  for this hash, if any; \<open>commit_error scan\<close> the text of the exception that \<^verbatim>\<open>db.add\<close> or
  \<^verbatim>\<open>db.commit\<close> raises for this row, if any; \<open>refresh_error scan\<close> the text of the exception
  that \<^verbatim>\<open>db.refresh\<close> raises for it after the commit, if any. A commit that fails leaves
  the session in need of a rollback; whether a lookup or a refresh that fails does so
  depends on the database, and is what \<open>query_breaks_session\<close> and
  \<open>refresh_breaks_session\<close> say. \<open>pending_rollback_error\<close> is the text of the exception that
  a session in need of a rollback raises. \<open>format_1f d\<close> is \<^verbatim>\<open>f"{d.total_seconds():.1f}"\<close>
  for a time difference \<open>d\<close>.
\<close>

record ('p, 's) upload_env =
  create_batch_id :: "'p \<Rightarrow> string \<times> 'p"
  validate_image_file :: "string \<Rightarrow> nat \<Rightarrow> exn + (bool \<times> string)"
  calculate_file_hash :: "bytes \<Rightarrow> exn + string"
  save_uploaded_file :: "bytes \<Rightarrow> string \<Rightarrow> string \<Rightarrow> 'p \<Rightarrow> (exn + string) \<times> 'p"
  extract_image_metadata :: "string \<Rightarrow> 'p \<Rightarrow> exn + image_metadata"
  find_matching_substation :: "rat \<Rightarrow> rat \<Rightarrow> 's list \<Rightarrow> exn + nat option"
  cleanup_batch_files :: "string \<Rightarrow> 'p \<Rightarrow> 'p"
  query_error :: "string \<Rightarrow> string option"
  commit_error :: "thermal_scan \<Rightarrow> string option"
  refresh_error :: "thermal_scan \<Rightarrow> string option"
  query_breaks_session :: "string \<Rightarrow> bool"
  refresh_breaks_session :: "thermal_scan \<Rightarrow> bool"
  pending_rollback_error :: string
  now :: int
  isoformat :: "int \<Rightarrow> string"
  format_1f :: "int \<Rightarrow> string"
  processing_time_str :: "thermal_scan \<Rightarrow> string"

subsection \<open>Decimal text of a number, for the f-strings\<close>

function show_nat :: "nat \<Rightarrow> string" where
  "show_nat n =
     (if n < 10 then [char_of (48 + n)]
      else show_nat (n div 10) @ [char_of (48 + n mod 10)])"
  by pat_completeness auto
termination
  by (relation "measure (\<lambda>n. n)") auto

declare show_nat.simps [simp del]

subsection \<open>\<^verbatim>\<open>upload_thermal_images\<close>\<close>

text \<open>
  The local variables of the route, and the state of its database session \<^verbatim>\<open>db\<close>: a
  session in need of a rollback refuses every further operation until \<^verbatim>\<open>db.rollback()\<close> is
  called, which the route never does.
\<close>

record ('p, 's) loop_state =
  ls_world :: "('p, 's) world"
  needs_rollback :: bool
  successful_uploads :: nat
  failed_uploads :: nat
  upload_results :: "file_upload_status list"

definition truthy :: "rat option \<Rightarrow> bool" where
  "truthy v = (case v of None \<Rightarrow> False | Some x \<Rightarrow> x \<noteq> 0)"

text \<open>Lines 121 to 128.\<close>

definition match_substation ::
  "('p, 's) upload_env \<Rightarrow> image_metadata \<Rightarrow> 's list \<Rightarrow> exn + nat option" where
  "match_substation env metadata substations =
     (if truthy (md_latitude metadata) \<and> truthy (md_longitude metadata)
      then find_matching_substation env
             (the (md_latitude metadata)) (the (md_longitude metadata)) substations
      else Inr None)"

text \<open>
  Modelled from the spec: the defaults of the columns \<^verbatim>\<open>processing_status\<close>, \<^verbatim>\<open>created_at\<close>
  and \<^verbatim>\<open>processing_completed_at\<close>, which the constructor call of lines 131 to 152 does not
  pass and which are declared in the missing \<^verbatim>\<open>thermal_scan.py\<close>: a new record has status
  pending, is created now and has no completion time. Every other field is an argument of
  the call; the primary key is the one that \<^verbatim>\<open>db.refresh\<close> reads back after the commit.
\<close>

definition ThermalScan ::
  "('p, 's) upload_env \<Rightarrow> nat \<Rightarrow> upload_file \<Rightarrow> string \<Rightarrow> nat \<Rightarrow> string \<Rightarrow> image_metadata
     \<Rightarrow> rat option \<Rightarrow> string \<Rightarrow> nat \<Rightarrow> nat option \<Rightarrow> user \<Rightarrow> string option \<Rightarrow> thermal_scan" where
  "ThermalScan env new_id file path file_size hash metadata ambient batch sequence
     substation current_user notes' =
     \<lparr>scan_id = new_id,
      original_filename = uf_filename file,
      file_path = path,
      file_size_bytes = file_size,
      file_hash = hash,
      camera_model = md_camera_model metadata,
      camera_software_version = md_camera_software_version metadata,
      image_width = md_image_width metadata,
      image_height = md_image_height metadata,
      latitude = md_latitude metadata,
      longitude = md_longitude metadata,
      altitude = md_altitude metadata,
      gps_timestamp = md_gps_timestamp metadata,
      capture_timestamp =
        (case md_capture_timestamp metadata of Some t \<Rightarrow> t | None \<Rightarrow> now env),
      ambient_temperature = ambient,
      camera_settings = md_camera_settings metadata,
      batch_id = batch,
      batch_sequence = sequence,
      substation_id = substation,
      uploaded_by = user_id current_user,
      scan_notes = notes',
      processing_status = ''pending'',
      created_at = now env,
      processing_completed_at = None\<rparr>"

text \<open>The constructor call \<^verbatim>\<open>FileUploadStatus(filename=..., status=..., message=..., thermal_scan_id=...)\<close>.\<close>

definition FileUploadStatus ::
  "string \<Rightarrow> string \<Rightarrow> string \<Rightarrow> nat option \<Rightarrow> file_upload_status" where
  "FileUploadStatus name st msg i =
     \<lparr>fu_filename = name, fu_status = st, fu_message = msg, fu_thermal_scan_id = i\<rparr>"

definition add_result ::
  "file_upload_status \<Rightarrow> ('p, 's) loop_state \<Rightarrow> ('p, 's) loop_state" where
  "add_result r st = st\<lparr>upload_results := upload_results st @ [r]\<rparr>"

text \<open>
  Line 104, \<^verbatim>\<open>db.query(ThermalScan).filter(ThermalScan.file_hash == file_hash).first()\<close>: the
  first row with this hash, or an exception, and the session as the call leaves it.
\<close>

definition find_by_hash ::
  "('p, 's) upload_env \<Rightarrow> string \<Rightarrow> ('p, 's) loop_state
     \<Rightarrow> (exn + thermal_scan option) \<times> ('p, 's) loop_state" where
  "find_by_hash env hash st =
     (if needs_rollback st then (Inl (OtherException (pending_rollback_error env)), st)
      else (case query_error env hash of
              Some msg \<Rightarrow>
                (Inl (OtherException msg), st\<lparr>needs_rollback := query_breaks_session env hash\<rparr>)
            | None \<Rightarrow>
                (Inr (find (\<lambda>scan. file_hash scan = hash) (thermal_scans (ls_world st))), st)))"

text \<open>
  Lines 154 to 156, \<^verbatim>\<open>db.add\<close>, \<^verbatim>\<open>db.commit\<close> and \<^verbatim>\<open>db.refresh\<close>. A commit that fails adds no row
  and leaves the session in need of a rollback; a refresh that fails comes after the commit,
  so the row is in the table.
\<close>

definition add_commit_refresh ::
  "('p, 's) upload_env \<Rightarrow> thermal_scan \<Rightarrow> ('p, 's) loop_state
     \<Rightarrow> exn option \<times> ('p, 's) loop_state" where
  "add_commit_refresh env scan st =
     (if needs_rollback st then (Some (OtherException (pending_rollback_error env)), st)
      else (case commit_error env scan of
              Some msg \<Rightarrow> (Some (OtherException msg), st\<lparr>needs_rollback := True\<rparr>)
            | None \<Rightarrow>
                let st' = st\<lparr>ls_world :=
                               (ls_world st)
                                 \<lparr>thermal_scans := thermal_scans (ls_world st) @ [scan],
                                  next_scan_id := Suc (next_scan_id (ls_world st))\<rparr>\<rparr>
                in (case refresh_error env scan of
                      Some msg \<Rightarrow>
                        (Some (OtherException msg),
                         st'\<lparr>needs_rollback := refresh_breaks_session env scan\<rparr>)
                    | None \<Rightarrow> (None, st'))))"

text \<open>
  The body of the \<^verbatim>\<open>try\<close> of one round (lines 85 to 164): \<open>Some e\<close> when it raises \<open>e\<close>,
  with the state as the raise leaves it. First its second half (lines 115 to 164), for a
  file that is valid and no duplicate.
\<close>

definition store_file ::
  "('p, 's) upload_env \<Rightarrow> string \<Rightarrow> rat option \<Rightarrow> string option \<Rightarrow> user
     \<Rightarrow> nat \<Rightarrow> upload_file \<Rightarrow> bytes \<Rightarrow> string \<Rightarrow> ('p, 's) loop_state
     \<Rightarrow> exn option \<times> ('p, 's) loop_state" where
  "store_file env batch ambient notes' current_user sequence file file_content hash st =
     (case save_uploaded_file env file_content (uf_filename file) batch
             (processor (ls_world st)) of
        (Inl e, p') \<Rightarrow> (Some e, st\<lparr>ls_world := (ls_world st)\<lparr>processor := p'\<rparr>\<rparr>)
      | (Inr path, p') \<Rightarrow>
          let W1 = (ls_world st)\<lparr>processor := p'\<rparr>;
              st1 = st\<lparr>ls_world := W1\<rparr>
          in (case extract_image_metadata env path p' of
                Inl e \<Rightarrow> (Some e, st1)
              | Inr metadata \<Rightarrow>
                  (case match_substation env metadata (active_substations W1) of
                     Inl e \<Rightarrow> (Some e, st1)
                   | Inr substation \<Rightarrow>
                       let scan = ThermalScan env (next_scan_id W1) file path
                                    (length file_content) hash metadata ambient
                                    batch sequence substation current_user notes'
                       in (case add_commit_refresh env scan st1 of
                             (Some e, st2) \<Rightarrow> (Some e, st2)
                           | (None, st2) \<Rightarrow>
                               (None,
                                add_result
                                  (FileUploadStatus (uf_filename file) ''uploaded''
                                     ''Successfully uploaded and queued for processing''
                                     (Some (scan_id scan)))
                                  (st2\<lparr>successful_uploads := successful_uploads st2 + 1\<rparr>))))))"

definition try_file ::
  "('p, 's) upload_env \<Rightarrow> string \<Rightarrow> rat option \<Rightarrow> string option \<Rightarrow> user
     \<Rightarrow> nat \<times> upload_file \<Rightarrow> ('p, 's) loop_state \<Rightarrow> exn option \<times> ('p, 's) loop_state" where
  "try_file env batch ambient notes' current_user item st =
     (case item of (sequence, file) \<Rightarrow>
      case uf_read file of
        Inl e \<Rightarrow> (Some e, st)
      | Inr file_content \<Rightarrow>
          (case validate_image_file env (uf_filename file) (length file_content) of
             Inl e \<Rightarrow> (Some e, st)
           | Inr (is_valid, validation_message) \<Rightarrow>
               if \<not> is_valid
               then (None,
                     add_result
                       (FileUploadStatus (uf_filename file) ''failed''
                          validation_message None)
                       (st\<lparr>failed_uploads := failed_uploads st + 1\<rparr>))
               else
                 (case calculate_file_hash env file_content of
                    Inl e \<Rightarrow> (Some e, st)
                  | Inr hash \<Rightarrow>
                      (case find_by_hash env hash st of
                         (Inl e, st') \<Rightarrow> (Some e, st')
                       | (Inr (Some existing_scan), st') \<Rightarrow>
                           (None,
                            add_result
                              (FileUploadStatus (uf_filename file) ''skipped''
                                 ''Duplicate file already processed''
                                 (Some (scan_id existing_scan))) st')
                       | (Inr None, st') \<Rightarrow>
                           store_file env batch ambient notes' current_user sequence file
                             file_content hash st'))))"

text \<open>One round with the handler of lines 166 to 173.\<close>

definition process_file ::
  "('p, 's) upload_env \<Rightarrow> string \<Rightarrow> rat option \<Rightarrow> string option \<Rightarrow> user
     \<Rightarrow> nat \<times> upload_file \<Rightarrow> ('p, 's) loop_state \<Rightarrow> ('p, 's) loop_state" where
  "process_file env batch ambient notes' current_user item st =
     (case try_file env batch ambient notes' current_user item st of
        (None, st') \<Rightarrow> st'
      | (Some e, st') \<Rightarrow>
          add_result
            (FileUploadStatus (uf_filename (snd item)) ''failed''
               (''Processing error: '' @ str_exn e) None)
            (st'\<lparr>failed_uploads := failed_uploads st' + 1\<rparr>))"

text \<open>\<^verbatim>\<open>for sequence, file in enumerate(files, 1)\<close>, from the state of lines 73 to 76.\<close>

definition upload_loop ::
  "('p, 's) upload_env \<Rightarrow> string \<Rightarrow> rat option \<Rightarrow> string option \<Rightarrow> user
     \<Rightarrow> upload_file list \<Rightarrow> ('p, 's) world \<Rightarrow> ('p, 's) loop_state" where
  "upload_loop env batch ambient notes' current_user files W =
     fold (process_file env batch ambient notes' current_user) (List.enumerate 1 files)
       \<lparr>ls_world = W, needs_rollback = False, successful_uploads = 0, failed_uploads = 0,
        upload_results = []\<rparr>"

definition upload_thermal_images ::
  "('p, 's) upload_env \<Rightarrow> upload_file list \<Rightarrow> rat option \<Rightarrow> string option \<Rightarrow> user
     \<Rightarrow> ('p, 's) world \<Rightarrow> (http_error + upload_response) \<times> ('p, 's) world" where
  "upload_thermal_images env files ambient notes' current_user W =
     (if files = [] then (Inl (HTTPException 400 ''No files provided''), W)
      else if length files > 5000
      then (Inl (HTTPException 400 ''Maximum 5000 files allowed per batch''), W)
      else
        (case create_batch_id env (processor W) of
           (batch, p1) \<Rightarrow>
             let st = upload_loop env batch ambient notes' current_user files (W\<lparr>processor := p1\<rparr>);
                 W' = ls_world st
             in if successful_uploads st > 0
                then (Inr \<lparr>ur_batch_id = batch,
                           ur_total_files = length files,
                           ur_successful_uploads = successful_uploads st,
                           ur_failed_uploads = failed_uploads st,
                           ur_processing_status = ''queued'',
                           ur_message =
                             ''Batch '' @ batch @ '': '' @ show_nat (successful_uploads st) @
                             '' files uploaded successfully, '' @ show_nat (failed_uploads st) @
                             '' failed. Processing started.''\<rparr>,
                      W'\<lparr>tasks := tasks W' @ [(batch, user_id current_user)]\<rparr>)
                else (Inr \<lparr>ur_batch_id = batch,
                           ur_total_files = length files,
                           ur_successful_uploads = successful_uploads st,
                           ur_failed_uploads = failed_uploads st,
                           ur_processing_status = ''idle'',
                           ur_message =
                             ''Batch '' @ batch @ '': No files processed successfully. '' @
                             show_nat (failed_uploads st) @ '' failed.''\<rparr>,
                      W')))"

subsection \<open>\<^verbatim>\<open>get_batch_status\<close>\<close>

text \<open>\<^verbatim>\<open>db.query(ThermalScan).filter(ThermalScan.batch_id == batch_id).all()\<close>\<close>

definition batch_scans :: "string \<Rightarrow> ('p, 's) world \<Rightarrow> thermal_scan list" where
  "batch_scans batch W = filter (\<lambda>scan. batch_id scan = batch) (thermal_scans W)"

text \<open>
  Python's \<^verbatim>\<open>min(xs, key=k)\<close> and \<^verbatim>\<open>max(xs, key=k)\<close> on a list \<open>x # xs\<close>: the first element
  with the least (greatest) key.
\<close>

definition py_min :: "('a \<Rightarrow> int) \<Rightarrow> 'a \<Rightarrow> 'a list \<Rightarrow> 'a" where
  "py_min key x xs = fold (\<lambda>y m. if key y < key m then y else m) xs x"

definition py_max :: "('a \<Rightarrow> int) \<Rightarrow> 'a \<Rightarrow> 'a list \<Rightarrow> 'a" where
  "py_max key x xs = fold (\<lambda>y m. if key m < key y then y else m) xs x"

definition count_status :: "string \<Rightarrow> thermal_scan list \<Rightarrow> nat" where
  "count_status v scans = length (filter (\<lambda>s. processing_status s = v) scans)"

text \<open>Lines 230 to 240.\<close>

definition overall_status :: "thermal_scan list \<Rightarrow> string" where
  "overall_status scans =
     (let total_images = length scans;
          processed_images = count_status ''completed'' scans;
          failed_images = count_status ''failed'' scans;
          pending_images = count_status ''pending'' scans;
          processing_images = count_status ''processing'' scans
      in if failed_images = total_images then ''failed''
         else if processed_images = total_images then ''completed''
         else if processing_images > 0 then ''processing''
         else if pending_images > 0 then ''pending''
         else ''unknown'')"

text \<open>Lines 243 to 250.\<close>

definition processing_duration :: "('p, 's) upload_env \<Rightarrow> thermal_scan list \<Rightarrow> string option" where
  "processing_duration env scans =
     (case scans of
        [] \<Rightarrow> None
      | s # ss \<Rightarrow>
          let first_scan = py_min created_at s ss;
              completed_scans = filter (\<lambda>s. processing_completed_at s \<noteq> None) scans
          in (case completed_scans of
                [] \<Rightarrow> None
              | c # cs \<Rightarrow>
                  let last_completed = py_max (\<lambda>x. the (processing_completed_at x)) c cs
                  in Some (format_1f env
                             (the (processing_completed_at last_completed) - created_at first_scan)
                           @ '' seconds'')))"

definition access_denied :: "user \<Rightarrow> thermal_scan list \<Rightarrow> bool" where
  "access_denied current_user scans =
     (\<not> can_view_all_data current_user \<and>
      \<not> list_ex (\<lambda>scan. uploaded_by scan = user_id current_user) scans)"

definition get_batch_status ::
  "('p, 's) upload_env \<Rightarrow> string \<Rightarrow> user \<Rightarrow> ('p, 's) world \<Rightarrow> http_error + batch_status" where
  "get_batch_status env batch current_user W =
     (let scans = batch_scans batch W
      in if scans = [] then Inl (HTTPException 404 ''Batch not found'')
         else if access_denied current_user scans
         then Inl (HTTPException 403 ''Access denied to this batch'')
         else Inr \<lparr>bs_batch_id = batch,
                   bs_total_images = length scans,
                   bs_processed_images = count_status ''completed'' scans,
                   bs_failed_images = count_status ''failed'' scans,
                   bs_status = overall_status scans,
                   bs_created_at =
                     (case scans of [] \<Rightarrow> [] | s # ss \<Rightarrow> isoformat env (created_at s)),
                   bs_processing_duration = processing_duration env scans\<rparr>)"

subsection \<open>\<^verbatim>\<open>get_batch_files\<close>\<close>

definition get_batch_files ::
  "('p, 's) upload_env \<Rightarrow> string \<Rightarrow> user \<Rightarrow> ('p, 's) world
     \<Rightarrow> http_error + file_upload_status list" where
  "get_batch_files env batch current_user W =
     (let scans = batch_scans batch W
      in if scans = [] then Inl (HTTPException 404 ''Batch not found'')
         else if access_denied current_user scans
         then Inl (HTTPException 403 ''Access denied to this batch'')
         else Inr (map (\<lambda>scan.
                     FileUploadStatus (original_filename scan) (processing_status scan)
                       (''Processing time: '' @ processing_time_str env scan)
                       (Some (scan_id scan)))
                   (sort_key batch_sequence scans)))"

subsection \<open>\<^verbatim>\<open>delete_batch\<close>\<close>

text \<open>\<^verbatim>\<open>db.delete(scan)\<close> removes the row with the primary key of \<open>scan\<close>.\<close>

definition db_delete :: "thermal_scan \<Rightarrow> thermal_scan list \<Rightarrow> thermal_scan list" where
  "db_delete scan rows = filter (\<lambda>r. scan_id r \<noteq> scan_id scan) rows"

definition delete_batch ::
  "('p, 's) upload_env \<Rightarrow> string \<Rightarrow> user \<Rightarrow> ('p, 's) world
     \<Rightarrow> (http_error + string) \<times> ('p, 's) world" where
  "delete_batch env batch current_user W =
     (let scans = batch_scans batch W
      in if scans = [] then (Inl (HTTPException 404 ''Batch not found''), W)
         else (Inr (''Batch '' @ batch @ '' deleted successfully''),
               W\<lparr>thermal_scans := fold db_delete scans (thermal_scans W),
                 processor := cleanup_batch_files env batch (processor W)\<rparr>))"

subsection \<open>The batch aggregates, as sets\<close>

text \<open>The completion times of the records of a batch that have one.\<close>

definition completion_times :: "thermal_scan list \<Rightarrow> int set" where
  "completion_times scans = {t. \<exists>s\<in>set scans. processing_completed_at s = Some t}"

subsection \<open>The outcomes of one round of the upload loop\<close>

text \<open>The state after a round that stored a file and committed its record.\<close>

definition stored ::
  "upload_file \<Rightarrow> thermal_scan \<Rightarrow> 'p \<Rightarrow> ('p, 's) loop_state \<Rightarrow> ('p, 's) loop_state" where
  "stored file scan p' st =
     add_result
       (FileUploadStatus (uf_filename file) ''uploaded''
          ''Successfully uploaded and queued for processing'' (Some (scan_id scan)))
       (st\<lparr>ls_world := (ls_world st)
              \<lparr>processor := p',
               thermal_scans := thermal_scans (ls_world st) @ [scan],
               next_scan_id := Suc (next_scan_id (ls_world st))\<rparr>,
           successful_uploads := successful_uploads st + 1\<rparr>)"

text \<open>
  The state after a round that ended in a failed outcome and added no row; \<open>nr\<close> says
  whether the session needs a rollback afterwards.
\<close>

definition rejected ::
  "upload_file \<Rightarrow> string \<Rightarrow> 'p \<Rightarrow> bool \<Rightarrow> ('p, 's) loop_state \<Rightarrow> ('p, 's) loop_state" where
  "rejected file msg p' nr st =
     add_result (FileUploadStatus (uf_filename file) ''failed'' msg None)
       (st\<lparr>ls_world := (ls_world st)\<lparr>processor := p'\<rparr>,
           needs_rollback := nr,
           failed_uploads := failed_uploads st + 1\<rparr>)"

text \<open>
  The state after a round whose commit went through and whose \<^verbatim>\<open>db.refresh\<close> raised: the row
  is stored and the outcome is failed; \<open>nr\<close> says whether the session needs a rollback
  afterwards.
\<close>

definition orphaned ::
  "upload_file \<Rightarrow> string \<Rightarrow> thermal_scan \<Rightarrow> 'p \<Rightarrow> bool \<Rightarrow> ('p, 's) loop_state
     \<Rightarrow> ('p, 's) loop_state" where
  "orphaned file msg scan p' nr st =
     add_result (FileUploadStatus (uf_filename file) ''failed'' msg None)
       (st\<lparr>ls_world := (ls_world st)
              \<lparr>processor := p',
               thermal_scans := thermal_scans (ls_world st) @ [scan],
               next_scan_id := Suc (next_scan_id (ls_world st))\<rparr>,
           needs_rollback := nr,
           failed_uploads := failed_uploads st + 1\<rparr>)"

subsection \<open>Paths and notions used to state the properties of the loader\<close>

definition metadata_path :: "'m loader \<Rightarrow> string \<Rightarrow> string" where
  "metadata_path L model_name = path_join (models_dir L) (model_name @ ''_metadata.json'')"

definition model_path :: "'m loader \<Rightarrow> model_config_entry \<Rightarrow> string" where
  "model_path L config = path_join (models_dir L) (cfg_filename config)"

text \<open>The entry that a round of the status loop computes for an artifact.\<close>

definition status_entry ::
  "('m, 'sd) ml_env \<Rightarrow> 'm loader \<Rightarrow> filesystem \<Rightarrow> string \<Rightarrow> model_config_entry \<Rightarrow> model_status" where
  "status_entry env L F name config =
     \<lparr>ms_file_exists = path_exists F (model_path L config),
      ms_file_size_mb =
        (case nodes F (model_path L config) of
           Some nd \<Rightarrow> Round2MB (st_size nd)
         | None \<Rightarrow> PyInt 0),
      ms_version = cfg_version config,
      ms_loaded = (name \<in> set (map fst (loaded_models L))),
      ms_integrity_verified =
        (path_exists F (model_path L config) \<and>
         fst (verify_model_integrity env name (L, F)) = Inr True)\<rparr>"

text \<open>A call of \<^verbatim>\<open>verify_model_integrity\<close> pins a checksum: the file is readable and no checksum is pinned.\<close>

definition first_use :: "'m loader \<Rightarrow> filesystem \<Rightarrow> string \<Rightarrow> bool" where
  "first_use L F name =
     (case map_of (model_config L) name of
        None \<Rightarrow> False
      | Some config \<Rightarrow>
          (case nodes F (model_path L config) of
             Some (Readable content) \<Rightarrow> expected_sha256 config = None
           | _ \<Rightarrow> False))"

section \<open>Scenarios\<close>

definition ends_with :: "string \<Rightarrow> string \<Rightarrow> bool" where
  "ends_with ext name = (drop (length name - length ext) name = ext)"

definition no_metadata :: image_metadata where
  "no_metadata =
     \<lparr>md_camera_model = None, md_camera_software_version = None, md_image_width = None,
      md_image_height = None, md_latitude = None, md_longitude = None, md_altitude = None,
      md_gps_timestamp = None, md_capture_timestamp = None, md_camera_settings = None\<rparr>"

text \<open>
  A processor for the scenarios: its state is the number of batch identifiers handed out
  and the stored files; names ending in \<^verbatim>\<open>.jpg\<close> are valid; the hash of a file is its
  content; storing a file named \<^verbatim>\<open>full.jpg\<close> raises; the database never fails.
\<close>

definition demo_env :: "(nat \<times> (string \<times> bytes) list, unit) upload_env" where
  "demo_env =
     \<lparr>create_batch_id = (\<lambda>p. (''batch-'' @ show_nat (fst p), (Suc (fst p), snd p))),
      validate_image_file =
        (\<lambda>name size. Inr (if ends_with ''.jpg'' name then (True, ''Valid file'')
                           else (False, ''Unsupported file type''))),
      calculate_file_hash = (\<lambda>content. Inr content),
      save_uploaded_file =
        (\<lambda>content name batch p.
           if name = ''full.jpg'' then (Inl (OtherException ''No space left on device''), p)
           else (Inr (batch @ ''/'' @ name), (fst p, snd p @ [(batch @ ''/'' @ name, content)]))),
      extract_image_metadata = (\<lambda>path p. Inr no_metadata),
      find_matching_substation = (\<lambda>lat lon subs. Inr None),
      cleanup_batch_files = (\<lambda>batch p. p),
      query_error = (\<lambda>hash. None),
      commit_error = (\<lambda>scan. None),
      refresh_error = (\<lambda>scan. None),
      query_breaks_session = (\<lambda>hash. False),
      refresh_breaks_session = (\<lambda>scan. False),
      pending_rollback_error = ''Session needs rollback'',
      now = 0,
      isoformat = (\<lambda>t. show_nat (nat t)),
      format_1f = (\<lambda>d. show_nat (nat d)),
      processing_time_str = (\<lambda>scan. ''N/A'')\<rparr>"

definition demo_user :: user where
  "demo_user = \<lparr>user_id = 7, username = ''inspector'', can_view_all_data = False\<rparr>"

definition demo_scan ::
  "nat \<Rightarrow> string \<Rightarrow> nat \<Rightarrow> nat \<Rightarrow> string \<Rightarrow> int \<Rightarrow> int option \<Rightarrow> thermal_scan" where
  "demo_scan i batch sequence uploader st created completed =
     (ThermalScan demo_env i \<lparr>uf_filename = ''img.jpg'', uf_read = Inr []\<rparr> ''p'' 0
        (show_nat i) no_metadata None batch sequence None
        \<lparr>user_id = uploader, username = ''u'', can_view_all_data = False\<rparr> None)
     \<lparr>processing_status := st, created_at := created, processing_completed_at := completed\<rparr>"

definition status_world :: "(nat \<times> (string \<times> bytes) list, unit) world" where
  "status_world =
     \<lparr>thermal_scans =
        [demo_scan 1 ''b1'' 1 7 ''completed'' 10 (Some 80),
         demo_scan 2 ''b1'' 2 7 ''processing'' 20 None,
         demo_scan 3 ''b2'' 1 8 ''pending'' 30 None,
         demo_scan 4 ''b1'' 3 7 ''failed'' 5 (Some 60)],
      next_scan_id = 5, active_substations = [], processor = (0, []), tasks = []\<rparr>"

definition empty_world :: "(nat \<times> (string \<times> bytes) list, unit) world" where
  "empty_world =
     \<lparr>thermal_scans = [], next_scan_id = 1, active_substations = [],
      processor = (0, []), tasks = []\<rparr>"

definition mixed_files :: "upload_file list" where
  "mixed_files =
     [\<lparr>uf_filename = ''a.jpg'', uf_read = Inr ''AAA''\<rparr>,
      \<lparr>uf_filename = ''full.jpg'', uf_read = Inr ''BBB''\<rparr>,
      \<lparr>uf_filename = ''c.jpg'', uf_read = Inl (OtherException ''connection reset'')\<rparr>,
      \<lparr>uf_filename = ''d.jpg'', uf_read = Inr ''DDD''\<rparr>]"

definition twin_files :: "upload_file list" where
  "twin_files =
     [\<lparr>uf_filename = ''x.jpg'', uf_read = Inr ''XX''\<rparr>,
      \<lparr>uf_filename = ''x.txt'', uf_read = Inr ''XX''\<rparr>]"

definition full_file :: upload_file where
  "full_file = \<lparr>uf_filename = ''full.jpg'', uf_read = Inr ''BBB''\<rparr>"

definition start_state :: "(nat \<times> (string \<times> bytes) list, unit) loop_state" where
  "start_state =
     \<lparr>ls_world = empty_world, needs_rollback = False, successful_uploads = 0,
      failed_uploads = 0, upload_results = []\<rparr>"

definition twin_jpg_files :: "upload_file list" where
  "twin_jpg_files =
     [\<lparr>uf_filename = ''x.jpg'', uf_read = Inr ''XX''\<rparr>,
      \<lparr>uf_filename = ''y.jpg'', uf_read = Inr ''XX''\<rparr>]"

definition after_batch_id :: "(nat \<times> (string \<times> bytes) list, unit) world" where
  "after_batch_id = empty_world\<lparr>processor := (1, [])\<rparr>"

definition dup_file :: upload_file where
  "dup_file = \<lparr>uf_filename = ''dup.jpg'', uf_read = Inr ''1''\<rparr>"

definition status_state :: "(nat \<times> (string \<times> bytes) list, unit) loop_state" where
  "status_state =
     \<lparr>ls_world = status_world, needs_rollback = False, successful_uploads = 0,
      failed_uploads = 0, upload_results = []\<rparr>"

datatype demo_model = DemoModel string string bool

text \<open>
  Libraries for the scenarios. The digest of a file is its content behind a prefix; a
  checkpoint with the bytes \<^verbatim>\<open>corrupt\<close> does not deserialize; a model records its
  architecture, where its weights come from, and whether \<^verbatim>\<open>eval()\<close> was called.
\<close>

definition demo_ml :: "(demo_model, bytes) ml_env" where
  "demo_ml =
     \<lparr>sha256_hexdigest = (\<lambda>bs. ''sha:'' @ bs),
      json_dump = (\<lambda>md. ''checksum='' @ sm_checksum md),
      now_isoformat = ''2024-01-01T00:00:00'',
      import_models = None,
      import_torch = None,
      models_get =
        (\<lambda>name weights.
           case weights of
             None \<Rightarrow> Inr (Some (DemoModel name ''random'' False))
           | Some w \<Rightarrow> Inr (Some (DemoModel name (''remote:'' @ w) False))),
      torch_load =
        (\<lambda>content. if content = ''corrupt'' then Inl (OtherException ''invalid load key'')
                    else Inr content),
      load_state_dict =
        (\<lambda>m sd. case m of DemoModel arch w e \<Rightarrow> Inr (DemoModel arch (''local:'' @ sd) e)),
      model_eval = (\<lambda>m. case m of DemoModel arch w e \<Rightarrow> Inr (DemoModel arch w True)),
      tensor_sizes = (\<lambda>m. Inr ([(10, 4)], []))\<rparr>"

definition fresh_loader :: "demo_model loader" where
  "fresh_loader = ProductionModelLoader ''models''"

definition yolo_config :: "string option \<Rightarrow> model_config_entry" where
  "yolo_config pinned =
     \<lparr>cfg_filename = ''yolo_nas_s_coco.pth'',
      expected_sha256 = pinned,
      url = ''https://sghub.deci.ai/models/yolo_nas_s_coco.pth'',
      description = ''YOLO-NAS Small model trained on COCO dataset'',
      cfg_version = ''1.0''\<rparr>"

definition pinned_loader :: "string \<Rightarrow> demo_model loader" where
  "pinned_loader checksum =
     fresh_loader\<lparr>model_config := [(''yolo_nas_s'', yolo_config (Some checksum))]\<rparr>"

definition disk :: "node option \<Rightarrow> string option \<Rightarrow> filesystem" where
  "disk model_file meta_error =
     \<lparr>nodes = (\<lambda>p. if p = ''models/yolo_nas_s_coco.pth'' then model_file else None),
      write_error = (\<lambda>p. if p = ''models/yolo_nas_s_metadata.json'' then meta_error else None)\<rparr>"

definition offline_ml :: "(demo_model, bytes) ml_env" where
  "offline_ml =
     demo_ml\<lparr>models_get :=
       (\<lambda>name weights.
          case weights of
            None \<Rightarrow> Inr (Some (DemoModel name ''random'' False))
          | Some w \<Rightarrow> Inl (OtherException ''Connection refused''))\<rparr>"

definition no_eval_ml :: "(demo_model, bytes) ml_env" where
  "no_eval_ml = demo_ml\<lparr>model_eval := (\<lambda>m. Inl (OtherException ''eval failed''))\<rparr>"

definition corrupt_disk :: filesystem where
  "corrupt_disk = disk (Some (Readable ''corrupt'')) None"

definition remote_model :: demo_model where
  "remote_model = DemoModel ''yolo_nas_s'' ''remote:coco'' True"

definition tampered_disk :: filesystem where
  "tampered_disk = disk (Some (Readable ''tampered'')) None"

definition good_disk :: filesystem where
  "good_disk = disk (Some (Readable ''weights'')) None"

definition x_file :: upload_file where
  "x_file = \<lparr>uf_filename = ''x.jpg'', uf_read = Inr ''XX''\<rparr>"

definition y_file :: upload_file where
  "y_file = \<lparr>uf_filename = ''y.jpg'', uf_read = Inr ''XX''\<rparr>"

definition x_scan :: thermal_scan where
  "x_scan = ThermalScan demo_env 1 x_file ''batch-0/x.jpg'' 2 ''XX'' no_metadata None
              ''batch-0'' 1 None demo_user None"

text \<open>
  A database that refuses the row of a file named \<^verbatim>\<open>bad.jpg\<close> at the commit, and accepts
  every other row.
\<close>

definition failed_commit_env :: "(nat \<times> (string \<times> bytes) list, unit) upload_env" where
  "failed_commit_env =
     demo_env\<lparr>commit_error :=
       (\<lambda>scan. if original_filename scan = ''bad.jpg'' then Some ''DataError: value too long''
                else None)\<rparr>"

definition failed_commit_files :: "upload_file list" where
  "failed_commit_files =
     [\<lparr>uf_filename = ''a.jpg'', uf_read = Inr ''AAA''\<rparr>,
      \<lparr>uf_filename = ''bad.jpg'', uf_read = Inr ''BBB''\<rparr>,
      \<lparr>uf_filename = ''c.jpg'', uf_read = Inr ''CCC''\<rparr>]"

definition twin_after_bad_files :: "upload_file list" where
  "twin_after_bad_files =
     [\<lparr>uf_filename = ''x.jpg'', uf_read = Inr ''XX''\<rparr>,
      \<lparr>uf_filename = ''bad.jpg'', uf_read = Inr ''BBB''\<rparr>,
      \<lparr>uf_filename = ''y.jpg'', uf_read = Inr ''XX''\<rparr>]"

definition other_files :: "upload_file list" where
  "other_files =
     [\<lparr>uf_filename = ''a.jpg'', uf_read = Inr ''AAA''\<rparr>,
      \<lparr>uf_filename = ''c.jpg'', uf_read = Inr ''CCC''\<rparr>]"

text \<open>A database whose \<^verbatim>\<open>db.refresh\<close> raises for the row of a file named \<^verbatim>\<open>a.jpg\<close>.\<close>

definition failed_refresh_env :: "(nat \<times> (string \<times> bytes) list, unit) upload_env" where
  "failed_refresh_env =
     demo_env\<lparr>refresh_error :=
       (\<lambda>scan. if original_filename scan = ''a.jpg'' then Some ''connection lost''
                else None)\<rparr>"

definition timing_world :: "(nat \<times> (string \<times> bytes) list, unit) world" where
  "timing_world =
     \<lparr>thermal_scans =
        [demo_scan 1 ''f1'' 1 7 ''failed'' 0 (Some 100),
         demo_scan 2 ''f1'' 2 7 ''pending'' 5 None],
      next_scan_id = 3, active_substations = [], processor = (0, []), tasks = []\<rparr>"

section \<open>Properties of the batch routes\<close>

lemma length_filter_all:
  "length (filter P xs) = length xs \<longleftrightarrow> (\<forall>x\<in>set xs. P x)"
proof (induction xs)
  case Nil
  show ?case by simp
next
  case (Cons a xs)
  have "length (filter P xs) \<le> length xs" by (rule length_filter_le)
  then have "length (filter P xs) \<noteq> Suc (length xs)" by arith
  with Cons show ?case by (cases "P a") auto
qed

lemma count_status_all:
  "count_status v scans = length scans \<longleftrightarrow> (\<forall>s\<in>set scans. processing_status s = v)"
  unfolding count_status_def by (rule length_filter_all)

lemma count_status_pos:
  "0 < count_status v scans \<longleftrightarrow> (\<exists>s\<in>set scans. processing_status s = v)"
  unfolding count_status_def by (simp add: filter_empty_conv)

lemma Min_insert_min:
  fixes a b :: int
  assumes "finite S"
  shows "Min (insert (min a b) S) = Min (insert b (insert a S))"
proof (cases "S = {}")
  case True
  then show ?thesis by (simp add: min.commute)
next
  case False
  with assms show ?thesis by (simp add: min.assoc min.commute min.left_commute)
qed

lemma Max_insert_max:
  fixes a b :: int
  assumes "finite S"
  shows "Max (insert (max a b) S) = Max (insert b (insert a S))"
proof (cases "S = {}")
  case True
  then show ?thesis by (simp add: max.commute)
next
  case False
  with assms show ?thesis by (simp add: max.assoc max.commute max.left_commute)
qed

lemma py_min_key: "key (py_min key x xs) = Min (key ` set (x # xs))"
  unfolding py_min_def
proof (induction xs arbitrary: x)
  case Nil
  show ?case by simp
next
  case (Cons a xs)
  have "key (if key a < key x then a else x) = min (key a) (key x)" by (simp add: min_def)
  then show ?case
    using Min_insert_min [of "key ` set xs" "key a" "key x"] by (simp add: Cons.IH)
qed

lemma py_max_key: "key (py_max key x xs) = Max (key ` set (x # xs))"
  unfolding py_max_def
proof (induction xs arbitrary: x)
  case Nil
  show ?case by simp
next
  case (Cons a xs)
  have "key (if key x < key a then a else x) = max (key a) (key x)" by (simp add: max_def)
  then show ?case
    using Max_insert_max [of "key ` set xs" "key a" "key x"] by (simp add: Cons.IH)
qed

lemma completion_times_image:
  "completion_times scans =
     (\<lambda>x. the (processing_completed_at x)) ` set (filter (\<lambda>s. processing_completed_at s \<noteq> None) scans)"
  unfolding completion_times_def by force

lemma overall_status_precedence:
  "overall_status scans =
     (if \<forall>s\<in>set scans. processing_status s = ''failed'' then ''failed''
      else if \<forall>s\<in>set scans. processing_status s = ''completed'' then ''completed''
      else if \<exists>s\<in>set scans. processing_status s = ''processing'' then ''processing''
      else if \<exists>s\<in>set scans. processing_status s = ''pending'' then ''pending''
      else ''unknown'')"
  unfolding overall_status_def Let_def
  by (simp only: count_status_all count_status_pos)

lemma processing_duration_spec:
  assumes "scans \<noteq> []"
  shows "processing_duration env scans =
     (if completion_times scans = {} then None
      else Some (format_1f env (Max (completion_times scans) - Min (created_at ` set scans))
                 @ '' seconds''))"
proof -
  obtain s ss where sc: "scans = s # ss" using assms by (cases scans) auto
  let ?done = "filter (\<lambda>s. processing_completed_at s \<noteq> None) scans"
  show ?thesis
  proof (cases ?done)
    case Nil
    then have "completion_times scans = {}"
      by (simp add: completion_times_image)
    with Nil sc show ?thesis by (simp add: processing_duration_def)
  next
    case (Cons c cs)
    then have ne: "completion_times scans \<noteq> {}"
      by (simp add: completion_times_image)
    have mx: "the (processing_completed_at (py_max (\<lambda>x. the (processing_completed_at x)) c cs))
                = Max (completion_times scans)"
      using py_max_key [of "\<lambda>x. the (processing_completed_at x)" c cs] Cons
      by (simp only: completion_times_image)
    have mn: "created_at (py_min created_at s ss) = Min (created_at ` set scans)"
      using py_min_key [of created_at s ss] sc by simp
    have "processing_duration env scans =
            Some (format_1f env
                   (the (processing_completed_at (py_max (\<lambda>x. the (processing_completed_at x)) c cs))
                    - created_at (py_min created_at s ss)) @ '' seconds'')"
      using Cons sc by (simp add: processing_duration_def Let_def)
    with ne mx mn show ?thesis by simp
  qed
qed

text \<open>
  C6 (as amended). For a batch with at least one record that the requester may see,
  \<^verbatim>\<open>get_batch_status\<close> returns a status derived in this order: all records failed gives
  failed; else all completed gives completed; else some record processing gives processing;
  else some record pending gives pending; else unknown. The duration is reported exactly
  when some record of the batch has a completion time, whatever the status of that record,
  and is then the latest completion time of the batch minus its earliest creation time.
\<close>

theorem get_batch_status_derivation:
  assumes "batch_scans batch W \<noteq> []"
    and "\<not> access_denied current_user (batch_scans batch W)"
  shows "\<exists>r. get_batch_status env batch current_user W = Inr r \<and>
     bs_status r =
       (if \<forall>s\<in>set (batch_scans batch W). processing_status s = ''failed'' then ''failed''
        else if \<forall>s\<in>set (batch_scans batch W). processing_status s = ''completed''
        then ''completed''
        else if \<exists>s\<in>set (batch_scans batch W). processing_status s = ''processing''
        then ''processing''
        else if \<exists>s\<in>set (batch_scans batch W). processing_status s = ''pending''
        then ''pending''
        else ''unknown'') \<and>
     bs_processing_duration r =
       (if completion_times (batch_scans batch W) = {} then None
        else Some (format_1f env
                     (Max (completion_times (batch_scans batch W))
                      - Min (created_at ` set (batch_scans batch W)))
                   @ '' seconds''))"
  using assms
  by (simp add: get_batch_status_def Let_def overall_status_precedence
        processing_duration_spec)

lemma status_world_b1:
  "batch_scans ''b1'' status_world =
     [demo_scan 1 ''b1'' 1 7 ''completed'' 10 (Some 80),
      demo_scan 2 ''b1'' 2 7 ''processing'' 20 None,
      demo_scan 4 ''b1'' 3 7 ''failed'' 5 (Some 60)]"
  by (simp add: batch_scans_def status_world_def demo_scan_def ThermalScan_def)

theorem get_batch_status_derivation_witness:
  "batch_scans ''b1'' status_world \<noteq> [] \<and>
   \<not> access_denied demo_user (batch_scans ''b1'' status_world) \<and>
   (\<exists>r. get_batch_status demo_env ''b1'' demo_user status_world = Inr r \<and>
        bs_status r = ''processing'' \<and> bs_processing_duration r = Some ''75 seconds'')"
proof -
  have h1: "batch_scans ''b1'' status_world \<noteq> []"
    by (simp add: status_world_b1)
  have h2: "\<not> access_denied demo_user (batch_scans ''b1'' status_world)"
    by (simp add: status_world_b1 access_denied_def demo_user_def demo_scan_def ThermalScan_def)
  have ct: "completion_times (batch_scans ''b1'' status_world) = {80, 60}"
    by (auto simp: status_world_b1 completion_times_def demo_scan_def ThermalScan_def)
  have sn: "show_nat 75 = ''75''"
    by code_simp
  from get_batch_status_derivation [OF h1 h2, of demo_env]
  obtain r where r: "get_batch_status demo_env ''b1'' demo_user status_world = Inr r"
    and st: "bs_status r =
       (if \<forall>s\<in>set (batch_scans ''b1'' status_world). processing_status s = ''failed'' then ''failed''
        else if \<forall>s\<in>set (batch_scans ''b1'' status_world). processing_status s = ''completed''
        then ''completed''
        else if \<exists>s\<in>set (batch_scans ''b1'' status_world). processing_status s = ''processing''
        then ''processing''
        else if \<exists>s\<in>set (batch_scans ''b1'' status_world). processing_status s = ''pending''
        then ''pending''
        else ''unknown'')"
    and du: "bs_processing_duration r =
       (if completion_times (batch_scans ''b1'' status_world) = {} then None
        else Some (format_1f demo_env
                     (Max (completion_times (batch_scans ''b1'' status_world))
                      - Min (created_at ` set (batch_scans ''b1'' status_world)))
                   @ '' seconds''))"
    by blast
  have "bs_status r = ''processing''"
    using st by (simp add: status_world_b1 demo_scan_def ThermalScan_def)
  moreover have "bs_processing_duration r = Some ''75 seconds''"
    using du unfolding ct
    by (simp add: status_world_b1 demo_scan_def ThermalScan_def demo_env_def sn)
  ultimately show ?thesis using h1 h2 r by blast
qed

text \<open>
  C6 fails as stated: a batch of a failed record that has a completion time and a pending
  record. No record of the batch is completed, and a duration is reported.
\<close>

theorem duration_without_completed_record_counterexample:
  "map processing_status (batch_scans ''f1'' timing_world) = [''failed'', ''pending''] \<and>
   get_batch_status demo_env ''f1'' demo_user timing_world
     = Inr \<lparr>bs_batch_id = ''f1'', bs_total_images = 2, bs_processed_images = 0,
            bs_failed_images = 1, bs_status = ''pending'', bs_created_at = ''0'',
            bs_processing_duration = Some ''100 seconds''\<rparr>"
  by code_simp

lemma access_denied_iff:
  "access_denied u scans \<longleftrightarrow>
     \<not> can_view_all_data u \<and> \<not> (\<exists>s\<in>set scans. uploaded_by s = user_id u)"
  by (simp add: access_denied_def list_ex_iff)

text \<open>
  C9. A batch identifier that matches no record gives Not Found for the status, the listing
  and the deletion, and the deletion then leaves the world as it was. For a batch with
  records and a requester without \<^verbatim>\<open>can_view_all_data\<close>, the status and the listing are
  Forbidden when no record of the batch was uploaded by the requester, and return the data
  of the batch when one was.
\<close>

theorem batch_access_control:
  "(batch_scans batch W = [] \<longrightarrow>
      get_batch_status env batch u W = Inl (HTTPException 404 ''Batch not found'') \<and>
      get_batch_files env batch u W = Inl (HTTPException 404 ''Batch not found'') \<and>
      delete_batch env batch admin W = (Inl (HTTPException 404 ''Batch not found''), W)) \<and>
   (batch_scans batch W \<noteq> [] \<and> \<not> can_view_all_data u \<and>
    \<not> (\<exists>s\<in>set (batch_scans batch W). uploaded_by s = user_id u) \<longrightarrow>
      get_batch_status env batch u W = Inl (HTTPException 403 ''Access denied to this batch'') \<and>
      get_batch_files env batch u W = Inl (HTTPException 403 ''Access denied to this batch'')) \<and>
   (batch_scans batch W \<noteq> [] \<and> \<not> can_view_all_data u \<and>
    (\<exists>s\<in>set (batch_scans batch W). uploaded_by s = user_id u) \<longrightarrow>
      (\<exists>r. get_batch_status env batch u W = Inr r \<and> bs_batch_id r = batch \<and>
           bs_total_images r = length (batch_scans batch W)) \<and>
      (\<exists>fs. get_batch_files env batch u W = Inr fs \<and>
            map fu_thermal_scan_id fs =
              map (\<lambda>s. Some (scan_id s)) (sort_key batch_sequence (batch_scans batch W))))"
  by (simp add: get_batch_status_def get_batch_files_def delete_batch_def Let_def
        access_denied_iff comp_def FileUploadStatus_def)

lemma status_world_b2:
  "batch_scans ''b2'' status_world = [demo_scan 3 ''b2'' 1 8 ''pending'' 30 None]"
  by (simp add: batch_scans_def status_world_def demo_scan_def ThermalScan_def)

lemma status_world_b9: "batch_scans ''b9'' status_world = []"
  by (simp add: batch_scans_def status_world_def demo_scan_def ThermalScan_def)

theorem batch_access_control_witness:
  "batch_scans ''b9'' status_world = [] \<and>
   get_batch_status demo_env ''b9'' demo_user status_world
     = Inl (HTTPException 404 ''Batch not found'') \<and>
   get_batch_files demo_env ''b9'' demo_user status_world
     = Inl (HTTPException 404 ''Batch not found'') \<and>
   delete_batch demo_env ''b9'' demo_user status_world
     = (Inl (HTTPException 404 ''Batch not found''), status_world) \<and>
   batch_scans ''b2'' status_world \<noteq> [] \<and> \<not> can_view_all_data demo_user \<and>
   \<not> (\<exists>s\<in>set (batch_scans ''b2'' status_world). uploaded_by s = user_id demo_user) \<and>
   get_batch_status demo_env ''b2'' demo_user status_world
     = Inl (HTTPException 403 ''Access denied to this batch'') \<and>
   get_batch_files demo_env ''b2'' demo_user status_world
     = Inl (HTTPException 403 ''Access denied to this batch'') \<and>
   batch_scans ''b1'' status_world \<noteq> [] \<and>
   (\<exists>s\<in>set (batch_scans ''b1'' status_world). uploaded_by s = user_id demo_user) \<and>
   (\<exists>r. get_batch_status demo_env ''b1'' demo_user status_world = Inr r \<and>
        bs_total_images r = 3) \<and>
   (\<exists>fs. get_batch_files demo_env ''b1'' demo_user status_world = Inr fs \<and>
         map fu_thermal_scan_id fs = [Some 1, Some 2, Some 4])"
proof -
  have e9: "batch_scans ''b9'' status_world = []" by (rule status_world_b9)
  have n2: "batch_scans ''b2'' status_world \<noteq> [] \<and> \<not> can_view_all_data demo_user \<and>
            \<not> (\<exists>s\<in>set (batch_scans ''b2'' status_world). uploaded_by s = user_id demo_user)"
    by (simp add: status_world_b2 demo_user_def demo_scan_def ThermalScan_def)
  have n1: "batch_scans ''b1'' status_world \<noteq> [] \<and> \<not> can_view_all_data demo_user \<and>
            (\<exists>s\<in>set (batch_scans ''b1'' status_world). uploaded_by s = user_id demo_user)"
    by (simp add: status_world_b1 demo_user_def demo_scan_def ThermalScan_def)
  have srt: "map (\<lambda>s. Some (scan_id s)) (sort_key batch_sequence (batch_scans ''b1'' status_world))
               = [Some 1, Some 2, Some 4]"
    by (simp add: status_world_b1 demo_scan_def ThermalScan_def)
  have len: "length (batch_scans ''b1'' status_world) = 3"
    by (simp add: status_world_b1)
  note a9 = batch_access_control [of "''b9''" status_world demo_env demo_user demo_user]
  note a2 = batch_access_control [of "''b2''" status_world demo_env demo_user demo_user]
  note a1 = batch_access_control [of "''b1''" status_world demo_env demo_user demo_user]
  from a9 e9 have p9:
    "get_batch_status demo_env ''b9'' demo_user status_world
       = Inl (HTTPException 404 ''Batch not found'') \<and>
     get_batch_files demo_env ''b9'' demo_user status_world
       = Inl (HTTPException 404 ''Batch not found'') \<and>
     delete_batch demo_env ''b9'' demo_user status_world
       = (Inl (HTTPException 404 ''Batch not found''), status_world)"
    by blast
  from a2 n2 have p2:
    "get_batch_status demo_env ''b2'' demo_user status_world
       = Inl (HTTPException 403 ''Access denied to this batch'') \<and>
     get_batch_files demo_env ''b2'' demo_user status_world
       = Inl (HTTPException 403 ''Access denied to this batch'')"
    by blast
  from a1 n1 have p1:
    "(\<exists>r. get_batch_status demo_env ''b1'' demo_user status_world = Inr r \<and>
          bs_batch_id r = ''b1'' \<and>
          bs_total_images r = length (batch_scans ''b1'' status_world)) \<and>
     (\<exists>fs. get_batch_files demo_env ''b1'' demo_user status_world = Inr fs \<and>
           map fu_thermal_scan_id fs =
             map (\<lambda>s. Some (scan_id s)) (sort_key batch_sequence (batch_scans ''b1'' status_world)))"
    by blast
  from p1 have q1:
    "(\<exists>r. get_batch_status demo_env ''b1'' demo_user status_world = Inr r \<and>
          bs_total_images r = 3) \<and>
     (\<exists>fs. get_batch_files demo_env ''b1'' demo_user status_world = Inr fs \<and>
           map fu_thermal_scan_id fs = [Some 1, Some 2, Some 4])"
    unfolding srt len by blast
  from e9 p9 n2 p2 n1 q1 show ?thesis by blast
qed

section \<open>Properties of the upload loop\<close>

lemma ThermalScan_fields [simp]:
  "scan_id (ThermalScan env i file path sz hash md ambient batch sequence sub u notes') = i"
  "file_hash (ThermalScan env i file path sz hash md ambient batch sequence sub u notes') = hash"
  "batch_id (ThermalScan env i file path sz hash md ambient batch sequence sub u notes') = batch"
  "batch_sequence (ThermalScan env i file path sz hash md ambient batch sequence sub u notes') = sequence"
  "original_filename (ThermalScan env i file path sz hash md ambient batch sequence sub u notes')
     = uf_filename file"
  "uploaded_by (ThermalScan env i file path sz hash md ambient batch sequence sub u notes')
     = user_id u"
  by (simp_all add: ThermalScan_def)

text \<open>The ways in which the three session calls of lines 154 to 156 end.\<close>

lemma add_commit_refresh_effect:
  "(\<exists>e nr. add_commit_refresh env scan st = (Some e, st\<lparr>needs_rollback := nr\<rparr>)) \<or>
   (\<exists>e nr. refresh_error env scan \<noteq> None \<and>
        add_commit_refresh env scan st
          = (Some e, st\<lparr>ls_world :=
                          (ls_world st)
                            \<lparr>thermal_scans := thermal_scans (ls_world st) @ [scan],
                             next_scan_id := Suc (next_scan_id (ls_world st))\<rparr>,
                        needs_rollback := nr\<rparr>)) \<or>
   add_commit_refresh env scan st
     = (None, st\<lparr>ls_world :=
                    (ls_world st)
                      \<lparr>thermal_scans := thermal_scans (ls_world st) @ [scan],
                       next_scan_id := Suc (next_scan_id (ls_world st))\<rparr>\<rparr>)"
  (is "?A \<or> ?B \<or> ?C")
proof (cases "needs_rollback st")
  case True
  then have "add_commit_refresh env scan st
      = (Some (OtherException (pending_rollback_error env)), st\<lparr>needs_rollback := True\<rparr>)"
    by (simp add: add_commit_refresh_def)
  then show ?thesis by blast
next
  case False
  show ?thesis
  proof (cases "commit_error env scan")
    case (Some msg)
    with False have "add_commit_refresh env scan st
        = (Some (OtherException msg), st\<lparr>needs_rollback := True\<rparr>)"
      by (simp add: add_commit_refresh_def)
    then show ?thesis by blast
  next
    case None
    show ?thesis
    proof (cases "refresh_error env scan")
      case (Some msg)
      with False None have "add_commit_refresh env scan st
          = (Some (OtherException msg),
             st\<lparr>ls_world :=
                  (ls_world st)
                    \<lparr>thermal_scans := thermal_scans (ls_world st) @ [scan],
                     next_scan_id := Suc (next_scan_id (ls_world st))\<rparr>,
                needs_rollback := refresh_breaks_session env scan\<rparr>)"
        by (simp add: add_commit_refresh_def Let_def)
      moreover from Some have "refresh_error env scan \<noteq> None" by simp
      ultimately have ?B by blast
      then show ?thesis by blast
    next
      case r: None
      with False None show ?thesis by (simp add: add_commit_refresh_def Let_def)
    qed
  qed
qed

text \<open>The second half of a round either raises without a row, raises with a row, or stores.\<close>

lemma store_file_effect:
  "(\<exists>e p' nr. store_file env batch ambient notes' u sequence file content hash st
             = (Some e, st\<lparr>ls_world := (ls_world st)\<lparr>processor := p'\<rparr>,
                           needs_rollback := nr\<rparr>)) \<or>
   (\<exists>e path md sub p' nr.
      refresh_error env
        (ThermalScan env (next_scan_id (ls_world st)) file path (length content)
           hash md ambient batch sequence sub u notes') \<noteq> None \<and>
      store_file env batch ambient notes' u sequence file content hash st
        = (Some e,
           st\<lparr>ls_world := (ls_world st)
                \<lparr>processor := p',
                 thermal_scans := thermal_scans (ls_world st) @
                   [ThermalScan env (next_scan_id (ls_world st)) file path (length content)
                      hash md ambient batch sequence sub u notes'],
                 next_scan_id := Suc (next_scan_id (ls_world st))\<rparr>,
               needs_rollback := nr\<rparr>)) \<or>
   (\<exists>path md sub p'.
      store_file env batch ambient notes' u sequence file content hash st
        = (None,
           stored file
             (ThermalScan env (next_scan_id (ls_world st)) file path (length content)
                hash md ambient batch sequence sub u notes') p' st))"
  (is "?A \<or> ?B \<or> ?C")
proof (cases "save_uploaded_file env content (uf_filename file) batch (processor (ls_world st))")
  case (Pair r p')
  have keep: "st\<lparr>ls_world := W\<rparr> = st\<lparr>ls_world := W, needs_rollback := needs_rollback st\<rparr>" for W
    by simp
  show ?thesis
  proof (cases r)
    case (Inl e)
    with Pair have "store_file env batch ambient notes' u sequence file content hash st
        = (Some e, st\<lparr>ls_world := (ls_world st)\<lparr>processor := p'\<rparr>,
                      needs_rollback := needs_rollback st\<rparr>)"
      by (simp add: store_file_def)
    then have ?A by blast
    then show ?thesis by blast
  next
    case (Inr path)
    note save = Pair Inr
    show ?thesis
    proof (cases "extract_image_metadata env path p'")
      case (Inl e)
      with save have "store_file env batch ambient notes' u sequence file content hash st
          = (Some e, st\<lparr>ls_world := (ls_world st)\<lparr>processor := p'\<rparr>,
                        needs_rollback := needs_rollback st\<rparr>)"
        by (simp add: store_file_def Let_def)
      then have ?A by blast
      then show ?thesis by blast
    next
      case md: (Inr md)
      show ?thesis
      proof (cases "match_substation env md (active_substations (ls_world st))")
        case (Inl e)
        with save md have "store_file env batch ambient notes' u sequence file content hash st
            = (Some e, st\<lparr>ls_world := (ls_world st)\<lparr>processor := p'\<rparr>,
                          needs_rollback := needs_rollback st\<rparr>)"
          by (simp add: store_file_def Let_def)
        then have ?A by blast
        then show ?thesis by blast
      next
        case sub: (Inr sub)
        let ?scan = "ThermalScan env (next_scan_id (ls_world st)) file path (length content)
                          hash md ambient batch sequence sub u notes'"
        let ?st1 = "st\<lparr>ls_world := (ls_world st)\<lparr>processor := p'\<rparr>\<rparr>"
        have body: "store_file env batch ambient notes' u sequence file content hash st
            = (case add_commit_refresh env ?scan ?st1 of
                 (Some e, st2) \<Rightarrow> (Some e, st2)
               | (None, st2) \<Rightarrow>
                   (None,
                    add_result
                      (FileUploadStatus (uf_filename file) ''uploaded''
                         ''Successfully uploaded and queued for processing''
                         (Some (scan_id ?scan)))
                      (st2\<lparr>successful_uploads := successful_uploads st2 + 1\<rparr>)))"
          using save md sub by (simp add: store_file_def Let_def)
        from add_commit_refresh_effect [of env ?scan ?st1]
        show ?thesis
        proof (elim disjE exE conjE)
          fix e nr
          assume "add_commit_refresh env ?scan ?st1 = (Some e, ?st1\<lparr>needs_rollback := nr\<rparr>)"
          with body have "store_file env batch ambient notes' u sequence file content hash st
            = (Some e, st\<lparr>ls_world := (ls_world st)\<lparr>processor := p'\<rparr>, needs_rollback := nr\<rparr>)"
            by simp
          then have ?A by blast
          then show ?thesis by blast
        next
          fix e nr
          assume r: "refresh_error env ?scan \<noteq> None"
            and "add_commit_refresh env ?scan ?st1
                   = (Some e, ?st1\<lparr>ls_world :=
                          (ls_world ?st1)
                            \<lparr>thermal_scans := thermal_scans (ls_world ?st1) @ [?scan],
                             next_scan_id := Suc (next_scan_id (ls_world ?st1))\<rparr>,
                        needs_rollback := nr\<rparr>)"
          with body have "store_file env batch ambient notes' u sequence file content hash st
            = (Some e,
               st\<lparr>ls_world := (ls_world st)
                    \<lparr>processor := p',
                     thermal_scans := thermal_scans (ls_world st) @ [?scan],
                     next_scan_id := Suc (next_scan_id (ls_world st))\<rparr>,
                   needs_rollback := nr\<rparr>)"
            by simp
          with r have ?B by blast
          then show ?thesis by blast
        next
          assume "add_commit_refresh env ?scan ?st1
                   = (None, ?st1\<lparr>ls_world :=
                          (ls_world ?st1)
                            \<lparr>thermal_scans := thermal_scans (ls_world ?st1) @ [?scan],
                             next_scan_id := Suc (next_scan_id (ls_world ?st1))\<rparr>\<rparr>)"
          with body have "store_file env batch ambient notes' u sequence file content hash st
            = (None, stored file ?scan p' st)"
            by (simp add: stored_def)
          then have ?C by blast
          then show ?thesis by blast
        qed
      qed
    qed
  qed
qed

text \<open>Every round ends in one of four ways.\<close>

lemma rejected_same:
  "rejected file msg (processor (ls_world st)) (needs_rollback st) st =
     add_result (FileUploadStatus (uf_filename file) ''failed'' msg None)
       (st\<lparr>failed_uploads := failed_uploads st + 1\<rparr>)"
  by (simp add: rejected_def)

lemma find_by_hash_found:
  "find_by_hash env hash st = (Inr r, st') \<Longrightarrow>
     st' = st \<and> \<not> needs_rollback st \<and> query_error env hash = None \<and>
     r = find (\<lambda>scan. file_hash scan = hash) (thermal_scans (ls_world st))"
  by (auto simp: find_by_hash_def split: if_splits option.splits)

lemma find_by_hash_raised:
  assumes "find_by_hash env hash st = (Inl e, st')"
  shows "\<exists>nr. st' = st\<lparr>needs_rollback := nr\<rparr>"
proof (cases "needs_rollback st")
  case True
  with assms have "st' = st\<lparr>needs_rollback := needs_rollback st\<rparr>"
    by (simp add: find_by_hash_def)
  then show ?thesis by blast
next
  case False
  with assms have "st' = st\<lparr>needs_rollback := query_breaks_session env hash\<rparr>"
    by (auto simp: find_by_hash_def split: option.splits)
  then show ?thesis by blast
qed

lemma process_file_effect:
  "(\<exists>msg p' nr. process_file env batch ambient notes' u (sequence, file) st
              = rejected file msg p' nr st) \<or>
   (\<exists>msg content hash path md sub p' nr.
      uf_read file = Inr content \<and> calculate_file_hash env content = Inr hash \<and>
      find (\<lambda>scan. file_hash scan = hash) (thermal_scans (ls_world st)) = None \<and>
      refresh_error env
        (ThermalScan env (next_scan_id (ls_world st)) file path (length content)
           hash md ambient batch sequence sub u notes') \<noteq> None \<and>
      process_file env batch ambient notes' u (sequence, file) st
        = orphaned file msg
            (ThermalScan env (next_scan_id (ls_world st)) file path (length content)
               hash md ambient batch sequence sub u notes') p' nr st) \<or>
   (\<exists>content hash existing.
      uf_read file = Inr content \<and> calculate_file_hash env content = Inr hash \<and>
      \<not> needs_rollback st \<and>
      find (\<lambda>scan. file_hash scan = hash) (thermal_scans (ls_world st)) = Some existing \<and>
      process_file env batch ambient notes' u (sequence, file) st
        = add_result (FileUploadStatus (uf_filename file) ''skipped''
                        ''Duplicate file already processed'' (Some (scan_id existing))) st) \<or>
   (\<exists>content hash path md sub p'.
      uf_read file = Inr content \<and> calculate_file_hash env content = Inr hash \<and>
      find (\<lambda>scan. file_hash scan = hash) (thermal_scans (ls_world st)) = None \<and>
      process_file env batch ambient notes' u (sequence, file) st
        = stored file
            (ThermalScan env (next_scan_id (ls_world st)) file path (length content)
               hash md ambient batch sequence sub u notes') p' st)"
  (is "?R \<or> ?O \<or> ?S \<or> ?U")
proof -
  have fail: ?thesis
    if "try_file env batch ambient notes' u (sequence, file) st = (Some e, st)" for e
  proof -
    from that have "process_file env batch ambient notes' u (sequence, file) st
       = rejected file (''Processing error: '' @ str_exn e) (processor (ls_world st))
           (needs_rollback st) st"
      by (simp add: process_file_def rejected_same)
    then have ?R by blast
    then show ?thesis by blast
  qed
  show ?thesis
  proof (cases "uf_read file")
    case (Inl e)
    then show ?thesis by (intro fail [of e]) (simp add: try_file_def)
  next
    case rd: (Inr content)
    show ?thesis
    proof (cases "validate_image_file env (uf_filename file) (length content)")
      case (Inl e)
      with rd show ?thesis by (intro fail [of e]) (simp add: try_file_def)
    next
      case (Inr v)
      obtain is_valid msg where v: "v = (is_valid, msg)" by (cases v)
      note va = Inr v
      show ?thesis
      proof (cases is_valid)
        case False
        with rd va have "process_file env batch ambient notes' u (sequence, file) st
               = rejected file msg (processor (ls_world st)) (needs_rollback st) st"
          by (simp add: process_file_def try_file_def rejected_same)
        then have ?R by blast
        then show ?thesis by blast
      next
        case True
        show ?thesis
        proof (cases "calculate_file_hash env content")
          case (Inl e)
          with rd va True show ?thesis by (intro fail [of e]) (simp add: try_file_def)
        next
          case h: (Inr hash)
          show ?thesis
          proof (cases "fst (find_by_hash env hash st)")
            case (Inl e)
            then have "find_by_hash env hash st = (Inl e, snd (find_by_hash env hash st))"
              by (simp add: prod_eq_iff)
            from find_by_hash_raised [OF this] obtain nr
              where fb: "find_by_hash env hash st = (Inl e, st\<lparr>needs_rollback := nr\<rparr>)"
              using \<open>find_by_hash env hash st = (Inl e, snd (find_by_hash env hash st))\<close>
              by auto
            with rd va True h have "process_file env batch ambient notes' u (sequence, file) st
               = rejected file (''Processing error: '' @ str_exn e) (processor (ls_world st)) nr st"
              by (simp add: process_file_def try_file_def rejected_def)
            then have ?R by blast
            then show ?thesis by blast
          next
            case (Inr found)
            then have "find_by_hash env hash st = (Inr found, snd (find_by_hash env hash st))"
              by (simp add: prod_eq_iff)
            with find_by_hash_found [OF this]
            have Inr: "find_by_hash env hash st = (Inr found, st)"
              and ok: "\<not> needs_rollback st"
              and fd: "found = find (\<lambda>scan. file_hash scan = hash) (thermal_scans (ls_world st))"
              by simp_all
            show ?thesis
            proof (cases found)
              case (Some existing)
              with rd va True h Inr
              have "process_file env batch ambient notes' u (sequence, file) st
                  = add_result (FileUploadStatus (uf_filename file) ''skipped''
                        ''Duplicate file already processed'' (Some (scan_id existing))) st"
                by (simp add: process_file_def try_file_def)
              moreover from fd Some
              have "find (\<lambda>scan. file_hash scan = hash) (thermal_scans (ls_world st))
                      = Some existing"
                by simp
              ultimately have ?S using rd h ok by (intro exI [of _ content] exI [of _ hash] exI [of _ existing] conjI)
              then show ?thesis by blast
            next
              case None
              with fd have nf:
                "find (\<lambda>scan. file_hash scan = hash) (thermal_scans (ls_world st)) = None"
                by simp
              from rd va True h Inr None have tf:
                "try_file env batch ambient notes' u (sequence, file) st
                   = store_file env batch ambient notes' u sequence file content hash st"
                by (simp add: try_file_def)
              from store_file_effect [of env batch ambient notes' u sequence "file" content hash st]
              show ?thesis
              proof (elim disjE exE conjE)
                fix e p' nr
                assume "store_file env batch ambient notes' u sequence file content hash st
                   = (Some e, st\<lparr>ls_world := (ls_world st)\<lparr>processor := p'\<rparr>,
                                 needs_rollback := nr\<rparr>)"
                with tf have "process_file env batch ambient notes' u (sequence, file) st
                   = rejected file (''Processing error: '' @ str_exn e) p' nr st"
                  by (simp add: process_file_def rejected_def)
                then have ?R by blast
                then show ?thesis by blast
              next
                fix e path md sub p' nr
                let ?scan = "ThermalScan env (next_scan_id (ls_world st)) file path
                    (length content) hash md ambient batch sequence sub u notes'"
                assume r: "refresh_error env ?scan \<noteq> None"
                  and "store_file env batch ambient notes' u sequence file content hash st
                    = (Some e,
                       st\<lparr>ls_world := (ls_world st)
                            \<lparr>processor := p',
                             thermal_scans := thermal_scans (ls_world st) @ [?scan],
                             next_scan_id := Suc (next_scan_id (ls_world st))\<rparr>,
                           needs_rollback := nr\<rparr>)"
                with tf have "process_file env batch ambient notes' u (sequence, file) st
                   = orphaned file (''Processing error: '' @ str_exn e) ?scan p' nr st"
                  by (simp add: process_file_def orphaned_def)
                with rd h nf r have ?O by blast
                then show ?thesis by blast
              next
                fix path md sub p'
                let ?scan = "ThermalScan env (next_scan_id (ls_world st)) file path
                    (length content) hash md ambient batch sequence sub u notes'"
                assume "store_file env batch ambient notes' u sequence file content hash st
                    = (None, stored file ?scan p' st)"
                with tf have "process_file env batch ambient notes' u (sequence, file) st
                    = stored file ?scan p' st"
                  by (simp add: process_file_def)
                with rd h nf have ?U by blast
                then show ?thesis by blast
              qed
            qed
          qed
        qed
      qed
    qed
  qed
qed

lemma process_file_scans:
  "(thermal_scans (ls_world (process_file env batch ambient notes' u (sequence, file) st))
      = thermal_scans (ls_world st) \<and>
    successful_uploads (process_file env batch ambient notes' u (sequence, file) st)
      = successful_uploads st) \<or>
   (\<exists>scan. thermal_scans (ls_world (process_file env batch ambient notes' u (sequence, file) st))
        = thermal_scans (ls_world st) @ [scan] \<and>
      successful_uploads st
        \<le> successful_uploads (process_file env batch ambient notes' u (sequence, file) st) \<and>
      successful_uploads (process_file env batch ambient notes' u (sequence, file) st)
        \<le> Suc (successful_uploads st) \<and>
      (refresh_error env scan = None \<longrightarrow>
         successful_uploads (process_file env batch ambient notes' u (sequence, file) st)
           = Suc (successful_uploads st)) \<and>
      batch_id scan = batch \<and> batch_sequence scan = sequence \<and>
      original_filename scan = uf_filename file \<and>
      uploaded_by scan = user_id u \<and>
      file_hash scan \<notin> file_hash ` set (thermal_scans (ls_world st)))"
  using process_file_effect [of env batch ambient notes' u sequence "file" st]
proof (elim disjE exE conjE)
  fix msg p' nr
  assume "process_file env batch ambient notes' u (sequence, file) st = rejected file msg p' nr st"
  then show ?thesis by (simp add: rejected_def add_result_def)
next
  fix msg content hash path md sub p' nr
  assume nf: "find (\<lambda>scan. file_hash scan = hash) (thermal_scans (ls_world st)) = None"
    and r: "refresh_error env
        (ThermalScan env (next_scan_id (ls_world st)) file path (length content)
           hash md ambient batch sequence sub u notes') \<noteq> None"
    and eq: "process_file env batch ambient notes' u (sequence, file) st
        = orphaned file msg
            (ThermalScan env (next_scan_id (ls_world st)) file path (length content)
               hash md ambient batch sequence sub u notes') p' nr st"
  from nf have "hash \<notin> file_hash ` set (thermal_scans (ls_world st))"
    by (auto simp: find_None_iff)
  with eq r show ?thesis by (simp add: orphaned_def add_result_def)
next
  fix content hash existing
  assume "process_file env batch ambient notes' u (sequence, file) st
        = add_result (FileUploadStatus (uf_filename file) ''skipped''
                        ''Duplicate file already processed'' (Some (scan_id existing))) st"
  then show ?thesis by (simp add: add_result_def)
next
  fix content hash path md sub p'
  assume nf: "find (\<lambda>scan. file_hash scan = hash) (thermal_scans (ls_world st)) = None"
    and eq: "process_file env batch ambient notes' u (sequence, file) st
        = stored file
            (ThermalScan env (next_scan_id (ls_world st)) file path (length content)
               hash md ambient batch sequence sub u notes') p' st"
  from nf have "hash \<notin> file_hash ` set (thermal_scans (ls_world st))"
    by (auto simp: find_None_iff)
  with eq show ?thesis by (simp add: stored_def add_result_def)
qed

lemma process_file_results:
  "\<exists>r. upload_results (process_file env batch ambient notes' u (sequence, file) st)
         = upload_results st @ [r] \<and> fu_filename r = uf_filename file"
  using process_file_effect [of env batch ambient notes' u sequence "file" st]
  by (elim disjE exE conjE)
     (simp_all add: rejected_def orphaned_def stored_def add_result_def FileUploadStatus_def)

lemma process_file_counts:
  "failed_uploads st \<le> failed_uploads (process_file env batch ambient notes' u (sequence, file) st) \<and>
   successful_uploads st \<le> successful_uploads (process_file env batch ambient notes' u (sequence, file) st) \<and>
   successful_uploads (process_file env batch ambient notes' u (sequence, file) st)
     + failed_uploads (process_file env batch ambient notes' u (sequence, file) st)
     \<le> Suc (successful_uploads st + failed_uploads st)"
  using process_file_effect [of env batch ambient notes' u sequence "file" st]
  by (elim disjE exE conjE)
     (simp_all add: rejected_def orphaned_def stored_def add_result_def)

lemma process_file_frame:
  "tasks (ls_world (process_file env batch ambient notes' u (sequence, file) st))
     = tasks (ls_world st) \<and>
   active_substations (ls_world (process_file env batch ambient notes' u (sequence, file) st))
     = active_substations (ls_world st)"
  using process_file_effect [of env batch ambient notes' u sequence "file" st]
  by (elim disjE exE conjE)
     (simp_all add: rejected_def orphaned_def stored_def add_result_def)

lemma upload_rounds_results:
  "map fu_filename
     (upload_results (fold (process_file env batch ambient notes' u) (List.enumerate n files) st))
   = map fu_filename (upload_results st) @ map uf_filename files"
proof (induction files arbitrary: n st)
  case Nil
  show ?case by simp
next
  case (Cons f fs)
  obtain r where "upload_results (process_file env batch ambient notes' u (n, f) st)
                    = upload_results st @ [r]" and "fu_filename r = uf_filename f"
    using process_file_results [of env batch ambient notes' u n f st] by blast
  then show ?case by (simp add: Cons.IH)
qed

lemma upload_rounds_counts:
  "failed_uploads st
     \<le> failed_uploads (fold (process_file env batch ambient notes' u) (List.enumerate n files) st) \<and>
   successful_uploads (fold (process_file env batch ambient notes' u) (List.enumerate n files) st)
     + failed_uploads (fold (process_file env batch ambient notes' u) (List.enumerate n files) st)
     \<le> successful_uploads st + failed_uploads st + length files \<and>
   tasks (ls_world (fold (process_file env batch ambient notes' u) (List.enumerate n files) st))
     = tasks (ls_world st) \<and>
   active_substations
     (ls_world (fold (process_file env batch ambient notes' u) (List.enumerate n files) st))
     = active_substations (ls_world st)"
proof (induction files arbitrary: n st)
  case Nil
  show ?case by simp
next
  case (Cons f fs)
  note step = process_file_counts [of st env batch ambient notes' u n f]
    process_file_frame [of env batch ambient notes' u n f st]
  note ih = Cons.IH [where n = "Suc n" and st = "process_file env batch ambient notes' u (n, f) st"]
  from step ih show ?case by simp
qed

lemma upload_rounds_scans:
  "\<exists>new.
     thermal_scans
       (ls_world (fold (process_file env batch ambient notes' u) (List.enumerate n files) st))
       = thermal_scans (ls_world st) @ new \<and>
     successful_uploads st
       \<le> successful_uploads
            (fold (process_file env batch ambient notes' u) (List.enumerate n files) st) \<and>
     successful_uploads (fold (process_file env batch ambient notes' u) (List.enumerate n files) st)
       \<le> successful_uploads st + length new \<and>
     ((\<forall>s\<in>set new. refresh_error env s = None) \<longrightarrow>
        successful_uploads
          (fold (process_file env batch ambient notes' u) (List.enumerate n files) st)
          = successful_uploads st + length new) \<and>
     length new \<le> length files \<and>
     (\<forall>s\<in>set new. batch_id s = batch \<and> uploaded_by s = user_id u \<and>
        n \<le> batch_sequence s \<and> batch_sequence s < n + length files \<and>
        original_filename s = uf_filename (files ! (batch_sequence s - n))) \<and>
     sorted_wrt (<) (map batch_sequence new) \<and>
     (length new = length files \<longrightarrow> map batch_sequence new = [n..<n + length files]) \<and>
     (distinct (map file_hash (thermal_scans (ls_world st)))
        \<longrightarrow> distinct (map file_hash (thermal_scans (ls_world st) @ new)))"
proof (induction files arbitrary: n st)
  case Nil
  show ?case by simp
next
  case (Cons f fs)
  let ?step = "process_file env batch ambient notes' u"
  let ?st1 = "?step (n, f) st"
  let ?st2 = "fold ?step (List.enumerate (Suc n) fs) ?st1"
  have unfold: "fold ?step (List.enumerate n (f # fs)) st = ?st2" by simp
  from Cons.IH [where n = "Suc n" and st = ?st1] obtain new2 where
    sc2: "thermal_scans (ls_world ?st2) = thermal_scans (ls_world ?st1) @ new2"
    and lo2: "successful_uploads ?st1 \<le> successful_uploads ?st2"
    and su2: "successful_uploads ?st2 \<le> successful_uploads ?st1 + length new2"
    and eq2: "(\<forall>s\<in>set new2. refresh_error env s = None) \<longrightarrow>
        successful_uploads ?st2 = successful_uploads ?st1 + length new2"
    and le2: "length new2 \<le> length fs"
    and el2: "\<forall>s\<in>set new2. batch_id s = batch \<and> uploaded_by s = user_id u \<and>
        Suc n \<le> batch_sequence s \<and> batch_sequence s < Suc n + length fs \<and>
        original_filename s = uf_filename (fs ! (batch_sequence s - Suc n))"
    and so2: "sorted_wrt (<) (map batch_sequence new2)"
    and fu2: "length new2 = length fs \<longrightarrow> map batch_sequence new2 = [Suc n..<Suc n + length fs]"
    and di2: "distinct (map file_hash (thermal_scans (ls_world ?st1)))
        \<longrightarrow> distinct (map file_hash (thermal_scans (ls_world ?st1) @ new2))"
    by blast
  have el2': "\<forall>s\<in>set new2. batch_id s = batch \<and> uploaded_by s = user_id u \<and>
        n \<le> batch_sequence s \<and> batch_sequence s < n + length (f # fs) \<and>
        original_filename s = uf_filename ((f # fs) ! (batch_sequence s - n))"
  proof
    fix s assume "s \<in> set new2"
    with el2 have a: "batch_id s = batch" "uploaded_by s = user_id u"
      "Suc n \<le> batch_sequence s" "batch_sequence s < Suc n + length fs"
      "original_filename s = uf_filename (fs ! (batch_sequence s - Suc n))"
      by blast+
    from a(3) have "batch_sequence s - n = Suc (batch_sequence s - Suc n)" by arith
    with a show "batch_id s = batch \<and> uploaded_by s = user_id u \<and>
        n \<le> batch_sequence s \<and> batch_sequence s < n + length (f # fs) \<and>
        original_filename s = uf_filename ((f # fs) ! (batch_sequence s - n))"
      by simp
  qed
  from process_file_scans [of env batch ambient notes' u n f st]
  show ?case
  proof (elim disjE exE conjE)
    assume same: "thermal_scans (ls_world ?st1) = thermal_scans (ls_world st)"
      and su1: "successful_uploads ?st1 = successful_uploads st"
    have "length new2 \<noteq> length (f # fs)" using le2 by simp
    with sc2 lo2 su2 eq2 le2 el2' so2 di2 same su1 show ?thesis
      unfolding unfold by (intro exI [of _ new2]) simp
  next
    fix scan
    assume added: "thermal_scans (ls_world ?st1) = thermal_scans (ls_world st) @ [scan]"
      and lo1: "successful_uploads st \<le> successful_uploads ?st1"
      and su1: "successful_uploads ?st1 \<le> Suc (successful_uploads st)"
      and eq1: "refresh_error env scan = None \<longrightarrow>
                  successful_uploads ?st1 = Suc (successful_uploads st)"
      and sf: "batch_id scan = batch" "batch_sequence scan = n"
        "original_filename scan = uf_filename f" "uploaded_by scan = user_id u"
      and fresh: "file_hash scan \<notin> file_hash ` set (thermal_scans (ls_world st))"
    have p1: "thermal_scans (ls_world ?st2) = thermal_scans (ls_world st) @ (scan # new2)"
      using sc2 added by simp
    have p2a: "successful_uploads st \<le> successful_uploads ?st2"
      using lo1 lo2 by simp
    have p2b: "successful_uploads ?st2 \<le> successful_uploads st + length (scan # new2)"
      using su2 su1 by simp
    have p2c: "(\<forall>s\<in>set (scan # new2). refresh_error env s = None) \<longrightarrow>
        successful_uploads ?st2 = successful_uploads st + length (scan # new2)"
      using eq1 eq2 by simp
    have p3: "length (scan # new2) \<le> length (f # fs)" using le2 by simp
    have p4: "\<forall>s\<in>set (scan # new2). batch_id s = batch \<and> uploaded_by s = user_id u \<and>
        n \<le> batch_sequence s \<and> batch_sequence s < n + length (f # fs) \<and>
        original_filename s = uf_filename ((f # fs) ! (batch_sequence s - n))"
      using el2' sf by simp
    have p5: "sorted_wrt (<) (map batch_sequence (scan # new2))"
      using so2 el2 sf by auto
    have p6: "length (scan # new2) = length (f # fs)
                \<longrightarrow> map batch_sequence (scan # new2) = [n..<n + length (f # fs)]"
    proof
      assume "length (scan # new2) = length (f # fs)"
      then have "length new2 = length fs" by simp
      with fu2 have "map batch_sequence new2 = [Suc n..<Suc n + length fs]" by blast
      moreover have "[n..<n + length (f # fs)] = n # [Suc n..<Suc n + length fs]"
        by (simp add: upt_conv_Cons del: upt_Suc)
      ultimately show "map batch_sequence (scan # new2) = [n..<n + length (f # fs)]"
        using sf by (simp del: upt_Suc)
    qed
    have p7: "distinct (map file_hash (thermal_scans (ls_world st)))
        \<longrightarrow> distinct (map file_hash (thermal_scans (ls_world st) @ (scan # new2)))"
      using di2 added fresh by simp
    from p1 p2a p2b p2c p3 p4 p5 p6 p7 show ?thesis
      unfolding unfold by (intro exI [of _ "scan # new2"] conjI)
  qed
qed

lemma upload_loop_results:
  "map fu_filename (upload_results (upload_loop env batch ambient notes' u files W))
     = map uf_filename files"
  using upload_rounds_results [of env batch ambient notes' u 1 files
          "\<lparr>ls_world = W, needs_rollback = False, successful_uploads = 0, failed_uploads = 0,
            upload_results = []\<rparr>"]
  by (simp add: upload_loop_def)

lemma upload_loop_scans:
  "\<exists>new.
     thermal_scans (ls_world (upload_loop env batch ambient notes' u files W))
       = thermal_scans W @ new \<and>
     successful_uploads (upload_loop env batch ambient notes' u files W) \<le> length new \<and>
     ((\<forall>s\<in>set new. refresh_error env s = None) \<longrightarrow>
        successful_uploads (upload_loop env batch ambient notes' u files W) = length new) \<and>
     length new \<le> length files \<and>
     (\<forall>s\<in>set new. batch_id s = batch \<and> uploaded_by s = user_id u \<and>
        1 \<le> batch_sequence s \<and> batch_sequence s \<le> length files \<and>
        original_filename s = uf_filename (files ! (batch_sequence s - 1))) \<and>
     sorted_wrt (<) (map batch_sequence new) \<and>
     (length new = length files \<longrightarrow> map batch_sequence new = [1..<Suc (length files)]) \<and>
     (distinct (map file_hash (thermal_scans W))
        \<longrightarrow> distinct (map file_hash (thermal_scans W @ new)))"
proof -
  let ?st0 = "\<lparr>ls_world = W, needs_rollback = False, successful_uploads = 0,
               failed_uploads = 0, upload_results = []\<rparr> :: ('a, 'b) loop_state"
  let ?end = "fold (process_file env batch ambient notes' u) (List.enumerate 1 files) ?st0"
  from upload_rounds_scans [of env batch ambient notes' u 1 files ?st0]
  obtain new where
    a: "thermal_scans (ls_world ?end) = thermal_scans (ls_world ?st0) @ new"
    and b: "successful_uploads ?end \<le> successful_uploads ?st0 + length new"
    and b': "(\<forall>s\<in>set new. refresh_error env s = None) \<longrightarrow>
        successful_uploads ?end = successful_uploads ?st0 + length new"
    and c: "length new \<le> length files"
    and d: "\<forall>s\<in>set new. batch_id s = batch \<and> uploaded_by s = user_id u \<and>
        1 \<le> batch_sequence s \<and> batch_sequence s < 1 + length files \<and>
        original_filename s = uf_filename (files ! (batch_sequence s - 1))"
    and e: "sorted_wrt (<) (map batch_sequence new)"
    and f: "length new = length files \<longrightarrow> map batch_sequence new = [1..<1 + length files]"
    and g: "distinct (map file_hash (thermal_scans (ls_world ?st0)))
        \<longrightarrow> distinct (map file_hash (thermal_scans (ls_world ?st0) @ new))"
    by blast
  have d': "\<forall>s\<in>set new. batch_id s = batch \<and> uploaded_by s = user_id u \<and>
        1 \<le> batch_sequence s \<and> batch_sequence s \<le> length files \<and>
        original_filename s = uf_filename (files ! (batch_sequence s - 1))"
    using d by auto
  from a b b' c d' e f g show ?thesis
    unfolding upload_loop_def by (intro exI [of _ new]) simp
qed

lemma upload_loop_counts:
  "successful_uploads (upload_loop env batch ambient notes' u files W)
     + failed_uploads (upload_loop env batch ambient notes' u files W) \<le> length files \<and>
   tasks (ls_world (upload_loop env batch ambient notes' u files W)) = tasks W"
  using upload_rounds_counts [of
          "\<lparr>ls_world = W, needs_rollback = False, successful_uploads = 0, failed_uploads = 0,
            upload_results = []\<rparr>"
          env batch ambient notes' u 1 files]
  by (simp add: upload_loop_def)

text \<open>The world that \<^verbatim>\<open>upload_thermal_images\<close> leaves, for a request that passes the checks.\<close>

lemma upload_accepted:
  assumes "files \<noteq> []" and "length files \<le> 5000"
    and "create_batch_id env (processor W) = (batch, p1)"
  shows "\<exists>resp.
     upload_thermal_images env files ambient notes' u W
       = (Inr resp,
          (ls_world (upload_loop env batch ambient notes' u files (W\<lparr>processor := p1\<rparr>)))
            \<lparr>tasks :=
               (if 0 < successful_uploads
                         (upload_loop env batch ambient notes' u files (W\<lparr>processor := p1\<rparr>))
                then tasks W @ [(batch, user_id u)] else tasks W)\<rparr>) \<and>
     ur_batch_id resp = batch \<and>
     ur_total_files resp = length files \<and>
     ur_successful_uploads resp
       = successful_uploads (upload_loop env batch ambient notes' u files (W\<lparr>processor := p1\<rparr>)) \<and>
     ur_failed_uploads resp
       = failed_uploads (upload_loop env batch ambient notes' u files (W\<lparr>processor := p1\<rparr>)) \<and>
     ur_processing_status resp
       = (if 0 < successful_uploads
                   (upload_loop env batch ambient notes' u files (W\<lparr>processor := p1\<rparr>))
          then ''queued'' else ''idle'')"
proof -
  have t: "tasks (ls_world (upload_loop env batch ambient notes' u files (W\<lparr>processor := p1\<rparr>)))
             = tasks W"
    using upload_loop_counts [of env batch ambient notes' u files "W\<lparr>processor := p1\<rparr>"]
    by simp
  have r: "X\<lparr>tasks := tasks X\<rparr> = X" for X :: "('a, 'b) world" by simp
  show ?thesis
    using assms t
    by (auto simp: upload_thermal_images_def Let_def r [symmetric] simp del: r)
qed

section \<open>Sequence numbers\<close>

lemma batch_scans_after_upload:
  assumes "files \<noteq> []" and "length files \<le> 5000"
    and "create_batch_id env (processor W) = (batch, p1)"
    and "batch_scans batch W = []"
  shows "\<exists>resp W'.
     upload_thermal_images env files ambient notes' u W = (Inr resp, W') \<and>
     ur_successful_uploads resp \<le> length (batch_scans batch W') \<and>
     ((\<forall>s\<in>set (batch_scans batch W'). refresh_error env s = None) \<longrightarrow>
        ur_successful_uploads resp = length (batch_scans batch W')) \<and>
     length (batch_scans batch W') \<le> length files \<and>
     thermal_scans W' = thermal_scans W @ batch_scans batch W' \<and>
     (\<forall>s\<in>set (batch_scans batch W'). uploaded_by s = user_id u \<and>
        1 \<le> batch_sequence s \<and> batch_sequence s \<le> length files \<and>
        original_filename s = uf_filename (files ! (batch_sequence s - 1))) \<and>
     sorted_wrt (<) (map batch_sequence (batch_scans batch W')) \<and>
     (length (batch_scans batch W') = length files
        \<longrightarrow> map batch_sequence (batch_scans batch W') = [1..<Suc (length files)])"
proof -
  let ?st = "upload_loop env batch ambient notes' u files (W\<lparr>processor := p1\<rparr>)"
  let ?W' = "(ls_world ?st)\<lparr>tasks := (if 0 < successful_uploads ?st
                                   then tasks W @ [(batch, user_id u)] else tasks W)\<rparr>"
  from upload_accepted [OF assms(1-3), of ambient notes' u]
  obtain resp where
    r: "upload_thermal_images env files ambient notes' u W = (Inr resp, ?W')"
    and su: "ur_successful_uploads resp = successful_uploads ?st"
    by blast
  from upload_loop_scans [of env batch ambient notes' u files "W\<lparr>processor := p1\<rparr>"]
  obtain new where
    a: "thermal_scans (ls_world ?st) = thermal_scans W @ new"
    and b: "successful_uploads ?st \<le> length new"
    and b': "(\<forall>s\<in>set new. refresh_error env s = None) \<longrightarrow> successful_uploads ?st = length new"
    and c: "length new \<le> length files"
    and d: "\<forall>s\<in>set new. batch_id s = batch \<and> uploaded_by s = user_id u \<and>
        1 \<le> batch_sequence s \<and> batch_sequence s \<le> length files \<and>
        original_filename s = uf_filename (files ! (batch_sequence s - 1))"
    and e: "sorted_wrt (<) (map batch_sequence new)"
    and f: "length new = length files \<longrightarrow> map batch_sequence new = [1..<Suc (length files)]"
    by auto
  have old: "filter (\<lambda>scan. batch_id scan = batch) (thermal_scans W) = []"
    using assms(4) by (simp add: batch_scans_def)
  have "filter (\<lambda>scan. batch_id scan = batch) new = new"
    using d by (simp add: filter_id_conv)
  with old a have bs: "batch_scans batch ?W' = new"
    by (simp add: batch_scans_def)
  have th: "thermal_scans ?W' = thermal_scans W @ new" using a by simp
  have d': "\<forall>s\<in>set new. uploaded_by s = user_id u \<and>
        1 \<le> batch_sequence s \<and> batch_sequence s \<le> length files \<and>
        original_filename s = uf_filename (files ! (batch_sequence s - 1))"
    using d by blast
  have su1: "ur_successful_uploads resp \<le> length new" using su b by simp
  have su2: "(\<forall>s\<in>set new. refresh_error env s = None) \<longrightarrow>
      ur_successful_uploads resp = length new"
    using su b' by simp
  show ?thesis
  proof (intro exI conjI)
    show "upload_thermal_images env files ambient notes' u W = (Inr resp, ?W')" by (rule r)
    show "ur_successful_uploads resp \<le> length (batch_scans batch ?W')"
      unfolding bs by (rule su1)
    show "(\<forall>s\<in>set (batch_scans batch ?W'). refresh_error env s = None) \<longrightarrow>
        ur_successful_uploads resp = length (batch_scans batch ?W')"
      unfolding bs by (rule su2)
    show "length (batch_scans batch ?W') \<le> length files"
      unfolding bs by (rule c)
    show "thermal_scans ?W' = thermal_scans W @ batch_scans batch ?W'"
      unfolding bs by (rule th)
    show "\<forall>s\<in>set (batch_scans batch ?W'). uploaded_by s = user_id u \<and>
        1 \<le> batch_sequence s \<and> batch_sequence s \<le> length files \<and>
        original_filename s = uf_filename (files ! (batch_sequence s - 1))"
      unfolding bs by (rule d')
    show "sorted_wrt (<) (map batch_sequence (batch_scans batch ?W'))"
      unfolding bs by (rule e)
    show "length (batch_scans batch ?W') = length files
        \<longrightarrow> map batch_sequence (batch_scans batch ?W') = [1..<Suc (length files)]"
      unfolding bs by (rule f)
  qed
qed

text \<open>
  C7 (as amended). For a call that passes the two checks and whose batch identifier is not
  the identifier of a stored record, the records stored for the batch carry strictly
  increasing sequence numbers in the order of submission; each number is the position,
  counted from 1, of the record's file among all submitted files, so it lies between 1 and
  the number of files; there are at least as many records as successful uploads, and
  exactly as many when \<^verbatim>\<open>db.refresh\<close> raised for none of them; and the numbers are exactly
  1 to the number of files when there is a record for every file, which is so when every
  file was uploaded successfully.
\<close>

theorem batch_sequence_numbers:
  assumes "files \<noteq> []" and "length files \<le> 5000"
    and "create_batch_id env (processor W) = (batch, p1)"
    and "batch_scans batch W = []"
  shows "\<exists>resp W'.
     upload_thermal_images env files ambient notes' u W = (Inr resp, W') \<and>
     sorted_wrt (<) (map batch_sequence (batch_scans batch W')) \<and>
     (\<forall>s\<in>set (batch_scans batch W').
        1 \<le> batch_sequence s \<and> batch_sequence s \<le> length files \<and>
        original_filename s = uf_filename (files ! (batch_sequence s - 1))) \<and>
     ur_successful_uploads resp \<le> length (batch_scans batch W') \<and>
     ((\<forall>s\<in>set (batch_scans batch W'). refresh_error env s = None) \<longrightarrow>
        length (batch_scans batch W') = ur_successful_uploads resp) \<and>
     (length (batch_scans batch W') = length files
        \<longrightarrow> map batch_sequence (batch_scans batch W') = [1..<Suc (length files)]) \<and>
     (ur_successful_uploads resp = length files
        \<longrightarrow> map batch_sequence (batch_scans batch W') = [1..<Suc (length files)])"
proof -
  from batch_scans_after_upload [OF assms, of ambient notes' u]
  obtain resp W' where
    r: "upload_thermal_images env files ambient notes' u W = (Inr resp, W')"
    and su: "ur_successful_uploads resp \<le> length (batch_scans batch W')"
    and su': "(\<forall>s\<in>set (batch_scans batch W'). refresh_error env s = None) \<longrightarrow>
        ur_successful_uploads resp = length (batch_scans batch W')"
    and le: "length (batch_scans batch W') \<le> length files"
    and el: "\<forall>s\<in>set (batch_scans batch W'). uploaded_by s = user_id u \<and>
        1 \<le> batch_sequence s \<and> batch_sequence s \<le> length files \<and>
        original_filename s = uf_filename (files ! (batch_sequence s - 1))"
    and so: "sorted_wrt (<) (map batch_sequence (batch_scans batch W'))"
    and fu: "length (batch_scans batch W') = length files
        \<longrightarrow> map batch_sequence (batch_scans batch W') = [1..<Suc (length files)]"
    by blast
  from el have el': "\<forall>s\<in>set (batch_scans batch W').
        1 \<le> batch_sequence s \<and> batch_sequence s \<le> length files \<and>
        original_filename s = uf_filename (files ! (batch_sequence s - 1))"
    by blast
  from su' have su'': "(\<forall>s\<in>set (batch_scans batch W'). refresh_error env s = None) \<longrightarrow>
        length (batch_scans batch W') = ur_successful_uploads resp"
    by simp
  from fu su le have fu': "ur_successful_uploads resp = length files
        \<longrightarrow> map batch_sequence (batch_scans batch W') = [1..<Suc (length files)]"
    by simp
  from r so el' su su'' fu fu' show ?thesis
    by (intro exI [of _ resp] exI [of _ W'] conjI)
qed

lemma show_nat_0: "show_nat 0 = ''0''"
  by code_simp

lemma show_nat_1: "show_nat (Suc 0) = ''1''"
  by code_simp

lemma demo_batch_id:
  "create_batch_id demo_env (processor empty_world) = (''batch-0'', (1, []))"
  by (simp add: demo_env_def empty_world_def show_nat_0)

lemma demo_refresh: "refresh_error demo_env s = None"
  by (simp add: demo_env_def)

lemma mixed_rounds:
  "map batch_sequence (thermal_scans (ls_world
      (upload_loop demo_env ''batch-0'' None None demo_user mixed_files after_batch_id)))
     = [1, 4] \<and>
   map batch_id (thermal_scans (ls_world
      (upload_loop demo_env ''batch-0'' None None demo_user mixed_files after_batch_id)))
     = [''batch-0'', ''batch-0''] \<and>
   successful_uploads
      (upload_loop demo_env ''batch-0'' None None demo_user mixed_files after_batch_id) = 2"
  by code_simp

lemma mixed_upload:
  "\<exists>resp W'. upload_thermal_images demo_env mixed_files None None demo_user empty_world
                 = (Inr resp, W') \<and>
       ur_total_files resp = 4 \<and> ur_successful_uploads resp = 2 \<and>
       map batch_sequence (batch_scans ''batch-0'' W') = [1, 4]"
proof -
  let ?st = "upload_loop demo_env ''batch-0'' None None demo_user mixed_files
               (empty_world\<lparr>processor := (1, [])\<rparr>)"
  have ne: "mixed_files \<noteq> []" "length mixed_files \<le> 5000"
    by (simp_all add: mixed_files_def)
  have len: "length mixed_files = 4" by (simp add: mixed_files_def)
  from upload_accepted [OF ne demo_batch_id, of None None demo_user]
  obtain resp where
    r: "upload_thermal_images demo_env mixed_files None None demo_user empty_world
          = (Inr resp,
             (ls_world ?st)\<lparr>tasks := (if 0 < successful_uploads ?st
                 then tasks empty_world @ [(''batch-0'', user_id demo_user)]
                 else tasks empty_world)\<rparr>)"
    and t: "ur_total_files resp = length mixed_files"
    and s: "ur_successful_uploads resp = successful_uploads ?st"
    by blast
  let ?W' = "(ls_world ?st)\<lparr>tasks := (if 0 < successful_uploads ?st
                 then tasks empty_world @ [(''batch-0'', user_id demo_user)]
                 else tasks empty_world)\<rparr>"
  have all: "filter (\<lambda>scan. batch_id scan = ''batch-0'') (thermal_scans (ls_world ?st))
               = thermal_scans (ls_world ?st)"
  proof -
    have "set (map batch_id (thermal_scans (ls_world ?st))) = {''batch-0''}"
      using mixed_rounds unfolding after_batch_id_def by simp
    then show ?thesis by (auto simp: filter_id_conv)
  qed
  have "map batch_sequence (batch_scans ''batch-0'' ?W') = [1, 4]"
    using mixed_rounds all unfolding after_batch_id_def by (simp add: batch_scans_def)
  with r t s len mixed_rounds show ?thesis
    unfolding after_batch_id_def by (intro exI [of _ resp] exI [of _ ?W']) simp
qed

text \<open>
  C7 fails as stated: of four files the second and the third raise, and the records stored
  for the batch carry the sequence numbers 1 and 4, not a contiguous range.
\<close>

theorem sequence_gap_counterexample:
  "\<exists>resp W'. upload_thermal_images demo_env mixed_files None None demo_user empty_world
                 = (Inr resp, W') \<and>
       ur_total_files resp = 4 \<and>
       map batch_sequence (batch_scans ''batch-0'' W') = [1, 4] \<and>
       map batch_sequence (batch_scans ''batch-0'' W') \<noteq> [1, 2, 3, 4]"
  using mixed_upload by auto

theorem batch_sequence_numbers_witness:
  "mixed_files \<noteq> [] \<and> length mixed_files \<le> 5000 \<and>
   create_batch_id demo_env (processor empty_world) = (''batch-0'', (1, [])) \<and>
   batch_scans ''batch-0'' empty_world = [] \<and>
   (\<exists>resp W'. upload_thermal_images demo_env mixed_files None None demo_user empty_world
                 = (Inr resp, W') \<and>
       sorted_wrt (<) (map batch_sequence (batch_scans ''batch-0'' W')) \<and>
       length (batch_scans ''batch-0'' W') = ur_successful_uploads resp \<and>
       map batch_sequence (batch_scans ''batch-0'' W') = [1, 4])"
proof -
  have ne: "mixed_files \<noteq> []" "length mixed_files \<le> 5000"
    by (simp_all add: mixed_files_def)
  have fresh: "batch_scans ''batch-0'' empty_world = []"
    by (simp add: batch_scans_def empty_world_def)
  from batch_sequence_numbers [OF ne demo_batch_id fresh, of None None demo_user]
  obtain resp W' where
    r: "upload_thermal_images demo_env mixed_files None None demo_user empty_world = (Inr resp, W')"
    and s: "sorted_wrt (<) (map batch_sequence (batch_scans ''batch-0'' W'))"
    and l: "(\<forall>s\<in>set (batch_scans ''batch-0'' W'). refresh_error demo_env s = None) \<longrightarrow>
        length (batch_scans ''batch-0'' W') = ur_successful_uploads resp"
    by blast
  from l have l': "length (batch_scans ''batch-0'' W') = ur_successful_uploads resp"
    by (simp add: demo_refresh)
  from mixed_upload r have "map batch_sequence (batch_scans ''batch-0'' W') = [1, 4]"
    by auto
  with r s l' have "\<exists>resp W'. upload_thermal_images demo_env mixed_files None None demo_user
                 empty_world = (Inr resp, W') \<and>
       sorted_wrt (<) (map batch_sequence (batch_scans ''batch-0'' W')) \<and>
       length (batch_scans ''batch-0'' W') = ur_successful_uploads resp \<and>
       map batch_sequence (batch_scans ''batch-0'' W') = [1, 4]"
    by (intro exI [of _ resp] exI [of _ W'] conjI)
  with ne demo_batch_id fresh show ?thesis by (intro conjI)
qed

text \<open>
  A record without a successful upload: the commit of the row goes through, \<^verbatim>\<open>db.refresh\<close>
  raises, and the file is reported failed while its row, with sequence number 1, is stored.
\<close>

lemma refresh_failure_keeps_row:
  "fst (upload_thermal_images failed_refresh_env other_files None None demo_user empty_world)
     = Inr \<lparr>ur_batch_id = ''batch-0'', ur_total_files = 2, ur_successful_uploads = 1,
            ur_failed_uploads = 1, ur_processing_status = ''queued'',
            ur_message = ''Batch batch-0: 1 files uploaded successfully, 1 failed. Processing started.''\<rparr> \<and>
   map (\<lambda>scan. (original_filename scan, batch_sequence scan))
     (batch_scans ''batch-0'' (snd
       (upload_thermal_images failed_refresh_env other_files None None demo_user empty_world)))
     = [(''a.jpg'', 1), (''c.jpg'', 2)] \<and>
   map fu_status (upload_results
       (upload_loop failed_refresh_env ''batch-0'' None None demo_user other_files after_batch_id))
     = [''failed'', ''uploaded'']"
  by code_simp

section \<open>Duplicates\<close>

lemma find_unique_hash:
  "distinct (map file_hash xs) \<Longrightarrow> r \<in> set xs
     \<Longrightarrow> find (\<lambda>scan. file_hash scan = file_hash r) xs = Some r"
proof (induction xs)
  case Nil
  then show ?case by simp
next
  case (Cons x xs)
  show ?case
  proof (cases "x = r")
    case True
    then show ?thesis by simp
  next
    case False
    with Cons.prems have "r \<in> set xs" by simp
    with Cons.prems have "file_hash x \<noteq> file_hash r" by auto
    with Cons \<open>r \<in> set xs\<close> show ?thesis by simp
  qed
qed

lemma upload_keeps_hashes_distinct:
  assumes "distinct (map file_hash (thermal_scans W))"
  shows "distinct (map file_hash
           (thermal_scans (snd (upload_thermal_images env files ambient notes' u W))))"
proof (cases "files = [] \<or> 5000 < length files")
  case True
  with assms show ?thesis by (auto simp: upload_thermal_images_def)
next
  case False
  obtain b pb where c: "create_batch_id env (processor W) = (b, pb)"
    by (cases "create_batch_id env (processor W)")
  let ?st = "upload_loop env b ambient notes' u files (W\<lparr>processor := pb\<rparr>)"
  from upload_accepted [of files env W b pb ambient notes' u] False c
  obtain resp where
    "upload_thermal_images env files ambient notes' u W
       = (Inr resp,
          (ls_world ?st)\<lparr>tasks := (if 0 < successful_uploads ?st
                                   then tasks W @ [(b, user_id u)] else tasks W)\<rparr>)"
    by auto
  then have "thermal_scans (snd (upload_thermal_images env files ambient notes' u W))
               = thermal_scans (ls_world ?st)"
    by simp
  moreover have "distinct (map file_hash (thermal_scans (ls_world ?st)))"
    using upload_loop_scans [of env b ambient notes' u files "W\<lparr>processor := pb\<rparr>"] assms
    by auto
  ultimately show ?thesis by simp
qed

text \<open>The round of a file whose hash is stored, in a session that answers the lookup.\<close>

lemma duplicate_round:
  assumes "distinct (map file_hash (thermal_scans (ls_world st)))"
    and "r \<in> set (thermal_scans (ls_world st))"
    and "\<not> needs_rollback st"
    and "uf_read f = Inr content"
    and "validate_image_file env (uf_filename f) (length content) = Inr (True, msg)"
    and "calculate_file_hash env content = Inr (file_hash r)"
    and "query_error env (file_hash r) = None"
  shows "process_file env batch ambient notes' u (sequence, f) st
          = add_result (FileUploadStatus (uf_filename f) ''skipped''
                          ''Duplicate file already processed'' (Some (scan_id r))) st"
proof -
  from assms(1,2)
  have "find (\<lambda>scan. file_hash scan = file_hash r) (thermal_scans (ls_world st)) = Some r"
    by (rule find_unique_hash)
  with assms(3,7) have "find_by_hash env (file_hash r) st = (Inr (Some r), st)"
    by (simp add: find_by_hash_def)
  with assms(4-6) show ?thesis
    by (simp add: process_file_def try_file_def)
qed

text \<open>The last round of the loop.\<close>

lemma upload_loop_snoc:
  "upload_loop env batch ambient notes' u (files @ [f]) W
     = process_file env batch ambient notes' u (Suc (length files), f)
         (upload_loop env batch ambient notes' u files W)"
  by (simp add: upload_loop_def enumerate_append_eq)

text \<open>A request whose last file has a hash that is stored when its round begins.\<close>

lemma duplicate_last_file:
  assumes len: "length files < 5000"
    and cb: "create_batch_id env (processor W) = (batch, pb)"
    and di: "distinct (map file_hash (thermal_scans W))"
    and mem: "r \<in> set (thermal_scans (ls_world
                 (upload_loop env batch ambient notes' u files (W\<lparr>processor := pb\<rparr>))))"
    and ok: "\<not> needs_rollback (upload_loop env batch ambient notes' u files (W\<lparr>processor := pb\<rparr>))"
    and rd: "uf_read f = Inr content"
    and va: "validate_image_file env (uf_filename f) (length content) = Inr (True, msg)"
    and ha: "calculate_file_hash env content = Inr (file_hash r)"
    and qe: "query_error env (file_hash r) = None"
  shows "\<exists>resp W'.
     upload_thermal_images env (files @ [f]) ambient notes' u W = (Inr resp, W') \<and>
     thermal_scans W'
       = thermal_scans (ls_world
           (upload_loop env batch ambient notes' u files (W\<lparr>processor := pb\<rparr>))) \<and>
     processor W'
       = processor (ls_world
           (upload_loop env batch ambient notes' u files (W\<lparr>processor := pb\<rparr>))) \<and>
     ur_total_files resp = Suc (length files) \<and>
     ur_successful_uploads resp
       = successful_uploads
           (upload_loop env batch ambient notes' u files (W\<lparr>processor := pb\<rparr>)) \<and>
     ur_failed_uploads resp
       = failed_uploads (upload_loop env batch ambient notes' u files (W\<lparr>processor := pb\<rparr>)) \<and>
     upload_results (upload_loop env batch ambient notes' u (files @ [f]) (W\<lparr>processor := pb\<rparr>))
       = upload_results (upload_loop env batch ambient notes' u files (W\<lparr>processor := pb\<rparr>)) @
         [FileUploadStatus (uf_filename f) ''skipped'' ''Duplicate file already processed''
            (Some (scan_id r))]"
proof -
  let ?st = "upload_loop env batch ambient notes' u files (W\<lparr>processor := pb\<rparr>)"
  let ?st' = "upload_loop env batch ambient notes' u (files @ [f]) (W\<lparr>processor := pb\<rparr>)"
  have d: "distinct (map file_hash (thermal_scans (ls_world ?st)))"
    using upload_loop_scans [of env batch ambient notes' u files "W\<lparr>processor := pb\<rparr>"] di
    by auto
  have eq: "?st' = add_result (FileUploadStatus (uf_filename f) ''skipped''
                          ''Duplicate file already processed'' (Some (scan_id r))) ?st"
    unfolding upload_loop_snoc by (rule duplicate_round [OF d mem ok rd va ha qe])
  have ne: "files @ [f] \<noteq> []" "length (files @ [f]) \<le> 5000" using len by simp_all
  from upload_accepted [OF ne cb, of ambient notes' u]
  obtain resp where
    r: "upload_thermal_images env (files @ [f]) ambient notes' u W
          = (Inr resp,
             (ls_world ?st')\<lparr>tasks := (if 0 < successful_uploads ?st'
                                       then tasks W @ [(batch, user_id u)] else tasks W)\<rparr>)"
    and t: "ur_total_files resp = length (files @ [f])"
    and s: "ur_successful_uploads resp = successful_uploads ?st'"
    and fl: "ur_failed_uploads resp = failed_uploads ?st'"
    by blast
  let ?W' = "(ls_world ?st')\<lparr>tasks := (if 0 < successful_uploads ?st'
                                       then tasks W @ [(batch, user_id u)] else tasks W)\<rparr>"
  have c1: "thermal_scans ?W' = thermal_scans (ls_world ?st)"
    unfolding eq by (simp add: add_result_def)
  have c2: "processor ?W' = processor (ls_world ?st)"
    unfolding eq by (simp add: add_result_def)
  have c3: "ur_total_files resp = Suc (length files)" using t by simp
  have c4: "ur_successful_uploads resp = successful_uploads ?st"
    using s unfolding eq by (simp add: add_result_def)
  have c5: "ur_failed_uploads resp = failed_uploads ?st"
    using fl unfolding eq by (simp add: add_result_def)
  have c6: "upload_results ?st'
       = upload_results ?st @
         [FileUploadStatus (uf_filename f) ''skipped'' ''Duplicate file already processed''
            (Some (scan_id r))]"
    unfolding eq by (simp add: add_result_def)
  from r c1 c2 c3 c4 c5 c6 show ?thesis
    by (intro exI [of _ resp] exI [of _ ?W'] conjI)
qed

text \<open>
  C5 (as amended). When the bytes of a file are read, its name and size pass validation, a
  record with its content hash is already stored (by an earlier file of the same call or
  by another batch) and the lookup of that hash runs, that is, it does not raise and no
  earlier failure of the call has left the session in need of a rollback, the round records
  the outcome skipped with the id of that record and changes nothing else: no file is
  stored, no record is created, neither count grows. An upload call never creates a second record with a content hash that is
  already stored: if the hashes of the stored records are distinct before the call, they
  are distinct after it. For a request whose last file is such a duplicate, the route
  returns the counts and leaves the records and stored files that the files before it
  produced.
\<close>

theorem duplicate_upload_skipped:
  "(distinct (map file_hash (thermal_scans (ls_world st))) \<and>
    r \<in> set (thermal_scans (ls_world st)) \<and>
    \<not> needs_rollback st \<and>
    uf_read f = Inr content \<and>
    validate_image_file env (uf_filename f) (length content) = Inr (True, msg) \<and>
    calculate_file_hash env content = Inr (file_hash r) \<and>
    query_error env (file_hash r) = None
    \<longrightarrow> ls_world (process_file env batch ambient notes' u (sequence, f) st) = ls_world st \<and>
        needs_rollback (process_file env batch ambient notes' u (sequence, f) st)
          = needs_rollback st \<and>
        successful_uploads (process_file env batch ambient notes' u (sequence, f) st)
          = successful_uploads st \<and>
        failed_uploads (process_file env batch ambient notes' u (sequence, f) st)
          = failed_uploads st \<and>
        upload_results (process_file env batch ambient notes' u (sequence, f) st)
          = upload_results st @
            [FileUploadStatus (uf_filename f) ''skipped'' ''Duplicate file already processed''
               (Some (scan_id r))]) \<and>
   (distinct (map file_hash (thermal_scans W))
    \<longrightarrow> distinct (map file_hash
          (thermal_scans (snd (upload_thermal_images env files ambient notes' u W))))) \<and>
   (length files < 5000 \<and>
    create_batch_id env (processor W) = (batch, pb) \<and>
    distinct (map file_hash (thermal_scans W)) \<and>
    r \<in> set (thermal_scans (ls_world
           (upload_loop env batch ambient notes' u files (W\<lparr>processor := pb\<rparr>)))) \<and>
    \<not> needs_rollback (upload_loop env batch ambient notes' u files (W\<lparr>processor := pb\<rparr>)) \<and>
    uf_read f = Inr content \<and>
    validate_image_file env (uf_filename f) (length content) = Inr (True, msg) \<and>
    calculate_file_hash env content = Inr (file_hash r) \<and>
    query_error env (file_hash r) = None
    \<longrightarrow> (\<exists>resp W'.
          upload_thermal_images env (files @ [f]) ambient notes' u W = (Inr resp, W') \<and>
          thermal_scans W'
            = thermal_scans (ls_world
                (upload_loop env batch ambient notes' u files (W\<lparr>processor := pb\<rparr>))) \<and>
          processor W'
            = processor (ls_world
                (upload_loop env batch ambient notes' u files (W\<lparr>processor := pb\<rparr>))) \<and>
          ur_total_files resp = Suc (length files) \<and>
          ur_successful_uploads resp
            = successful_uploads
                (upload_loop env batch ambient notes' u files (W\<lparr>processor := pb\<rparr>)) \<and>
          ur_failed_uploads resp
            = failed_uploads
                (upload_loop env batch ambient notes' u files (W\<lparr>processor := pb\<rparr>)) \<and>
          upload_results
              (upload_loop env batch ambient notes' u (files @ [f]) (W\<lparr>processor := pb\<rparr>))
            = upload_results
                (upload_loop env batch ambient notes' u files (W\<lparr>processor := pb\<rparr>)) @
              [FileUploadStatus (uf_filename f) ''skipped'' ''Duplicate file already processed''
                 (Some (scan_id r))]))"
proof (intro conjI impI)
  assume a: "distinct (map file_hash (thermal_scans (ls_world st))) \<and>
    r \<in> set (thermal_scans (ls_world st)) \<and>
    \<not> needs_rollback st \<and>
    uf_read f = Inr content \<and>
    validate_image_file env (uf_filename f) (length content) = Inr (True, msg) \<and>
    calculate_file_hash env content = Inr (file_hash r) \<and>
    query_error env (file_hash r) = None"
  then have eq: "process_file env batch ambient notes' u (sequence, f) st
          = add_result (FileUploadStatus (uf_filename f) ''skipped''
                          ''Duplicate file already processed'' (Some (scan_id r))) st"
    by (intro duplicate_round [where content = content and msg = msg]) simp_all
  show "ls_world (process_file env batch ambient notes' u (sequence, f) st) = ls_world st"
    "needs_rollback (process_file env batch ambient notes' u (sequence, f) st)
          = needs_rollback st"
    "successful_uploads (process_file env batch ambient notes' u (sequence, f) st)
          = successful_uploads st"
    "failed_uploads (process_file env batch ambient notes' u (sequence, f) st)
          = failed_uploads st"
    "upload_results (process_file env batch ambient notes' u (sequence, f) st)
          = upload_results st @
            [FileUploadStatus (uf_filename f) ''skipped'' ''Duplicate file already processed''
               (Some (scan_id r))]"
    unfolding eq by (simp_all add: add_result_def)
next
  assume "distinct (map file_hash (thermal_scans W))"
  then show "distinct (map file_hash
          (thermal_scans (snd (upload_thermal_images env files ambient notes' u W))))"
    by (rule upload_keeps_hashes_distinct)
next
  assume "length files < 5000 \<and>
    create_batch_id env (processor W) = (batch, pb) \<and>
    distinct (map file_hash (thermal_scans W)) \<and>
    r \<in> set (thermal_scans (ls_world
           (upload_loop env batch ambient notes' u files (W\<lparr>processor := pb\<rparr>)))) \<and>
    \<not> needs_rollback (upload_loop env batch ambient notes' u files (W\<lparr>processor := pb\<rparr>)) \<and>
    uf_read f = Inr content \<and>
    validate_image_file env (uf_filename f) (length content) = Inr (True, msg) \<and>
    calculate_file_hash env content = Inr (file_hash r) \<and>
    query_error env (file_hash r) = None"
  then show "\<exists>resp W'.
          upload_thermal_images env (files @ [f]) ambient notes' u W = (Inr resp, W') \<and>
          thermal_scans W'
            = thermal_scans (ls_world
                (upload_loop env batch ambient notes' u files (W\<lparr>processor := pb\<rparr>))) \<and>
          processor W'
            = processor (ls_world
                (upload_loop env batch ambient notes' u files (W\<lparr>processor := pb\<rparr>))) \<and>
          ur_total_files resp = Suc (length files) \<and>
          ur_successful_uploads resp
            = successful_uploads
                (upload_loop env batch ambient notes' u files (W\<lparr>processor := pb\<rparr>)) \<and>
          ur_failed_uploads resp
            = failed_uploads
                (upload_loop env batch ambient notes' u files (W\<lparr>processor := pb\<rparr>)) \<and>
          upload_results
              (upload_loop env batch ambient notes' u (files @ [f]) (W\<lparr>processor := pb\<rparr>))
            = upload_results
                (upload_loop env batch ambient notes' u files (W\<lparr>processor := pb\<rparr>)) @
              [FileUploadStatus (uf_filename f) ''skipped'' ''Duplicate file already processed''
                 (Some (scan_id r))]"
    by (intro duplicate_last_file [where content = content and msg = msg]) simp_all
qed

text \<open>Two files with the same bytes and valid names in one call: the second is skipped.\<close>

lemma twin_jpg_outcomes:
  "upload_results (upload_loop demo_env ''batch-0'' None None demo_user twin_jpg_files empty_world)
     = [FileUploadStatus ''x.jpg'' ''uploaded''
          ''Successfully uploaded and queued for processing'' (Some 1),
        FileUploadStatus ''y.jpg'' ''skipped'' ''Duplicate file already processed'' (Some 1)] \<and>
   map file_hash (thermal_scans (ls_world
     (upload_loop demo_env ''batch-0'' None None demo_user twin_jpg_files empty_world))) = [''XX'']"
  by code_simp

lemma twin_rounds:
  "map fu_status (upload_results
      (upload_loop demo_env ''batch-0'' None None demo_user twin_files after_batch_id))
     = [''uploaded'', ''failed''] \<and>
   map fu_thermal_scan_id (upload_results
      (upload_loop demo_env ''batch-0'' None None demo_user twin_files after_batch_id))
     = [Some 1, None] \<and>
   successful_uploads
      (upload_loop demo_env ''batch-0'' None None demo_user twin_files after_batch_id) = 1 \<and>
   failed_uploads
      (upload_loop demo_env ''batch-0'' None None demo_user twin_files after_batch_id) = 1"
  by code_simp

text \<open>
  C5 fails as stated: two files with the same bytes, the second with a name that does not
  pass validation. The second is recorded as failed, not skipped, and the failed count of
  the returned summary is 1.
\<close>

theorem duplicate_reported_failed_counterexample:
  "uf_read (twin_files ! 0) = Inr ''XX'' \<and> uf_read (twin_files ! 1) = Inr ''XX'' \<and>
   (\<exists>resp W'. upload_thermal_images demo_env twin_files None None demo_user empty_world
                 = (Inr resp, W') \<and>
       ur_successful_uploads resp = 1 \<and> ur_failed_uploads resp = 1) \<and>
   map fu_status (upload_results
      (upload_loop demo_env ''batch-0'' None None demo_user twin_files after_batch_id))
     = [''uploaded'', ''failed'']"
proof -
  have ne: "twin_files \<noteq> []" "length twin_files \<le> 5000"
    by (simp_all add: twin_files_def)
  from upload_accepted [OF ne demo_batch_id, of None None demo_user] twin_rounds
  have "\<exists>resp W'. upload_thermal_images demo_env twin_files None None demo_user empty_world
                 = (Inr resp, W') \<and>
       ur_successful_uploads resp = 1 \<and> ur_failed_uploads resp = 1"
    unfolding after_batch_id_def by auto
  moreover have "uf_read (twin_files ! 0) = Inr ''XX''" "uf_read (twin_files ! 1) = Inr ''XX''"
    by (simp_all add: twin_files_def)
  ultimately show ?thesis using twin_rounds by blast
qed

lemma status_world_hashes:
  "map file_hash (thermal_scans status_world) = [''1'', ''2'', ''3'', ''4'']"
  by code_simp

lemma x_round:
  "thermal_scans (ls_world
      (upload_loop demo_env ''batch-0'' None None demo_user [x_file] after_batch_id)) = [x_scan] \<and>
   \<not> needs_rollback
      (upload_loop demo_env ''batch-0'' None None demo_user [x_file] after_batch_id) \<and>
   successful_uploads
      (upload_loop demo_env ''batch-0'' None None demo_user [x_file] after_batch_id) = 1 \<and>
   failed_uploads
      (upload_loop demo_env ''batch-0'' None None demo_user [x_file] after_batch_id) = 0 \<and>
   upload_results
      (upload_loop demo_env ''batch-0'' None None demo_user [x_file] after_batch_id)
     = [FileUploadStatus ''x.jpg'' ''uploaded''
          ''Successfully uploaded and queued for processing'' (Some 1)]"
  by code_simp

theorem duplicate_upload_skipped_witness:
  "distinct (map file_hash (thermal_scans (ls_world status_state))) \<and>
   demo_scan 1 ''b1'' 1 7 ''completed'' 10 (Some 80) \<in> set (thermal_scans (ls_world status_state)) \<and>
   \<not> needs_rollback status_state \<and>
   uf_read dup_file = Inr ''1'' \<and>
   validate_image_file demo_env (uf_filename dup_file) (length ''1'') = Inr (True, ''Valid file'') \<and>
   calculate_file_hash demo_env ''1''
     = Inr (file_hash (demo_scan 1 ''b1'' 1 7 ''completed'' 10 (Some 80))) \<and>
   query_error demo_env (file_hash (demo_scan 1 ''b1'' 1 7 ''completed'' 10 (Some 80))) = None \<and>
   ls_world (process_file demo_env ''b7'' None None demo_user (1, dup_file) status_state)
     = status_world \<and>
   upload_results (process_file demo_env ''b7'' None None demo_user (1, dup_file) status_state)
     = [FileUploadStatus ''dup.jpg'' ''skipped'' ''Duplicate file already processed'' (Some 1)] \<and>
   successful_uploads (process_file demo_env ''b7'' None None demo_user (1, dup_file) status_state)
     = 0 \<and>
   failed_uploads (process_file demo_env ''b7'' None None demo_user (1, dup_file) status_state)
     = 0 \<and>
   distinct (map file_hash (thermal_scans status_world)) \<and>
   distinct (map file_hash (thermal_scans
      (snd (upload_thermal_images demo_env twin_jpg_files None None demo_user status_world)))) \<and>
   length [x_file] < 5000 \<and>
   create_batch_id demo_env (processor empty_world) = (''batch-0'', (1, [])) \<and>
   distinct (map file_hash (thermal_scans empty_world)) \<and>
   x_scan \<in> set (thermal_scans (ls_world
       (upload_loop demo_env ''batch-0'' None None demo_user [x_file] after_batch_id))) \<and>
   \<not> needs_rollback
       (upload_loop demo_env ''batch-0'' None None demo_user [x_file] after_batch_id) \<and>
   uf_read y_file = Inr ''XX'' \<and>
   validate_image_file demo_env (uf_filename y_file) (length ''XX'') = Inr (True, ''Valid file'') \<and>
   calculate_file_hash demo_env ''XX'' = Inr (file_hash x_scan) \<and>
   query_error demo_env (file_hash x_scan) = None \<and>
   (\<exists>resp W'.
      upload_thermal_images demo_env ([x_file] @ [y_file]) None None demo_user empty_world
        = (Inr resp, W') \<and>
      thermal_scans W' = [x_scan] \<and>
      ur_total_files resp = 2 \<and> ur_successful_uploads resp = 1 \<and> ur_failed_uploads resp = 0) \<and>
   upload_results
       (upload_loop demo_env ''batch-0'' None None demo_user ([x_file] @ [y_file]) after_batch_id)
     = [FileUploadStatus ''x.jpg'' ''uploaded''
          ''Successfully uploaded and queued for processing'' (Some 1),
        FileUploadStatus ''y.jpg'' ''skipped'' ''Duplicate file already processed'' (Some 1)]"
proof -
  let ?r = "demo_scan 1 ''b1'' 1 7 ''completed'' 10 (Some 80)"
  let ?st = "upload_loop demo_env ''batch-0'' None None demo_user [x_file] after_batch_id"
  have d: "distinct (map file_hash (thermal_scans status_world))"
    unfolding status_world_hashes by simp
  have h1: "distinct (map file_hash (thermal_scans (ls_world status_state)))"
    using d by (simp add: status_state_def)
  have h2: "?r \<in> set (thermal_scans (ls_world status_state))"
    by (simp add: status_state_def status_world_def)
  have h2': "\<not> needs_rollback status_state" by (simp add: status_state_def)
  have h3: "uf_read dup_file = Inr ''1''" by (simp add: dup_file_def)
  have h4: "validate_image_file demo_env (uf_filename dup_file) (length ''1'')
              = Inr (True, ''Valid file'')"
    by (simp add: demo_env_def dup_file_def ends_with_def)
  have h5: "calculate_file_hash demo_env ''1'' = Inr (file_hash ?r)"
    by (simp add: demo_env_def demo_scan_def show_nat_1)
  have h6: "query_error demo_env (file_hash ?r) = None" by (simp add: demo_env_def)
  have sid: "scan_id ?r = 1" by (simp add: demo_scan_def)
  note inst = duplicate_upload_skipped [where st = status_state and r = ?r and f = dup_file
      and content = "''1''" and env = demo_env and msg = "''Valid file''" and batch = "''b7''"
      and ambient = None and notes' = None and u = demo_user and sequence = 1
      and W = status_world and files = twin_jpg_files]
  from inst h1 h2 h2' h3 h4 h5 h6 have a:
    "ls_world (process_file demo_env ''b7'' None None demo_user (1, dup_file) status_state)
       = ls_world status_state"
    "successful_uploads (process_file demo_env ''b7'' None None demo_user (1, dup_file) status_state)
       = successful_uploads status_state"
    "failed_uploads (process_file demo_env ''b7'' None None demo_user (1, dup_file) status_state)
       = failed_uploads status_state"
    "upload_results (process_file demo_env ''b7'' None None demo_user (1, dup_file) status_state)
       = upload_results status_state @
         [FileUploadStatus (uf_filename dup_file) ''skipped''
            ''Duplicate file already processed'' (Some (scan_id ?r))]"
    by blast+
  from inst d have b: "distinct (map file_hash (thermal_scans
      (snd (upload_thermal_images demo_env twin_jpg_files None None demo_user status_world))))"
    by blast
  have st: "ls_world status_state = status_world" "successful_uploads status_state = 0"
    "failed_uploads status_state = 0" "upload_results status_state = []"
    by (simp_all add: status_state_def)
  have nm: "uf_filename dup_file = ''dup.jpg''" by (simp add: dup_file_def)
  note a' = a [unfolded st sid nm]
  from a'(4) have a4:
    "upload_results (process_file demo_env ''b7'' None None demo_user (1, dup_file) status_state)
       = [FileUploadStatus ''dup.jpg'' ''skipped'' ''Duplicate file already processed'' (Some 1)]"
    by simp
  have k1: "length [x_file] < 5000" by simp
  have k3: "distinct (map file_hash (thermal_scans empty_world))"
    by (simp add: empty_world_def)
  have k4: "x_scan \<in> set (thermal_scans (ls_world ?st))" using x_round by simp
  have k5: "\<not> needs_rollback ?st" using x_round by simp
  have k6: "uf_read y_file = Inr ''XX''" by (simp add: y_file_def)
  have k7: "validate_image_file demo_env (uf_filename y_file) (length ''XX'')
              = Inr (True, ''Valid file'')"
    by (simp add: demo_env_def y_file_def ends_with_def)
  have k8: "calculate_file_hash demo_env ''XX'' = Inr (file_hash x_scan)"
    by (simp add: demo_env_def x_scan_def)
  have k9: "query_error demo_env (file_hash x_scan) = None" by (simp add: demo_env_def)
  have xid: "scan_id x_scan = 1" by (simp add: x_scan_def)
  have ynm: "uf_filename y_file = ''y.jpg''" by (simp add: y_file_def)
  have ab: "empty_world\<lparr>processor := (1, [])\<rparr> = after_batch_id"
    by (simp add: after_batch_id_def)
  note inst2 = duplicate_upload_skipped [where r = x_scan and f = y_file
      and content = "''XX''" and env = demo_env and msg = "''Valid file''"
      and batch = "''batch-0''" and pb = "(1, [])"
      and ambient = None and notes' = None and u = demo_user
      and W = empty_world and files = "[x_file]" and st = status_state and sequence = 1]
  from inst2 [unfolded ab] k1 demo_batch_id k3 k4 k5 k6 k7 k8 k9
  obtain resp W' where
    r: "upload_thermal_images demo_env ([x_file] @ [y_file]) None None demo_user empty_world
          = (Inr resp, W')"
    and r1: "thermal_scans W' = thermal_scans (ls_world ?st)"
    and r2: "ur_total_files resp = Suc (length [x_file])"
    and r3: "ur_successful_uploads resp = successful_uploads ?st"
    and r4: "ur_failed_uploads resp = failed_uploads ?st"
    and r5: "upload_results
       (upload_loop demo_env ''batch-0'' None None demo_user ([x_file] @ [y_file]) after_batch_id)
       = upload_results ?st @
         [FileUploadStatus (uf_filename y_file) ''skipped'' ''Duplicate file already processed''
            (Some (scan_id x_scan))]"
    by blast
  from x_round r1 r2 r3 r4 have q: "thermal_scans W' = [x_scan]" "ur_total_files resp = 2"
    "ur_successful_uploads resp = 1" "ur_failed_uploads resp = 0"
    by simp_all
  from r q have c: "\<exists>resp W'.
      upload_thermal_images demo_env ([x_file] @ [y_file]) None None demo_user empty_world
        = (Inr resp, W') \<and>
      thermal_scans W' = [x_scan] \<and>
      ur_total_files resp = 2 \<and> ur_successful_uploads resp = 1 \<and> ur_failed_uploads resp = 0"
    by (intro exI [of _ resp] exI [of _ W'] conjI)
  from r5 x_round have c': "upload_results
       (upload_loop demo_env ''batch-0'' None None demo_user ([x_file] @ [y_file]) after_batch_id)
     = [FileUploadStatus ''x.jpg'' ''uploaded''
          ''Successfully uploaded and queued for processing'' (Some 1),
        FileUploadStatus ''y.jpg'' ''skipped'' ''Duplicate file already processed'' (Some 1)]"
    by (simp add: xid ynm)
  from h1 h2 h2' h3 h4 h5 h6 a'(1) a4 a'(2) a'(3) d b k1 demo_batch_id k3 k4 k5 k6 k7 k8 k9 c c'
  show ?thesis by (intro conjI)
qed

text \<open>
  Without the hypothesis on the session: after the commit of another file has failed, a
  file with the bytes of a stored one is reported failed, not skipped.
\<close>

lemma duplicate_after_failed_commit:
  "upload_results
       (upload_loop failed_commit_env ''batch-0'' None None demo_user twin_after_bad_files
          after_batch_id)
     = [FileUploadStatus ''x.jpg'' ''uploaded''
          ''Successfully uploaded and queued for processing'' (Some 1),
        FileUploadStatus ''bad.jpg'' ''failed''
          ''Processing error: DataError: value too long'' None,
        FileUploadStatus ''y.jpg'' ''failed''
          ''Processing error: Session needs rollback'' None] \<and>
   map file_hash (thermal_scans (ls_world
       (upload_loop failed_commit_env ''batch-0'' None None demo_user twin_after_bad_files
          after_batch_id)))
     = [''XX'']"
  by code_simp

section \<open>Errors in the upload loop\<close>

text \<open>
  What holds of every request: the two checks reject with status 400 and leave the world as
  it was; a request that passes them returns a summary, every file gets one outcome, in the
  order of submission, and the records present before the call are still there after it.
\<close>

lemma upload_request_outcomes:
  "(files = [] \<longrightarrow>
      upload_thermal_images env files ambient notes' u W
        = (Inl (HTTPException 400 ''No files provided''), W)) \<and>
   (5000 < length files \<longrightarrow>
      upload_thermal_images env files ambient notes' u W
        = (Inl (HTTPException 400 ''Maximum 5000 files allowed per batch''), W)) \<and>
   (files \<noteq> [] \<and> length files \<le> 5000 \<longrightarrow>
      (\<exists>resp W'. upload_thermal_images env files ambient notes' u W = (Inr resp, W') \<and>
         ur_total_files resp = length files \<and>
         ur_successful_uploads resp + ur_failed_uploads resp \<le> length files \<and>
         prefix (thermal_scans W) (thermal_scans W'))) \<and>
   map fu_filename (upload_results (upload_loop env batch ambient notes' u files W))
     = map uf_filename files"
proof (intro conjI impI)
  assume "files = []"
  then show "upload_thermal_images env files ambient notes' u W
        = (Inl (HTTPException 400 ''No files provided''), W)"
    by (simp add: upload_thermal_images_def)
next
  assume "5000 < length files"
  then show "upload_thermal_images env files ambient notes' u W
        = (Inl (HTTPException 400 ''Maximum 5000 files allowed per batch''), W)"
    by (auto simp: upload_thermal_images_def)
next
  assume a: "files \<noteq> [] \<and> length files \<le> 5000"
  obtain b pb where c: "create_batch_id env (processor W) = (b, pb)"
    by (cases "create_batch_id env (processor W)")
  let ?st = "upload_loop env b ambient notes' u files (W\<lparr>processor := pb\<rparr>)"
  from upload_accepted [of files env W b pb ambient notes' u] a c
  obtain resp where
    "upload_thermal_images env files ambient notes' u W
       = (Inr resp,
          (ls_world ?st)\<lparr>tasks := (if 0 < successful_uploads ?st
                                   then tasks W @ [(b, user_id u)] else tasks W)\<rparr>)"
    "ur_total_files resp = length files"
    "ur_successful_uploads resp = successful_uploads ?st"
    "ur_failed_uploads resp = failed_uploads ?st"
    by blast
  moreover have "successful_uploads ?st + failed_uploads ?st \<le> length files"
    using upload_loop_counts [of env b ambient notes' u files "W\<lparr>processor := pb\<rparr>"] by simp
  moreover have "prefix (thermal_scans W) (thermal_scans (ls_world ?st))"
    using upload_loop_scans [of env b ambient notes' u files "W\<lparr>processor := pb\<rparr>"]
    by (auto simp: prefix_def)
  ultimately show "\<exists>resp W'. upload_thermal_images env files ambient notes' u W = (Inr resp, W') \<and>
         ur_total_files resp = length files \<and>
         ur_successful_uploads resp + ur_failed_uploads resp \<le> length files \<and>
         prefix (thermal_scans W) (thermal_scans W')"
    by simp
next
  show "map fu_filename (upload_results (upload_loop env batch ambient notes' u files W))
     = map uf_filename files"
    by (rule upload_loop_results)
qed

text \<open>
  Once the session needs a rollback, the lookup of line 104 raises in every later round: a
  file that is read, passes validation and has a hash gets a failed outcome, whatever it is.
\<close>

lemma round_after_failed_commit:
  assumes "needs_rollback st"
    and "uf_read f = Inr content"
    and "validate_image_file env (uf_filename f) (length content) = Inr (True, msg)"
    and "calculate_file_hash env content = Inr hash"
  shows "process_file env batch ambient notes' u (sequence, f) st
          = add_result (FileUploadStatus (uf_filename f) ''failed''
                          (''Processing error: '' @ pending_rollback_error env) None)
              (st\<lparr>failed_uploads := failed_uploads st + 1\<rparr>)"
  using assms by (simp add: process_file_def try_file_def find_by_hash_def)

text \<open>
  C8. The handler of lines 166 to 173 turns the exception of a failed commit into a failed
  outcome and goes on without calling \<^verbatim>\<open>db.rollback()\<close>, so the session stays as the commit
  left it. Of three valid files with different bytes, the commit of the second fails: the
  third is reported failed too, with the message of a session that needs a rollback, and
  has no record; the same request without the second file uploads both of the others.
\<close>

theorem failed_commit_fails_later_file:
  "fst (upload_thermal_images failed_commit_env failed_commit_files None None demo_user
          empty_world)
     = Inr \<lparr>ur_batch_id = ''batch-0'', ur_total_files = 3, ur_successful_uploads = 1,
            ur_failed_uploads = 2, ur_processing_status = ''queued'',
            ur_message = ''Batch batch-0: 1 files uploaded successfully, 2 failed. Processing started.''\<rparr> \<and>
   map original_filename (thermal_scans (snd
       (upload_thermal_images failed_commit_env failed_commit_files None None demo_user
          empty_world)))
     = [''a.jpg''] \<and>
   upload_results
       (upload_loop failed_commit_env ''batch-0'' None None demo_user failed_commit_files
          after_batch_id)
     = [FileUploadStatus ''a.jpg'' ''uploaded''
          ''Successfully uploaded and queued for processing'' (Some 1),
        FileUploadStatus ''bad.jpg'' ''failed''
          ''Processing error: DataError: value too long'' None,
        FileUploadStatus ''c.jpg'' ''failed''
          ''Processing error: Session needs rollback'' None] \<and>
   fst (upload_thermal_images failed_commit_env other_files None None demo_user empty_world)
     = Inr \<lparr>ur_batch_id = ''batch-0'', ur_total_files = 2, ur_successful_uploads = 2,
            ur_failed_uploads = 0, ur_processing_status = ''queued'',
            ur_message = ''Batch batch-0: 2 files uploaded successfully, 0 failed. Processing started.''\<rparr> \<and>
   map original_filename (thermal_scans (snd
       (upload_thermal_images failed_commit_env other_files None None demo_user empty_world)))
     = [''a.jpg'', ''c.jpg'']"
  by code_simp

section \<open>Properties of the model loader\<close>

subsection \<open>Verification\<close>

lemma concat_read_chunks: "0 < n \<Longrightarrow> concat (read_chunks n bs) = bs"
proof (induction n bs rule: read_chunks.induct)
  case (1 n bs)
  show ?case
  proof (cases "take n bs = []")
    case True
    with "1.prems" have "bs = []" by (simp add: take_eq_Nil)
    then show ?thesis by (simp add: read_chunks.simps)
  next
    case False
    with "1.IH" "1.prems" have "concat (read_chunks n (drop n bs)) = drop n bs" by simp
    with False show ?thesis
      by (subst read_chunks.simps) simp
  qed
qed

lemma file_digest [simp]:
  "sha256_hexdigest env (concat (read_chunks 4096 content)) = sha256_hexdigest env content"
  by (simp add: concat_read_chunks)

lemma verify_unknown:
  "map_of (model_config L) name = None \<Longrightarrow>
     verify_model_integrity env name (L, F)
       = (Inl (ModelIntegrityError (''Unknown model: '' @ name)), L, F)"
  by (simp add: verify_model_integrity_def)

lemma verify_missing:
  "map_of (model_config L) name = Some cfg \<Longrightarrow> nodes F (model_path L cfg) = None \<Longrightarrow>
     verify_model_integrity env name (L, F)
       = (Inl (ModelIntegrityError (''Model file not found: '' @ model_path L cfg)), L, F)"
  by (simp add: verify_model_integrity_def model_path_def)

lemma verify_unreadable:
  "map_of (model_config L) name = Some cfg \<Longrightarrow>
   nodes F (model_path L cfg) = Some (Unreadable msg sz) \<Longrightarrow>
     verify_model_integrity env name (L, F) = (Inl (verify_failed name msg), L, F)"
  by (simp add: verify_model_integrity_def model_path_def)

lemma verify_pinned:
  "map_of (model_config L) name = Some cfg \<Longrightarrow>
   nodes F (model_path L cfg) = Some (Readable content) \<Longrightarrow>
   expected_sha256 cfg = Some pinned \<Longrightarrow>
     verify_model_integrity env name (L, F)
       = (if sha256_hexdigest env content = pinned then (Inr True, L, F)
          else (Inl (verify_failed name
                       (mismatch_message name pinned (sha256_hexdigest env content))), L, F))"
  by (simp add: verify_model_integrity_def model_path_def)

lemma verify_first_use:
  "map_of (model_config L) name = Some cfg \<Longrightarrow>
   nodes F (model_path L cfg) = Some (Readable content) \<Longrightarrow>
   expected_sha256 cfg = None \<Longrightarrow>
     verify_model_integrity env name (L, F)
       = (Inr True,
          L\<lparr>model_config :=
              AList.update name (cfg\<lparr>expected_sha256 := Some (sha256_hexdigest env content)\<rparr>)
                (model_config L)\<rparr>,
          (case write_error F (metadata_path L name) of
             Some msg \<Rightarrow> F
           | None \<Rightarrow>
               F\<lparr>nodes := (nodes F)(metadata_path L name \<mapsto>
                    Readable (json_dump env
                      \<lparr>sm_checksum = sha256_hexdigest env content,
                       sm_file_size = length content,
                       sm_last_verified = now_isoformat env,
                       sm_version = cfg_version cfg\<rparr>))\<rparr>))"
  by (simp add: verify_model_integrity_def model_path_def metadata_path_def Let_def
        save_model_metadata_def write_text_def split: option.splits)

lemma fresh_config: "model_config fresh_loader = [(''yolo_nas_s'', yolo_config None)]"
  by (simp add: fresh_loader_def ProductionModelLoader_def yolo_config_def)

lemma fresh_paths:
  "model_path fresh_loader (yolo_config p) = ''models/yolo_nas_s_coco.pth''"
  "metadata_path fresh_loader ''yolo_nas_s'' = ''models/yolo_nas_s_metadata.json''"
  "model_path (pinned_loader c) (yolo_config p) = ''models/yolo_nas_s_coco.pth''"
  "metadata_path (pinned_loader c) ''yolo_nas_s'' = ''models/yolo_nas_s_metadata.json''"
  by (simp_all add: model_path_def metadata_path_def fresh_loader_def pinned_loader_def
        ProductionModelLoader_def yolo_config_def path_join_def)

text \<open>
  C3 (as amended). \<^verbatim>\<open>verify_model_integrity\<close> raises \<^verbatim>\<open>ModelIntegrityError\<close> for a name that is
  not configured, for a file that does not exist, and for a file that exists but cannot be
  read. For a readable file with a pinned checksum it returns success when the SHA-256 of
  the file equals the pinned value and raises \<^verbatim>\<open>ModelIntegrityError\<close> when it differs; the
  state is unchanged in all these cases. For a readable file with no pinned checksum it
  pins the SHA-256 of the file and returns success; the metadata file is written when it
  can be opened for writing, and when it cannot the file system stays as it was and the call
  still succeeds.
\<close>

theorem verify_model_integrity_cases:
  "(map_of (model_config L) name = None \<longrightarrow>
      (\<exists>m. verify_model_integrity env name (L, F) = (Inl (ModelIntegrityError m), L, F))) \<and>
   (map_of (model_config L) name = Some cfg \<and> nodes F (model_path L cfg) = None \<longrightarrow>
      (\<exists>m. verify_model_integrity env name (L, F) = (Inl (ModelIntegrityError m), L, F))) \<and>
   (map_of (model_config L) name = Some cfg \<and>
    nodes F (model_path L cfg) = Some (Unreadable msg sz) \<longrightarrow>
      (\<exists>m. verify_model_integrity env name (L, F) = (Inl (ModelIntegrityError m), L, F))) \<and>
   (map_of (model_config L) name = Some cfg \<and>
    nodes F (model_path L cfg) = Some (Readable content) \<and>
    expected_sha256 cfg = Some pinned \<and> sha256_hexdigest env content = pinned \<longrightarrow>
      verify_model_integrity env name (L, F) = (Inr True, L, F)) \<and>
   (map_of (model_config L) name = Some cfg \<and>
    nodes F (model_path L cfg) = Some (Readable content) \<and>
    expected_sha256 cfg = Some pinned \<and> sha256_hexdigest env content \<noteq> pinned \<longrightarrow>
      (\<exists>m. verify_model_integrity env name (L, F) = (Inl (ModelIntegrityError m), L, F))) \<and>
   (map_of (model_config L) name = Some cfg \<and>
    nodes F (model_path L cfg) = Some (Readable content) \<and> expected_sha256 cfg = None \<longrightarrow>
      (\<exists>L' F'. verify_model_integrity env name (L, F) = (Inr True, L', F') \<and>
         map_of (model_config L') name
           = Some (cfg\<lparr>expected_sha256 := Some (sha256_hexdigest env content)\<rparr>) \<and>
         (write_error F (metadata_path L name) = None \<longrightarrow>
            nodes F' (metadata_path L name)
              = Some (Readable (json_dump env
                  \<lparr>sm_checksum = sha256_hexdigest env content,
                   sm_file_size = length content,
                   sm_last_verified = now_isoformat env,
                   sm_version = cfg_version cfg\<rparr>))) \<and>
         (write_error F (metadata_path L name) \<noteq> None \<longrightarrow> F' = F)))"
proof (intro conjI impI)
  assume "map_of (model_config L) name = None"
  then show "\<exists>m. verify_model_integrity env name (L, F) = (Inl (ModelIntegrityError m), L, F)"
    by (simp add: verify_unknown)
next
  assume "map_of (model_config L) name = Some cfg \<and> nodes F (model_path L cfg) = None"
  then show "\<exists>m. verify_model_integrity env name (L, F) = (Inl (ModelIntegrityError m), L, F)"
    by (simp add: verify_missing)
next
  assume "map_of (model_config L) name = Some cfg \<and>
    nodes F (model_path L cfg) = Some (Unreadable msg sz)"
  then show "\<exists>m. verify_model_integrity env name (L, F) = (Inl (ModelIntegrityError m), L, F)"
    by (simp add: verify_unreadable verify_failed_def)
next
  assume "map_of (model_config L) name = Some cfg \<and>
    nodes F (model_path L cfg) = Some (Readable content) \<and>
    expected_sha256 cfg = Some pinned \<and> sha256_hexdigest env content = pinned"
  then show "verify_model_integrity env name (L, F) = (Inr True, L, F)"
    by (simp add: verify_pinned)
next
  assume "map_of (model_config L) name = Some cfg \<and>
    nodes F (model_path L cfg) = Some (Readable content) \<and>
    expected_sha256 cfg = Some pinned \<and> sha256_hexdigest env content \<noteq> pinned"
  then show "\<exists>m. verify_model_integrity env name (L, F) = (Inl (ModelIntegrityError m), L, F)"
    by (simp add: verify_pinned verify_failed_def)
next
  assume a: "map_of (model_config L) name = Some cfg \<and>
    nodes F (model_path L cfg) = Some (Readable content) \<and> expected_sha256 cfg = None"
  then have v: "verify_model_integrity env name (L, F)
       = (Inr True,
          L\<lparr>model_config :=
              AList.update name (cfg\<lparr>expected_sha256 := Some (sha256_hexdigest env content)\<rparr>)
                (model_config L)\<rparr>,
          (case write_error F (metadata_path L name) of
             Some msg \<Rightarrow> F
           | None \<Rightarrow>
               F\<lparr>nodes := (nodes F)(metadata_path L name \<mapsto>
                    Readable (json_dump env
                      \<lparr>sm_checksum = sha256_hexdigest env content,
                       sm_file_size = length content,
                       sm_last_verified = now_isoformat env,
                       sm_version = cfg_version cfg\<rparr>))\<rparr>))"
    by (simp add: verify_first_use)
  show "\<exists>L' F'. verify_model_integrity env name (L, F) = (Inr True, L', F') \<and>
         map_of (model_config L') name
           = Some (cfg\<lparr>expected_sha256 := Some (sha256_hexdigest env content)\<rparr>) \<and>
         (write_error F (metadata_path L name) = None \<longrightarrow>
            nodes F' (metadata_path L name)
              = Some (Readable (json_dump env
                  \<lparr>sm_checksum = sha256_hexdigest env content,
                   sm_file_size = length content,
                   sm_last_verified = now_isoformat env,
                   sm_version = cfg_version cfg\<rparr>))) \<and>
         (write_error F (metadata_path L name) \<noteq> None \<longrightarrow> F' = F)"
    unfolding v by (auto simp: update_conv')
qed

lemma fresh_lookup:
  "map_of (model_config fresh_loader) ''yolo_nas_s'' = Some (yolo_config None)"
  "map_of (model_config fresh_loader) ''other'' = None"
  "map_of (model_config (pinned_loader c)) ''yolo_nas_s'' = Some (yolo_config (Some c))"
  by (simp_all add: fresh_config pinned_loader_def)

lemma disk_nodes:
  "nodes (disk nd we) ''models/yolo_nas_s_coco.pth'' = nd"
  "nodes (disk nd we) ''models/yolo_nas_s_metadata.json'' = None"
  "write_error (disk nd we) ''models/yolo_nas_s_metadata.json'' = we"
  by (simp_all add: disk_def)

lemma demo_ml_fields:
  "sha256_hexdigest demo_ml bs = ''sha:'' @ bs"
  "json_dump demo_ml md = ''checksum='' @ sm_checksum md"
  "now_isoformat demo_ml = ''2024-01-01T00:00:00''"
  "import_models demo_ml = None" "import_torch demo_ml = None"
  "models_get demo_ml a None = Inr (Some (DemoModel a ''random'' False))"
  "models_get demo_ml a (Some w) = Inr (Some (DemoModel a (''remote:'' @ w) False))"
  "torch_load demo_ml content
     = (if content = ''corrupt'' then Inl (OtherException ''invalid load key'') else Inr content)"
  "load_state_dict demo_ml (DemoModel a w e) sd = Inr (DemoModel a (''local:'' @ sd) e)"
  "model_eval demo_ml (DemoModel a w e) = Inr (DemoModel a w True)"
  "tensor_sizes demo_ml m = Inr ([(10, 4)], [])"
  by (simp_all add: demo_ml_def)

lemma yolo_config_fields:
  "expected_sha256 (yolo_config p) = p" "cfg_version (yolo_config p) = ''1.0''"
  "(yolo_config p)\<lparr>expected_sha256 := q\<rparr> = yolo_config q"
  by (simp_all add: yolo_config_def)

text \<open>
  C3 fails as stated in two states: with no checksum pinned and a metadata file that cannot
  be written, the call pins and returns success but no metadata is stored; and a model file
  that exists but cannot be read (a directory) raises instead of being pinned.
\<close>

theorem metadata_not_persisted_counterexample:
  "map_of (model_config fresh_loader) ''yolo_nas_s'' = Some (yolo_config None) \<and>
   nodes (disk (Some (Readable ''weights'')) (Some ''Permission denied''))
     (model_path fresh_loader (yolo_config None)) = Some (Readable ''weights'') \<and>
   (\<exists>L'. verify_model_integrity demo_ml ''yolo_nas_s''
           (fresh_loader, disk (Some (Readable ''weights'')) (Some ''Permission denied''))
         = (Inr True, L', disk (Some (Readable ''weights'')) (Some ''Permission denied'')) \<and>
        map_of (model_config L') ''yolo_nas_s'' = Some (yolo_config (Some ''sha:weights''))) \<and>
   nodes (disk (Some (Readable ''weights'')) (Some ''Permission denied''))
     (metadata_path fresh_loader ''yolo_nas_s'') = None \<and>
   path_exists (disk (Some (Unreadable ''Is a directory'' 4096)) None)
     (model_path fresh_loader (yolo_config None)) \<and>
   verify_model_integrity demo_ml ''yolo_nas_s''
       (fresh_loader, disk (Some (Unreadable ''Is a directory'' 4096)) None)
     = (Inl (ModelIntegrityError ''Failed to verify model yolo_nas_s: Is a directory''),
        fresh_loader, disk (Some (Unreadable ''Is a directory'' 4096)) None)"
proof -
  let ?F = "disk (Some (Readable ''weights'')) (Some ''Permission denied'')"
  have n: "nodes ?F (model_path fresh_loader (yolo_config None)) = Some (Readable ''weights'')"
    by (simp add: fresh_paths disk_nodes)
  have "verify_model_integrity demo_ml ''yolo_nas_s'' (fresh_loader, ?F)
     = (Inr True,
        fresh_loader\<lparr>model_config :=
           AList.update ''yolo_nas_s'' (yolo_config (Some ''sha:weights''))
             (model_config fresh_loader)\<rparr>, ?F)"
    using verify_first_use [OF fresh_lookup(1) n, of demo_ml]
    by (simp add: yolo_config_fields fresh_paths disk_nodes demo_ml_fields)
  then have a: "\<exists>L'. verify_model_integrity demo_ml ''yolo_nas_s'' (fresh_loader, ?F)
         = (Inr True, L', ?F) \<and>
        map_of (model_config L') ''yolo_nas_s'' = Some (yolo_config (Some ''sha:weights''))"
    by (simp add: update_conv')
  have b: "nodes ?F (metadata_path fresh_loader ''yolo_nas_s'') = None"
    by (simp add: fresh_paths disk_nodes)
  let ?G = "disk (Some (Unreadable ''Is a directory'' 4096)) None"
  have g: "nodes ?G (model_path fresh_loader (yolo_config None))
             = Some (Unreadable ''Is a directory'' 4096)"
    by (simp add: fresh_paths disk_nodes)
  then have c: "path_exists ?G (model_path fresh_loader (yolo_config None))"
    by (simp add: path_exists_def)
  have d: "verify_model_integrity demo_ml ''yolo_nas_s'' (fresh_loader, ?G)
     = (Inl (ModelIntegrityError ''Failed to verify model yolo_nas_s: Is a directory''),
        fresh_loader, ?G)"
    using verify_unreadable [OF fresh_lookup(1) g, of demo_ml]
    by (simp add: verify_failed_def)
  from fresh_lookup(1) n a b c d show ?thesis by (intro conjI)
qed

theorem verify_model_integrity_cases_witness:
  "map_of (model_config fresh_loader) ''other'' = None \<and>
   (\<exists>m. verify_model_integrity demo_ml ''other'' (fresh_loader, disk None None)
          = (Inl (ModelIntegrityError m), fresh_loader, disk None None)) \<and>
   map_of (model_config fresh_loader) ''yolo_nas_s'' = Some (yolo_config None) \<and>
   nodes (disk None None) (model_path fresh_loader (yolo_config None)) = None \<and>
   (\<exists>m. verify_model_integrity demo_ml ''yolo_nas_s'' (fresh_loader, disk None None)
          = (Inl (ModelIntegrityError m), fresh_loader, disk None None)) \<and>
   nodes (disk (Some (Unreadable ''Is a directory'' 4096)) None)
     (model_path fresh_loader (yolo_config None)) = Some (Unreadable ''Is a directory'' 4096) \<and>
   (\<exists>m. verify_model_integrity demo_ml ''yolo_nas_s''
            (fresh_loader, disk (Some (Unreadable ''Is a directory'' 4096)) None)
          = (Inl (ModelIntegrityError m), fresh_loader,
             disk (Some (Unreadable ''Is a directory'' 4096)) None)) \<and>
   map_of (model_config (pinned_loader ''sha:weights'')) ''yolo_nas_s''
     = Some (yolo_config (Some ''sha:weights'')) \<and>
   nodes (disk (Some (Readable ''weights'')) None)
     (model_path (pinned_loader ''sha:weights'') (yolo_config (Some ''sha:weights'')))
     = Some (Readable ''weights'') \<and>
   sha256_hexdigest demo_ml ''weights'' = ''sha:weights'' \<and>
   verify_model_integrity demo_ml ''yolo_nas_s''
       (pinned_loader ''sha:weights'', disk (Some (Readable ''weights'')) None)
     = (Inr True, pinned_loader ''sha:weights'', disk (Some (Readable ''weights'')) None) \<and>
   nodes (disk (Some (Readable ''tampered'')) None)
     (model_path (pinned_loader ''sha:weights'') (yolo_config (Some ''sha:weights'')))
     = Some (Readable ''tampered'') \<and>
   sha256_hexdigest demo_ml ''tampered'' \<noteq> ''sha:weights'' \<and>
   (\<exists>m. verify_model_integrity demo_ml ''yolo_nas_s''
            (pinned_loader ''sha:weights'', disk (Some (Readable ''tampered'')) None)
          = (Inl (ModelIntegrityError m), pinned_loader ''sha:weights'',
             disk (Some (Readable ''tampered'')) None)) \<and>
   nodes (disk (Some (Readable ''weights'')) None) (model_path fresh_loader (yolo_config None))
     = Some (Readable ''weights'') \<and>
   expected_sha256 (yolo_config None) = None \<and>
   write_error (disk (Some (Readable ''weights'')) None) (metadata_path fresh_loader ''yolo_nas_s'')
     = None \<and>
   (\<exists>L' F'. verify_model_integrity demo_ml ''yolo_nas_s''
               (fresh_loader, disk (Some (Readable ''weights'')) None) = (Inr True, L', F') \<and>
      map_of (model_config L') ''yolo_nas_s'' = Some (yolo_config (Some ''sha:weights'')) \<and>
      nodes F' ''models/yolo_nas_s_metadata.json'' = Some (Readable ''checksum=sha:weights''))"
proof -
  note inst = verify_model_integrity_cases [where env = demo_ml]
  have sha: "sha256_hexdigest demo_ml ''weights'' = ''sha:weights''"
    "sha256_hexdigest demo_ml ''tampered'' \<noteq> ''sha:weights''"
    by (simp_all add: demo_ml_fields)
  have h1: "map_of (model_config fresh_loader) ''other'' = None" by (rule fresh_lookup)
  from inst [where L = fresh_loader and name = "''other''" and F = "disk None None"] h1
  have c1: "\<exists>m. verify_model_integrity demo_ml ''other'' (fresh_loader, disk None None)
          = (Inl (ModelIntegrityError m), fresh_loader, disk None None)"
    by blast
  have h2: "map_of (model_config fresh_loader) ''yolo_nas_s'' = Some (yolo_config None)"
    "nodes (disk None None) (model_path fresh_loader (yolo_config None)) = None"
    by (simp_all add: fresh_lookup fresh_paths disk_nodes)
  from inst [where L = fresh_loader and name = "''yolo_nas_s''" and F = "disk None None"
      and cfg = "yolo_config None"] h2
  have c2: "\<exists>m. verify_model_integrity demo_ml ''yolo_nas_s'' (fresh_loader, disk None None)
          = (Inl (ModelIntegrityError m), fresh_loader, disk None None)"
    by blast
  let ?G = "disk (Some (Unreadable ''Is a directory'' 4096)) None"
  have h3: "nodes ?G (model_path fresh_loader (yolo_config None))
              = Some (Unreadable ''Is a directory'' 4096)"
    by (simp add: fresh_paths disk_nodes)
  from inst [where L = fresh_loader and name = "''yolo_nas_s''" and F = ?G
      and cfg = "yolo_config None" and msg = "''Is a directory''" and sz = 4096] h2(1) h3
  have c3: "\<exists>m. verify_model_integrity demo_ml ''yolo_nas_s'' (fresh_loader, ?G)
          = (Inl (ModelIntegrityError m), fresh_loader, ?G)"
    by blast
  let ?P = "pinned_loader ''sha:weights''"
  let ?W = "disk (Some (Readable ''weights'')) None"
  have h4: "map_of (model_config ?P) ''yolo_nas_s'' = Some (yolo_config (Some ''sha:weights''))"
    "nodes ?W (model_path ?P (yolo_config (Some ''sha:weights''))) = Some (Readable ''weights'')"
    "expected_sha256 (yolo_config (Some ''sha:weights'')) = Some ''sha:weights''"
    by (simp_all add: fresh_lookup fresh_paths disk_nodes yolo_config_fields)
  from inst [where L = ?P and name = "''yolo_nas_s''" and F = ?W
      and cfg = "yolo_config (Some ''sha:weights'')" and content = "''weights''"
      and pinned = "''sha:weights''"] h4 sha(1)
  have c4: "verify_model_integrity demo_ml ''yolo_nas_s'' (?P, ?W) = (Inr True, ?P, ?W)"
    by blast
  let ?T = "disk (Some (Readable ''tampered'')) None"
  have h5: "nodes ?T (model_path ?P (yolo_config (Some ''sha:weights'')))
              = Some (Readable ''tampered'')"
    by (simp add: fresh_paths disk_nodes)
  from inst [where L = ?P and name = "''yolo_nas_s''" and F = ?T
      and cfg = "yolo_config (Some ''sha:weights'')" and content = "''tampered''"
      and pinned = "''sha:weights''"] h4(1,3) h5 sha(2)
  have c5: "\<exists>m. verify_model_integrity demo_ml ''yolo_nas_s'' (?P, ?T)
          = (Inl (ModelIntegrityError m), ?P, ?T)"
    by blast
  have h6: "nodes ?W (model_path fresh_loader (yolo_config None)) = Some (Readable ''weights'')"
    "expected_sha256 (yolo_config None) = None"
    "write_error ?W (metadata_path fresh_loader ''yolo_nas_s'') = None"
    by (simp_all add: fresh_paths disk_nodes yolo_config_fields)
  from inst [where L = fresh_loader and name = "''yolo_nas_s''" and F = ?W
      and cfg = "yolo_config None" and content = "''weights''"] h2(1) h6
  have "\<exists>L' F'. verify_model_integrity demo_ml ''yolo_nas_s'' (fresh_loader, ?W)
         = (Inr True, L', F') \<and>
      map_of (model_config L') ''yolo_nas_s''
        = Some ((yolo_config None)\<lparr>expected_sha256 := Some (sha256_hexdigest demo_ml ''weights'')\<rparr>) \<and>
      nodes F' (metadata_path fresh_loader ''yolo_nas_s'')
        = Some (Readable (json_dump demo_ml
                  \<lparr>sm_checksum = sha256_hexdigest demo_ml ''weights'',
                   sm_file_size = length ''weights'',
                   sm_last_verified = now_isoformat demo_ml,
                   sm_version = cfg_version (yolo_config None)\<rparr>))"
    by blast
  then have c6: "\<exists>L' F'. verify_model_integrity demo_ml ''yolo_nas_s'' (fresh_loader, ?W)
         = (Inr True, L', F') \<and>
      map_of (model_config L') ''yolo_nas_s'' = Some (yolo_config (Some ''sha:weights'')) \<and>
      nodes F' ''models/yolo_nas_s_metadata.json'' = Some (Readable ''checksum=sha:weights'')"
    by (simp add: yolo_config_fields fresh_paths demo_ml_fields)
  from h1 c1 h2 c2 h3 c3 h4(1,2) sha(1) c4 h5 sha(2) c5 h6 c6 show ?thesis
    by (intro conjI)
qed

subsection \<open>Loading\<close>

lemma verify_raises:
  assumes "verify_model_integrity env name (L, F) = (Inl e, L', F')"
  shows "is_integrity_error e \<and> L' = L \<and> F' = F"
  using assms
  by (auto simp: verify_model_integrity_def Let_def verify_failed_def
           split: option.splits node.splits if_splits)

lemma verify_passes:
  assumes "verify_model_integrity env name (L, F) = (Inr ok, L1, F1)"
  shows "ok \<and> models_dir L1 = models_dir L \<and> loaded_models L1 = loaded_models L \<and>
         model_metadata L1 = model_metadata L \<and>
         (\<exists>cfg1. map_of (model_config L1) name = Some cfg1 \<and> path_exists F1 (model_path L1 cfg1))"
  using assms
  by (auto simp: verify_model_integrity_def Let_def model_path_def path_exists_def update_conv'
                 save_model_metadata_def write_text_def
           split: option.splits node.splits if_splits)

lemma verify_uses_three_libraries:
  assumes "sha256_hexdigest env' = sha256_hexdigest env" and "json_dump env' = json_dump env"
    and "now_isoformat env' = now_isoformat env"
  shows "verify_model_integrity env' name LF = verify_model_integrity env name LF"
  unfolding verify_model_integrity_def save_model_metadata_def assms by (rule refl)

lemma handler_kinds:
  "is_loading_error (inner_handler e)"
  "is_loading_error (outer_handler name (inner_handler e))"
  "is_integrity_error e \<Longrightarrow> outer_handler name e = e"
  by (cases e; simp add: outer_handler_def)+

lemma load_body_raises:
  "load_body env name (L, F) = (Inl e, L') \<Longrightarrow> L' = L"
  by (auto simp: load_body_def Let_def split: option.splits sum.splits)

lemma load_body_returns:
  "load_body env name (L, F) = (Inr r, L') \<Longrightarrow>
     \<exists>m. r = Some m \<and> map_of (loaded_models L') name = Some (Some m) \<and>
         model_config L' = model_config L \<and> models_dir L' = models_dir L"
  by (auto simp: load_body_def Let_def update_conv' split: option.splits sum.splits)

lemma load_when_verify_raises:
  assumes "verify_model_integrity env ''yolo_nas_s'' (L, F) = (Inl e, L1, F1)"
  shows "load_yolo_nas_model env (L, F) = (Inl e, L, F)"
proof -
  from verify_raises [OF assms] have "is_integrity_error e" "L1 = L" "F1 = F" by simp_all
  with assms show ?thesis
    by (simp add: load_yolo_nas_model_def handler_kinds)
qed

lemma load_raises:
  assumes "load_yolo_nas_model env (L, F) = (Inl e, L', F')"
  shows "(is_integrity_error e \<or> is_loading_error e) \<and> loaded_models L' = loaded_models L"
proof (cases "verify_model_integrity env ''yolo_nas_s'' (L, F)")
  case (fields r L1 F1)
  show ?thesis
  proof (cases r)
    case (Inl e1)
    with fields load_when_verify_raises [of env L F e1 L1 F1] assms
      verify_raises [of env "''yolo_nas_s''" L F e1 L1 F1]
    show ?thesis by auto
  next
    case (Inr ok)
    with fields have v: "verify_model_integrity env ''yolo_nas_s'' (L, F) = (Inr ok, L1, F1)"
      by simp
    from verify_passes [OF v] have lm: "loaded_models L1 = loaded_models L" by simp
    obtain r2 L2 where b: "load_body env ''yolo_nas_s'' (L1, F1) = (r2, L2)"
      by (cases "load_body env ''yolo_nas_s'' (L1, F1)")
    show ?thesis
    proof (cases r2)
      case (Inl e2)
      with b load_body_raises [of env "''yolo_nas_s''" L1 F1 e2 L2] have "L2 = L1" by simp
      with assms v b Inl lm show ?thesis
        by (auto simp: load_yolo_nas_model_def handler_kinds)
    next
      case (Inr m)
      with assms v b show ?thesis by (simp add: load_yolo_nas_model_def)
    qed
  qed
qed

lemma load_returns:
  assumes "load_yolo_nas_model env (L, F) = (Inr r, L', F')"
  shows "\<exists>m ok L1. r = Some m \<and>
           verify_model_integrity env ''yolo_nas_s'' (L, F) = (Inr ok, L1, F') \<and>
           map_of (loaded_models L') ''yolo_nas_s'' = Some (Some m)"
proof (cases "verify_model_integrity env ''yolo_nas_s'' (L, F)")
  case (fields r1 L1 F1)
  show ?thesis
  proof (cases r1)
    case (Inl e1)
    with fields assms show ?thesis by (simp add: load_yolo_nas_model_def)
  next
    case (Inr ok)
    with fields have v: "verify_model_integrity env ''yolo_nas_s'' (L, F) = (Inr ok, L1, F1)"
      by simp
    obtain r2 L2 where b: "load_body env ''yolo_nas_s'' (L1, F1) = (r2, L2)"
      by (cases "load_body env ''yolo_nas_s'' (L1, F1)")
    show ?thesis
    proof (cases r2)
      case (Inl e2)
      with assms v b show ?thesis by (simp add: load_yolo_nas_model_def)
    next
      case (Inr m)
      with assms v b have "r = m" "L' = L2" "F' = F1"
        by (simp_all add: load_yolo_nas_model_def)
      with b Inr load_body_returns [of env "''yolo_nas_s''" L1 F1 m L2] v
      show ?thesis by auto
    qed
  qed
qed

lemma load_body_fallback:
  assumes cfg: "map_of (model_config L1) name = Some cfg"
    and ex: "path_exists F1 (model_path L1 cfg)"
    and imp: "import_models env = None"
    and get: "models_get env ''yolo_nas_s'' None = Inr model"
    and err: "load_local_checkpoint env F1 (model_path L1 cfg) model = Inl load_error"
  shows "load_body env name (L1, F1) =
     (case models_get env ''yolo_nas_s'' (Some ''coco'') of
        Inl e \<Rightarrow> (Inl e, L1)
      | Inr remote \<Rightarrow>
          (case eval_model env remote of
             Inl e \<Rightarrow> (Inl e, L1)
           | Inr m \<Rightarrow>
               (Inr (Some m),
                L1\<lparr>model_metadata :=
                      AList.update name
                        \<lparr>lm_loaded_at = now_isoformat env, lm_version = cfg_version cfg,
                         lm_status = ''loaded'',
                         lm_memory_size_mb = estimate_model_size env m\<rparr>
                        (model_metadata L1),
                    loaded_models := AList.update name (Some m) (loaded_models L1)\<rparr>)))"
  using assms
  by (simp add: load_body_def obtain_model_def model_path_def Let_def
           split: sum.splits)

text \<open>
  What the handler of lines 154 to 157 does. After verification has passed, when reading
  the local checkpoint into the model raises, the load does not fail: it takes the
  pretrained model that \<^verbatim>\<open>models.get('yolo_nas_s', pretrained_weights='coco')\<close> fetches, calls
  \<^verbatim>\<open>eval()\<close> on it, registers it as loaded and returns it, with no checksum taken of what
  was fetched. The load raises \<^verbatim>\<open>ModelLoadingError\<close> only when that fetch or \<^verbatim>\<open>eval()\<close>
  raises.
\<close>

lemma load_after_deserialization_error:
  assumes "verify_model_integrity env ''yolo_nas_s'' (L, F) = (Inr ok, L1, F1)"
    and "map_of (model_config L1) ''yolo_nas_s'' = Some cfg"
    and "import_models env = None"
    and "models_get env ''yolo_nas_s'' None = Inr model"
    and "load_local_checkpoint env F1 (model_path L1 cfg) model = Inl load_error"
  shows
    "(\<forall>e. models_get env ''yolo_nas_s'' (Some ''coco'') = Inl e \<longrightarrow>
        (\<exists>m. load_yolo_nas_model env (L, F) = (Inl (ModelLoadingError m), L1, F1))) \<and>
     (\<forall>remote e. models_get env ''yolo_nas_s'' (Some ''coco'') = Inr remote \<and>
                 eval_model env remote = Inl e \<longrightarrow>
        (\<exists>m. load_yolo_nas_model env (L, F) = (Inl (ModelLoadingError m), L1, F1))) \<and>
     (\<forall>remote m. models_get env ''yolo_nas_s'' (Some ''coco'') = Inr remote \<and>
                 eval_model env remote = Inr m \<longrightarrow>
        (\<exists>L2. load_yolo_nas_model env (L, F) = (Inr (Some m), L2, F1) \<and>
              map_of (loaded_models L2) ''yolo_nas_s'' = Some (Some m) \<and>
              model_config L2 = model_config L1))"
proof -
  from verify_passes [OF assms(1)] assms(2)
  have ex: "path_exists F1 (model_path L1 cfg)" by auto
  note body = load_body_fallback [OF assms(2) ex assms(3-5)]
  have wrap: "\<exists>m. outer_handler ''yolo_nas_s'' (inner_handler e) = ModelLoadingError m" for e
    by (cases e) (simp_all add: outer_handler_def)
  show ?thesis
  proof (intro conjI allI impI)
    fix e assume "models_get env ''yolo_nas_s'' (Some ''coco'') = Inl e"
    with body assms(1) wrap [of e]
    show "\<exists>m. load_yolo_nas_model env (L, F) = (Inl (ModelLoadingError m), L1, F1)"
      by (auto simp: load_yolo_nas_model_def Let_def)
  next
    fix remote e
    assume "models_get env ''yolo_nas_s'' (Some ''coco'') = Inr remote \<and>
            eval_model env remote = Inl e"
    with body assms(1) wrap [of e]
    show "\<exists>m. load_yolo_nas_model env (L, F) = (Inl (ModelLoadingError m), L1, F1)"
      by (auto simp: load_yolo_nas_model_def Let_def)
  next
    fix remote m
    assume "models_get env ''yolo_nas_s'' (Some ''coco'') = Inr remote \<and>
            eval_model env remote = Inr m"
    with body assms(1)
    show "\<exists>L2. load_yolo_nas_model env (L, F) = (Inr (Some m), L2, F1) \<and>
              map_of (loaded_models L2) ''yolo_nas_s'' = Some (Some m) \<and>
              model_config L2 = model_config L1"
      by (auto simp: load_yolo_nas_model_def Let_def update_conv')
  qed
qed

lemma load_when_verify_raises_any_library:
  fixes env env' :: "('m, 'sd) ml_env"
  assumes "verify_model_integrity env ''yolo_nas_s'' (L, F) = (Inl e, L1, F1)"
    and "sha256_hexdigest env' = sha256_hexdigest env \<and> json_dump env' = json_dump env \<and>
         now_isoformat env' = now_isoformat env"
  shows "load_yolo_nas_model env' (L, F) = (Inl e, L, F)"
proof -
  from assms have "verify_model_integrity env' ''yolo_nas_s'' (L, F) = (Inl e, L1, F1)"
    using verify_uses_three_libraries [of env' env] by simp
  then show ?thesis by (rule load_when_verify_raises)
qed

text \<open>
  The failures that do leave \<^verbatim>\<open>initialize_all_models\<close>, which loads the artifact
  \<^verbatim>\<open>yolo_nas_s\<close>. When its verification raises, the same \<^verbatim>\<open>ModelIntegrityError\<close> leaves \<^verbatim>\<open>initialize_all_models\<close>, the
  state is unchanged, and the load raises it whatever the model libraries would return:
  verification comes before any deserialization. When \<^verbatim>\<open>load_yolo_nas_model\<close> raises, the
  same exception, a \<^verbatim>\<open>ModelIntegrityError\<close> or a \<^verbatim>\<open>ModelLoadingError\<close>, leaves
  \<^verbatim>\<open>initialize_all_models\<close> and no model has been registered. Success is returned only
  when verification passed and the load returned a model that is registered as loaded.
\<close>

lemma initialize_all_models_outcomes:
  fixes env :: "('m, 'sd) ml_env"
  shows
  "(\<forall>e L1 F1. verify_model_integrity env ''yolo_nas_s'' (L, F) = (Inl e, L1, F1) \<longrightarrow>
       is_integrity_error e \<and>
       initialize_all_models env (L, F) = (Inl e, L, F) \<and>
       (\<forall>env' :: ('m, 'sd) ml_env.
          sha256_hexdigest env' = sha256_hexdigest env \<and>
          json_dump env' = json_dump env \<and>
          now_isoformat env' = now_isoformat env \<longrightarrow>
          load_yolo_nas_model env' (L, F) = (Inl e, L, F))) \<and>
   (\<forall>e L' F'. load_yolo_nas_model env (L, F) = (Inl e, L', F') \<longrightarrow>
       (is_integrity_error e \<or> is_loading_error e) \<and>
       initialize_all_models env (L, F) = (Inl e, L', F') \<and>
       loaded_models L' = loaded_models L) \<and>
   (\<forall>ok L' F'. initialize_all_models env (L, F) = (Inr ok, L', F') \<longrightarrow>
       ok \<and>
       (\<exists>ok1 L1. verify_model_integrity env ''yolo_nas_s'' (L, F) = (Inr ok1, L1, F')) \<and>
       (\<exists>m. load_yolo_nas_model env (L, F) = (Inr (Some m), L', F') \<and>
            map_of (loaded_models L') ''yolo_nas_s'' = Some (Some m)))"
proof (intro conjI allI impI)
  fix e L1 F1
  assume v: "verify_model_integrity env ''yolo_nas_s'' (L, F) = (Inl e, L1, F1)"
  from verify_raises [OF v] show ie: "is_integrity_error e" by simp
  from load_when_verify_raises [OF v] ie
  show "initialize_all_models env (L, F) = (Inl e, L, F)"
    by (simp add: initialize_all_models_def)
next
  fix e L1 F1 and env' :: "('m, 'sd) ml_env"
  assume "verify_model_integrity env ''yolo_nas_s'' (L, F) = (Inl e, L1, F1)"
    and "sha256_hexdigest env' = sha256_hexdigest env \<and> json_dump env' = json_dump env \<and>
         now_isoformat env' = now_isoformat env"
  then show "load_yolo_nas_model env' (L, F) = (Inl e, L, F)"
    by (rule load_when_verify_raises_any_library)
next
  fix e L' F'
  assume l: "load_yolo_nas_model env (L, F) = (Inl e, L', F')"
  from load_raises [OF l] show k: "is_integrity_error e \<or> is_loading_error e"
    and "loaded_models L' = loaded_models L" by simp_all
  from l k show "initialize_all_models env (L, F) = (Inl e, L', F')"
    by (auto simp: initialize_all_models_def)
next
  fix ok L' F'
  assume i: "initialize_all_models env (L, F) = (Inr ok, L', F')"
  obtain r L2 F2 where l: "load_yolo_nas_model env (L, F) = (r, L2, F2)"
    by (cases "load_yolo_nas_model env (L, F)")
  from i l obtain m where r: "r = Inr (Some m)" and eq: "L2 = L'" "F2 = F'" and "ok"
    by (auto simp: initialize_all_models_def split: sum.splits option.splits)
  from \<open>ok\<close> show ok by simp
  from l r eq have l': "load_yolo_nas_model env (L, F) = (Inr (Some m), L', F')" by simp
  from load_returns [OF l']
  show "\<exists>ok1 L1. verify_model_integrity env ''yolo_nas_s'' (L, F) = (Inr ok1, L1, F')"
    by blast
  from load_returns [OF l'] l'
  show "\<exists>m. load_yolo_nas_model env (L, F) = (Inr (Some m), L', F') \<and>
            map_of (loaded_models L') ''yolo_nas_s'' = Some (Some m)"
    by auto
qed

lemma offline_ml_fields:
  "sha256_hexdigest offline_ml = sha256_hexdigest demo_ml"
  "json_dump offline_ml = json_dump demo_ml"
  "now_isoformat offline_ml = now_isoformat demo_ml"
  "import_models offline_ml = None" "import_torch offline_ml = None"
  "models_get offline_ml a None = Inr (Some (DemoModel a ''random'' False))"
  "models_get offline_ml a (Some w) = Inl (OtherException ''Connection refused'')"
  "torch_load offline_ml = torch_load demo_ml"
  by (simp_all add: offline_ml_def demo_ml_def)

lemma no_eval_ml_fields:
  "sha256_hexdigest no_eval_ml = sha256_hexdigest demo_ml"
  "json_dump no_eval_ml = json_dump demo_ml"
  "now_isoformat no_eval_ml = now_isoformat demo_ml"
  "import_models no_eval_ml = None" "import_torch no_eval_ml = None"
  "models_get no_eval_ml = models_get demo_ml"
  "torch_load no_eval_ml = torch_load demo_ml"
  "model_eval no_eval_ml m = Inl (OtherException ''eval failed'')"
  by (simp_all add: no_eval_ml_def demo_ml_def)

lemma corrupt_verifies:
  "verify_model_integrity demo_ml ''yolo_nas_s'' (pinned_loader ''sha:corrupt'', corrupt_disk)
     = (Inr True, pinned_loader ''sha:corrupt'', corrupt_disk)"
proof -
  have "nodes corrupt_disk
          (model_path (pinned_loader ''sha:corrupt'') (yolo_config (Some ''sha:corrupt'')))
        = Some (Readable ''corrupt'')"
    by (simp add: corrupt_disk_def fresh_paths disk_nodes)
  from verify_pinned [OF fresh_lookup(3) this, of "''sha:corrupt''" demo_ml]
  show ?thesis by (simp add: yolo_config_fields demo_ml_fields)
qed

lemma corrupt_verifies_any:
  assumes "sha256_hexdigest env = sha256_hexdigest demo_ml" "json_dump env = json_dump demo_ml"
    "now_isoformat env = now_isoformat demo_ml"
  shows "verify_model_integrity env ''yolo_nas_s'' (pinned_loader ''sha:corrupt'', corrupt_disk)
     = (Inr True, pinned_loader ''sha:corrupt'', corrupt_disk)"
  using verify_uses_three_libraries [OF assms] corrupt_verifies by simp

lemma corrupt_path:
  "model_path (pinned_loader ''sha:corrupt'') (yolo_config (Some ''sha:corrupt''))
     = ''models/yolo_nas_s_coco.pth''"
  by (simp add: fresh_paths)

lemma corrupt_checkpoint:
  assumes "import_torch env = None" "torch_load env = torch_load demo_ml"
  shows "load_local_checkpoint env corrupt_disk ''models/yolo_nas_s_coco.pth'' model
     = Inl (OtherException ''invalid load key'')"
  using assms
  by (simp add: load_local_checkpoint_def corrupt_disk_def disk_nodes demo_ml_fields)

lemma corrupt_load:
  "fst (load_yolo_nas_model demo_ml (pinned_loader ''sha:corrupt'', corrupt_disk))
     = Inr (Some (DemoModel ''yolo_nas_s'' ''remote:coco'' True))"
proof -
  have ck: "load_local_checkpoint demo_ml corrupt_disk ''models/yolo_nas_s_coco.pth''
       (Some (DemoModel ''yolo_nas_s'' ''random'' False))
     = Inl (OtherException ''invalid load key'')"
    by (rule corrupt_checkpoint) (simp_all add: demo_ml_fields)
  have ex: "path_exists corrupt_disk ''models/yolo_nas_s_coco.pth''"
    by (simp add: path_exists_def corrupt_disk_def disk_nodes)
  have "fst (load_body demo_ml ''yolo_nas_s'' (pinned_loader ''sha:corrupt'', corrupt_disk))
          = Inr (Some (DemoModel ''yolo_nas_s'' ''remote:coco'' True))"
    using ck ex corrupt_path
    by (simp add: load_body_def obtain_model_def eval_model_def Let_def fresh_lookup
          demo_ml_fields model_path_def)
  then show ?thesis
    using corrupt_verifies
    by (auto simp: load_yolo_nas_model_def Let_def split: prod.splits sum.splits)
qed

text \<open>
  C1. The docstrings of the module and of \<^verbatim>\<open>load_yolo_nas_model\<close> promise a load with full
  integrity verification that raises when the model cannot be loaded. Here the pinned
  checksum matches the file and \<^verbatim>\<open>torch.load\<close> raises on it: the load does not raise, it
  returns the remotely fetched model, of which no checksum was ever taken.
\<close>

theorem load_returns_unverified_substitute:
  "verify_model_integrity demo_ml ''yolo_nas_s'' (pinned_loader ''sha:corrupt'', corrupt_disk)
     = (Inr True, pinned_loader ''sha:corrupt'', corrupt_disk) \<and>
   load_local_checkpoint demo_ml corrupt_disk ''models/yolo_nas_s_coco.pth''
       (Some (DemoModel ''yolo_nas_s'' ''random'' False))
     = Inl (OtherException ''invalid load key'') \<and>
   fst (load_yolo_nas_model demo_ml (pinned_loader ''sha:corrupt'', corrupt_disk))
     = Inr (Some (DemoModel ''yolo_nas_s'' ''remote:coco'' True))"
proof -
  have "load_local_checkpoint demo_ml corrupt_disk ''models/yolo_nas_s_coco.pth''
       (Some (DemoModel ''yolo_nas_s'' ''random'' False))
     = Inl (OtherException ''invalid load key'')"
    by (rule corrupt_checkpoint) (simp_all add: demo_ml_fields)
  with corrupt_verifies corrupt_load show ?thesis by (intro conjI)
qed

lemma eval_model_demo:
  "eval_model demo_ml (Some (DemoModel a w e)) = Inr (DemoModel a w True)"
  "eval_model no_eval_ml (Some m) = Inl (OtherException ''eval failed'')"
  by (simp_all add: eval_model_def demo_ml_fields no_eval_ml_fields)

lemma load_after_deserialization_error_instances:
  "verify_model_integrity demo_ml ''yolo_nas_s'' (pinned_loader ''sha:corrupt'', corrupt_disk)
     = (Inr True, pinned_loader ''sha:corrupt'', corrupt_disk) \<and>
   map_of (model_config (pinned_loader ''sha:corrupt'')) ''yolo_nas_s''
     = Some (yolo_config (Some ''sha:corrupt'')) \<and>
   import_models demo_ml = None \<and>
   models_get demo_ml ''yolo_nas_s'' None = Inr (Some (DemoModel ''yolo_nas_s'' ''random'' False)) \<and>
   load_local_checkpoint demo_ml corrupt_disk
       (model_path (pinned_loader ''sha:corrupt'') (yolo_config (Some ''sha:corrupt'')))
       (Some (DemoModel ''yolo_nas_s'' ''random'' False))
     = Inl (OtherException ''invalid load key'') \<and>
   models_get demo_ml ''yolo_nas_s'' (Some ''coco'')
     = Inr (Some (DemoModel ''yolo_nas_s'' ''remote:coco'' False)) \<and>
   eval_model demo_ml (Some (DemoModel ''yolo_nas_s'' ''remote:coco'' False)) = Inr remote_model \<and>
   (\<exists>L2. load_yolo_nas_model demo_ml (pinned_loader ''sha:corrupt'', corrupt_disk)
           = (Inr (Some remote_model), L2, corrupt_disk) \<and>
         map_of (loaded_models L2) ''yolo_nas_s'' = Some (Some remote_model)) \<and>
   models_get offline_ml ''yolo_nas_s'' (Some ''coco'') = Inl (OtherException ''Connection refused'') \<and>
   (\<exists>m. load_yolo_nas_model offline_ml (pinned_loader ''sha:corrupt'', corrupt_disk)
          = (Inl (ModelLoadingError m), pinned_loader ''sha:corrupt'', corrupt_disk)) \<and>
   eval_model no_eval_ml (Some (DemoModel ''yolo_nas_s'' ''remote:coco'' False))
     = Inl (OtherException ''eval failed'') \<and>
   (\<exists>m. load_yolo_nas_model no_eval_ml (pinned_loader ''sha:corrupt'', corrupt_disk)
          = (Inl (ModelLoadingError m), pinned_loader ''sha:corrupt'', corrupt_disk))"
proof -
  let ?P = "pinned_loader ''sha:corrupt''"
  let ?cfg = "yolo_config (Some ''sha:corrupt'')"
  let ?fresh = "Some (DemoModel ''yolo_nas_s'' ''random'' False)"
  let ?remote = "Some (DemoModel ''yolo_nas_s'' ''remote:coco'' False)"
  have cfg: "map_of (model_config ?P) ''yolo_nas_s'' = Some ?cfg" by (rule fresh_lookup)
  have v1: "verify_model_integrity demo_ml ''yolo_nas_s'' (?P, corrupt_disk)
              = (Inr True, ?P, corrupt_disk)"
    by (rule corrupt_verifies)
  have v2: "verify_model_integrity offline_ml ''yolo_nas_s'' (?P, corrupt_disk)
              = (Inr True, ?P, corrupt_disk)"
    by (rule corrupt_verifies_any) (simp_all add: offline_ml_fields)
  have v3: "verify_model_integrity no_eval_ml ''yolo_nas_s'' (?P, corrupt_disk)
              = (Inr True, ?P, corrupt_disk)"
    by (rule corrupt_verifies_any) (simp_all add: no_eval_ml_fields)
  have g1: "models_get demo_ml ''yolo_nas_s'' None = Inr ?fresh"
    and g2: "models_get offline_ml ''yolo_nas_s'' None = Inr ?fresh"
    and g3: "models_get no_eval_ml ''yolo_nas_s'' None = Inr ?fresh"
    by (simp_all add: demo_ml_fields offline_ml_fields no_eval_ml_fields)
  have k1: "load_local_checkpoint demo_ml corrupt_disk (model_path ?P ?cfg) ?fresh
              = Inl (OtherException ''invalid load key'')"
    and k2: "load_local_checkpoint offline_ml corrupt_disk (model_path ?P ?cfg) ?fresh
              = Inl (OtherException ''invalid load key'')"
    and k3: "load_local_checkpoint no_eval_ml corrupt_disk (model_path ?P ?cfg) ?fresh
              = Inl (OtherException ''invalid load key'')"
    unfolding corrupt_path
    by (rule corrupt_checkpoint; simp add: demo_ml_fields offline_ml_fields no_eval_ml_fields)+
  have r1: "models_get demo_ml ''yolo_nas_s'' (Some ''coco'') = Inr ?remote"
    and r2: "models_get offline_ml ''yolo_nas_s'' (Some ''coco'')
               = Inl (OtherException ''Connection refused'')"
    and r3: "models_get no_eval_ml ''yolo_nas_s'' (Some ''coco'') = Inr ?remote"
    by (simp_all add: demo_ml_fields offline_ml_fields no_eval_ml_fields)
  have e1: "eval_model demo_ml ?remote = Inr remote_model"
    and e3: "eval_model no_eval_ml ?remote = Inl (OtherException ''eval failed'')"
    by (simp_all add: eval_model_demo remote_model_def)
  from load_after_deserialization_error
         [OF v1 cfg demo_ml_fields(4) g1 k1] r1 e1
  have c1: "\<exists>L2. load_yolo_nas_model demo_ml (?P, corrupt_disk)
              = (Inr (Some remote_model), L2, corrupt_disk) \<and>
            map_of (loaded_models L2) ''yolo_nas_s'' = Some (Some remote_model)"
    by blast
  from load_after_deserialization_error
         [OF v2 cfg offline_ml_fields(4) g2 k2] r2
  have c2: "\<exists>m. load_yolo_nas_model offline_ml (?P, corrupt_disk)
              = (Inl (ModelLoadingError m), ?P, corrupt_disk)"
    by blast
  from load_after_deserialization_error
         [OF v3 cfg no_eval_ml_fields(4) g3 k3] r3 e3
  have c3: "\<exists>m. load_yolo_nas_model no_eval_ml (?P, corrupt_disk)
              = (Inl (ModelLoadingError m), ?P, corrupt_disk)"
    by blast
  from v1 cfg demo_ml_fields(4) g1 k1 r1 e1 c1 r2 c2 e3 c3 show ?thesis
    by (intro conjI)
qed

text \<open>
  C2. The docstring of \<^verbatim>\<open>initialize_all_models\<close> promises \<^verbatim>\<open>ModelLoadingError\<close> when a model
  fails to load. Here the checkpoint passes verification and does not deserialize:
  \<^verbatim>\<open>initialize_all_models\<close> returns success, with the remotely fetched model registered as
  loaded.
\<close>

theorem initialize_succeeds_with_substitute:
  "torch_load demo_ml ''corrupt'' = Inl (OtherException ''invalid load key'') \<and>
   (\<exists>L'. initialize_all_models demo_ml (pinned_loader ''sha:corrupt'', corrupt_disk)
           = (Inr True, L', corrupt_disk) \<and>
         map_of (loaded_models L') ''yolo_nas_s'' = Some (Some remote_model))"
proof -
  from corrupt_load
  have "fst (load_yolo_nas_model demo_ml (pinned_loader ''sha:corrupt'', corrupt_disk))
          = Inr (Some remote_model)"
    by (simp add: remote_model_def)
  then obtain L' F' where l:
    "load_yolo_nas_model demo_ml (pinned_loader ''sha:corrupt'', corrupt_disk)
       = (Inr (Some remote_model), L', F')"
    by (cases "load_yolo_nas_model demo_ml (pinned_loader ''sha:corrupt'', corrupt_disk)") auto
  from load_returns [OF l] corrupt_verifies
  have "F' = corrupt_disk" "map_of (loaded_models L') ''yolo_nas_s'' = Some (Some remote_model)"
    by auto
  with l have "initialize_all_models demo_ml (pinned_loader ''sha:corrupt'', corrupt_disk)
           = (Inr True, L', corrupt_disk) \<and>
         map_of (loaded_models L') ''yolo_nas_s'' = Some (Some remote_model)"
    by (simp add: initialize_all_models_def)
  then show ?thesis by (auto simp: demo_ml_fields)
qed

lemma tampered_verify:
  "verify_model_integrity demo_ml ''yolo_nas_s'' (pinned_loader ''sha:weights'', tampered_disk)
     = (Inl (verify_failed ''yolo_nas_s''
               (mismatch_message ''yolo_nas_s'' ''sha:weights'' ''sha:tampered'')),
        pinned_loader ''sha:weights'', tampered_disk)"
proof -
  have "nodes tampered_disk
          (model_path (pinned_loader ''sha:weights'') (yolo_config (Some ''sha:weights'')))
        = Some (Readable ''tampered'')"
    by (simp add: tampered_disk_def fresh_paths disk_nodes)
  from verify_pinned [OF fresh_lookup(3) this, of "''sha:weights''" demo_ml]
  show ?thesis by (simp add: yolo_config_fields demo_ml_fields)
qed

lemma good_load:
  "\<exists>L'. load_yolo_nas_model demo_ml (pinned_loader ''sha:weights'', good_disk)
          = (Inr (Some (DemoModel ''yolo_nas_s'' ''local:weights'' True)), L', good_disk)"
proof -
  have n: "nodes good_disk
          (model_path (pinned_loader ''sha:weights'') (yolo_config (Some ''sha:weights'')))
        = Some (Readable ''weights'')"
    by (simp add: good_disk_def fresh_paths disk_nodes)
  from verify_pinned [OF fresh_lookup(3) n, of "''sha:weights''" demo_ml]
  have v: "verify_model_integrity demo_ml ''yolo_nas_s'' (pinned_loader ''sha:weights'', good_disk)
             = (Inr True, pinned_loader ''sha:weights'', good_disk)"
    by (simp add: yolo_config_fields demo_ml_fields)
  have "fst (load_body demo_ml ''yolo_nas_s'' (pinned_loader ''sha:weights'', good_disk))
          = Inr (Some (DemoModel ''yolo_nas_s'' ''local:weights'' True))"
    using n
    by (simp add: load_body_def obtain_model_def load_local_checkpoint_def eval_model_def
          Let_def fresh_lookup demo_ml_fields model_path_def path_exists_def)
  with v show ?thesis
    by (auto simp: load_yolo_nas_model_def Let_def split: prod.splits sum.splits)
qed

lemma initialize_all_models_outcomes_instances:
  "(\<exists>e. verify_model_integrity demo_ml ''yolo_nas_s'' (pinned_loader ''sha:weights'', tampered_disk)
          = (Inl e, pinned_loader ''sha:weights'', tampered_disk) \<and>
        is_integrity_error e \<and>
        initialize_all_models demo_ml (pinned_loader ''sha:weights'', tampered_disk)
          = (Inl e, pinned_loader ''sha:weights'', tampered_disk) \<and>
        load_yolo_nas_model offline_ml (pinned_loader ''sha:weights'', tampered_disk)
          = (Inl e, pinned_loader ''sha:weights'', tampered_disk)) \<and>
   (\<exists>m. load_yolo_nas_model offline_ml (pinned_loader ''sha:corrupt'', corrupt_disk)
          = (Inl (ModelLoadingError m), pinned_loader ''sha:corrupt'', corrupt_disk) \<and>
        initialize_all_models offline_ml (pinned_loader ''sha:corrupt'', corrupt_disk)
          = (Inl (ModelLoadingError m), pinned_loader ''sha:corrupt'', corrupt_disk)) \<and>
   (\<exists>L'. initialize_all_models demo_ml (pinned_loader ''sha:weights'', good_disk)
           = (Inr True, L', good_disk) \<and>
         (\<exists>ok1 L1. verify_model_integrity demo_ml ''yolo_nas_s''
                      (pinned_loader ''sha:weights'', good_disk) = (Inr ok1, L1, good_disk)) \<and>
         map_of (loaded_models L') ''yolo_nas_s''
           = Some (Some (DemoModel ''yolo_nas_s'' ''local:weights'' True)))"
proof -
  let ?P = "pinned_loader ''sha:weights''"
  let ?e = "verify_failed ''yolo_nas_s''
              (mismatch_message ''yolo_nas_s'' ''sha:weights'' ''sha:tampered'')"
  note t1 = initialize_all_models_outcomes [where env = demo_ml and L = ?P and F = tampered_disk]
  from t1 tampered_verify have a: "is_integrity_error ?e"
    "initialize_all_models demo_ml (?P, tampered_disk) = (Inl ?e, ?P, tampered_disk)"
    "\<forall>env' :: (demo_model, bytes) ml_env.
        sha256_hexdigest env' = sha256_hexdigest demo_ml \<and>
        json_dump env' = json_dump demo_ml \<and>
        now_isoformat env' = now_isoformat demo_ml \<longrightarrow>
        load_yolo_nas_model env' (?P, tampered_disk) = (Inl ?e, ?P, tampered_disk)"
    by blast+
  from a(3) have a3: "load_yolo_nas_model offline_ml (?P, tampered_disk)
                        = (Inl ?e, ?P, tampered_disk)"
    by (simp add: offline_ml_fields)
  from a(1,2) a3 tampered_verify have c1:
    "\<exists>e. verify_model_integrity demo_ml ''yolo_nas_s'' (?P, tampered_disk)
          = (Inl e, ?P, tampered_disk) \<and>
        is_integrity_error e \<and>
        initialize_all_models demo_ml (?P, tampered_disk) = (Inl e, ?P, tampered_disk) \<and>
        load_yolo_nas_model offline_ml (?P, tampered_disk) = (Inl e, ?P, tampered_disk)"
    by blast
  let ?C = "pinned_loader ''sha:corrupt''"
  have v2: "verify_model_integrity offline_ml ''yolo_nas_s'' (?C, corrupt_disk)
              = (Inr True, ?C, corrupt_disk)"
    by (rule corrupt_verifies_any) (simp_all add: offline_ml_fields)
  have k2: "load_local_checkpoint offline_ml corrupt_disk
              (model_path ?C (yolo_config (Some ''sha:corrupt'')))
              (Some (DemoModel ''yolo_nas_s'' ''random'' False))
              = Inl (OtherException ''invalid load key'')"
    unfolding corrupt_path by (rule corrupt_checkpoint) (simp_all add: offline_ml_fields)
  have ex2: "path_exists corrupt_disk (model_path ?C (yolo_config (Some ''sha:corrupt'')))"
    by (simp add: corrupt_path path_exists_def corrupt_disk_def disk_nodes)
  have "load_body offline_ml ''yolo_nas_s'' (?C, corrupt_disk)
          = (Inl (OtherException ''Connection refused''), ?C)"
    using load_body_fallback [OF fresh_lookup(3) ex2 offline_ml_fields(4) _ k2]
    by (simp add: offline_ml_fields)
  with v2 obtain m where l2: "load_yolo_nas_model offline_ml (?C, corrupt_disk)
          = (Inl (ModelLoadingError m), ?C, corrupt_disk)"
    by (simp add: load_yolo_nas_model_def Let_def outer_handler_def)
  note t2 = initialize_all_models_outcomes [where env = offline_ml and L = ?C and F = corrupt_disk]
  from t2 l2 have "initialize_all_models offline_ml (?C, corrupt_disk)
          = (Inl (ModelLoadingError m), ?C, corrupt_disk)"
    by blast
  with l2 have c2: "\<exists>m. load_yolo_nas_model offline_ml (?C, corrupt_disk)
          = (Inl (ModelLoadingError m), ?C, corrupt_disk) \<and>
        initialize_all_models offline_ml (?C, corrupt_disk)
          = (Inl (ModelLoadingError m), ?C, corrupt_disk)"
    by blast
  from good_load obtain L' where l3:
    "load_yolo_nas_model demo_ml (?P, good_disk)
       = (Inr (Some (DemoModel ''yolo_nas_s'' ''local:weights'' True)), L', good_disk)"
    by blast
  then have i3: "initialize_all_models demo_ml (?P, good_disk) = (Inr True, L', good_disk)"
    by (simp add: initialize_all_models_def)
  note t3 = initialize_all_models_outcomes [where env = demo_ml and L = ?P and F = good_disk]
  from t3 i3 have
    "\<exists>ok1 L1. verify_model_integrity demo_ml ''yolo_nas_s'' (?P, good_disk)
                 = (Inr ok1, L1, good_disk)"
    "\<exists>m. load_yolo_nas_model demo_ml (?P, good_disk) = (Inr (Some m), L', good_disk) \<and>
         map_of (loaded_models L') ''yolo_nas_s'' = Some (Some m)"
    by blast+
  with l3 i3 have c3: "\<exists>L'. initialize_all_models demo_ml (?P, good_disk)
           = (Inr True, L', good_disk) \<and>
         (\<exists>ok1 L1. verify_model_integrity demo_ml ''yolo_nas_s'' (?P, good_disk)
                      = (Inr ok1, L1, good_disk)) \<and>
         map_of (loaded_models L') ''yolo_nas_s''
           = Some (Some (DemoModel ''yolo_nas_s'' ''local:weights'' True))"
    by auto
  from c1 c2 c3 show ?thesis by (intro conjI)
qed

subsection \<open>Status\<close>

lemma verify_keeps_state:
  assumes "\<not> first_use L F name"
  shows "snd (verify_model_integrity env name (L, F)) = (L, F)"
  using assms
  by (auto simp: verify_model_integrity_def first_use_def model_path_def Let_def
           split: option.splits node.splits)

lemma verify_result_True:
  "fst (verify_model_integrity env name (L, F)) = Inr ok \<Longrightarrow> ok"
  using verify_passes [of env name L F ok "fst (snd (verify_model_integrity env name (L, F)))"
                          "snd (snd (verify_model_integrity env name (L, F)))"]
  by (cases "verify_model_integrity env name (L, F)") auto

lemma status_round_eq:
  "status_round env (name, config) (available, L, F) =
     (AList.update name (status_entry env L F name config) available,
      if path_exists F (model_path L config)
      then snd (verify_model_integrity env name (L, F)) else (L, F))"
proof (cases "path_exists F (model_path L config)")
  case False
  then show ?thesis
    by (simp add: status_round_def status_entry_def model_path_def Let_def)
next
  case True
  obtain r L' F' where v: "verify_model_integrity env name (L, F) = (r, L', F')"
    by (cases "verify_model_integrity env name (L, F)")
  show ?thesis
  proof (cases r)
    case (Inl e)
    with True v show ?thesis
      by (simp add: status_round_def status_entry_def model_path_def Let_def)
  next
    case (Inr ok)
    with v verify_result_True [of env name L F ok] have "ok" by simp
    with Inr True v show ?thesis
      by (simp add: status_round_def status_entry_def model_path_def Let_def)
  qed
qed

lemma status_rounds_keep_state:
  assumes "\<forall>item\<in>set items. \<not> first_use L F (fst item)"
  shows "fold (status_round env) items (available, L, F) =
     (fold (\<lambda>item. AList.update (fst item) (status_entry env L F (fst item) (snd item)))
        items available, L, F)"
  using assms
proof (induction items arbitrary: available)
  case Nil
  show ?case by simp
next
  case (Cons item items)
  obtain name config where item: "item = (name, config)" by (cases item)
  from Cons.prems item have "\<not> first_use L F name" by simp
  then have "snd (verify_model_integrity env name (L, F)) = (L, F)"
    by (rule verify_keeps_state)
  then have "status_round env item (available, L, F) =
      (AList.update name (status_entry env L F name config) available, L, F)"
    unfolding item status_round_eq by simp
  with Cons item show ?case by simp
qed

lemma update_fresh_key:
  "k \<notin> fst ` set al \<Longrightarrow> AList.update k v al = al @ [(k, v)]"
  by (induction al) auto

lemma fold_update_distinct:
  assumes "distinct (map fst items)" and "fst ` set acc \<inter> fst ` set items = {}"
  shows "fold (\<lambda>item. AList.update (fst item) (g item)) items acc
           = acc @ map (\<lambda>item. (fst item, g item)) items"
  using assms
proof (induction items arbitrary: acc)
  case Nil
  show ?case by simp
next
  case (Cons item items)
  from Cons.prems have fresh: "fst item \<notin> fst ` set acc" by auto
  have "fst ` set (acc @ [(fst item, g item)]) \<inter> fst ` set items = {}"
    using Cons.prems by auto
  with Cons.IH [of "acc @ [(fst item, g item)]"] Cons.prems fresh
  show ?case by (simp add: update_fresh_key)
qed

lemma fold_update_entries:
  "set (fold (\<lambda>item. AList.update (fst item) (g item)) items acc)
     \<subseteq> set acc \<union> (\<lambda>item. (fst item, g item)) ` set items \<and>
   fst ` set (fold (\<lambda>item. AList.update (fst item) (g item)) items acc)
     = fst ` set acc \<union> fst ` set items"
proof (induction items arbitrary: acc)
  case Nil
  show ?case by simp
next
  case (Cons item items)
  have s: "set (AList.update (fst item) (g item) acc) \<subseteq> insert (fst item, g item) (set acc)"
    by (induction acc) auto
  have d: "fst ` set (AList.update (fst item) (g item) acc) = insert (fst item) (fst ` set acc)"
    by (simp add: dom_update [unfolded dom_map_of_conv_image_fst, symmetric]
                  dom_map_of_conv_image_fst [symmetric] update_conv')
  from Cons.IH [of "AList.update (fst item) (g item) acc"] s d
  show ?case by auto
qed

lemma status_when_state_kept:
  assumes "\<forall>item\<in>set (model_config L). \<not> first_use L F (fst item)"
  shows "get_model_status env (L, F) =
     (\<lparr>sr_models_directory = models_dir L,
       sr_models_available =
         fold (\<lambda>item. AList.update (fst item) (status_entry env L F (fst item) (snd item)))
           (model_config L) [],
       sr_loaded_models = map fst (loaded_models L),
       sr_integrity_status =
         (if list_all (\<lambda>model. ms_integrity_verified model)
               (filter (\<lambda>model. ms_file_exists model)
                  (map snd (fold (\<lambda>item. AList.update (fst item)
                                      (status_entry env L F (fst item) (snd item)))
                              (model_config L) [])))
          then ''verified'' else ''failed''),
       sr_last_check = now_isoformat env\<rparr>, L, F)"
  using status_rounds_keep_state [OF assms, of env "[]"]
  by (simp add: get_model_status_def Let_def)

lemma first_use_needs_file:
  "first_use L F name \<Longrightarrow>
     \<exists>config. map_of (model_config L) name = Some config \<and> path_exists F (model_path L config)"
  by (auto simp: first_use_def path_exists_def split: option.splits node.splits)

text \<open>
  C10. When the model file of no configured artifact exists, \<^verbatim>\<open>get_model_status\<close> leaves the
  state as it was and reports the overall integrity status verified, with one entry for
  every configured artifact, each with \<^verbatim>\<open>integrity_verified\<close> and \<^verbatim>\<open>file_exists\<close> false.
\<close>

theorem status_verified_without_files:
  assumes "\<forall>item\<in>set (model_config L). \<not> path_exists F (model_path L (snd item))"
  shows "\<exists>report. get_model_status env (L, F) = (report, L, F) \<and>
     sr_integrity_status report = ''verified'' \<and>
     fst ` set (sr_models_available report) = fst ` set (model_config L) \<and>
     (\<forall>entry\<in>set (sr_models_available report).
        \<not> ms_integrity_verified (snd entry) \<and> \<not> ms_file_exists (snd entry))"
proof -
  let ?g = "\<lambda>item. status_entry env L F (fst item) (snd item)"
  let ?av = "fold (\<lambda>item. AList.update (fst item) (?g item)) (model_config L) []"
  have keep: "\<forall>item\<in>set (model_config L). \<not> first_use L F (fst item)"
  proof
    fix item assume "item \<in> set (model_config L)"
    show "\<not> first_use L F (fst item)"
    proof
      assume "first_use L F (fst item)"
      then obtain config where c: "map_of (model_config L) (fst item) = Some config"
        and e: "path_exists F (model_path L config)"
        using first_use_needs_file by blast
      from c have "(fst item, config) \<in> set (model_config L)" by (rule map_of_SomeD)
      with assms e show False by auto
    qed
  qed
  note st = status_when_state_kept [OF keep, of env]
  from fold_update_entries [of ?g "model_config L" "[]"]
  have sub: "set ?av \<subseteq> (\<lambda>item. (fst item, ?g item)) ` set (model_config L)"
    and keys: "fst ` set ?av = fst ` set (model_config L)"
    by simp_all
  have flags: "\<forall>entry\<in>set ?av. \<not> ms_integrity_verified (snd entry) \<and> \<not> ms_file_exists (snd entry)"
  proof
    fix entry assume "entry \<in> set ?av"
    with sub obtain item where "item \<in> set (model_config L)" and "entry = (fst item, ?g item)"
      by auto
    with assms show "\<not> ms_integrity_verified (snd entry) \<and> \<not> ms_file_exists (snd entry)"
      by (simp add: status_entry_def)
  qed
  then have "filter (\<lambda>model. ms_file_exists model) (map snd ?av) = []"
    by (simp add: filter_empty_conv)
  then have "(if list_all (\<lambda>model. ms_integrity_verified model)
                   (filter (\<lambda>model. ms_file_exists model) (map snd ?av))
              then ''verified'' else ''failed'') = ''verified''"
    by simp
  with st keys flags show ?thesis by simp
qed

theorem status_verified_without_files_witness:
  "model_config fresh_loader = [(''yolo_nas_s'', yolo_config None)] \<and>
   \<not> path_exists (disk None None) (model_path fresh_loader (yolo_config None)) \<and>
   (\<exists>report. get_model_status demo_ml (fresh_loader, disk None None)
               = (report, fresh_loader, disk None None) \<and>
      sr_integrity_status report = ''verified'' \<and>
      map fst (sr_models_available report) = [''yolo_nas_s''] \<and>
      list_all (\<lambda>entry. \<not> ms_integrity_verified (snd entry) \<and> \<not> ms_file_exists (snd entry))
        (sr_models_available report))"
proof -
  have ne: "\<not> path_exists (disk None None) (model_path fresh_loader (yolo_config None))"
    by (simp add: path_exists_def fresh_paths disk_nodes)
  then have h: "\<forall>item\<in>set (model_config fresh_loader).
                 \<not> path_exists (disk None None) (model_path fresh_loader (snd item))"
    by (simp add: fresh_config)
  from status_verified_without_files [OF h, of demo_ml]
  obtain report where
    r: "get_model_status demo_ml (fresh_loader, disk None None)
          = (report, fresh_loader, disk None None)"
    and s: "sr_integrity_status report = ''verified''"
    and k: "fst ` set (sr_models_available report) = fst ` set (model_config fresh_loader)"
    and f: "\<forall>entry\<in>set (sr_models_available report).
              \<not> ms_integrity_verified (snd entry) \<and> \<not> ms_file_exists (snd entry)"
    by blast
  have "sr_models_available report
          = [(''yolo_nas_s'', status_entry demo_ml fresh_loader (disk None None)
                ''yolo_nas_s'' (yolo_config None))]"
  proof -
    have "\<not> first_use fresh_loader (disk None None) ''yolo_nas_s''"
      by (simp add: first_use_def fresh_lookup fresh_paths disk_nodes)
    then have "\<forall>item\<in>set (model_config fresh_loader).
                 \<not> first_use fresh_loader (disk None None) (fst item)"
      by (simp add: fresh_config)
    from status_when_state_kept [OF this, of demo_ml] r show ?thesis
      by (auto simp: fresh_config)
  qed
  then have n: "map fst (sr_models_available report) = [''yolo_nas_s'']" by simp
  from f have l: "list_all (\<lambda>entry. \<not> ms_integrity_verified (snd entry) \<and>
                     \<not> ms_file_exists (snd entry)) (sr_models_available report)"
    by (simp add: list_all_iff)
  from r s n l have "\<exists>report. get_model_status demo_ml (fresh_loader, disk None None)
               = (report, fresh_loader, disk None None) \<and>
      sr_integrity_status report = ''verified'' \<and>
      map fst (sr_models_available report) = [''yolo_nas_s''] \<and>
      list_all (\<lambda>entry. \<not> ms_integrity_verified (snd entry) \<and> \<not> ms_file_exists (snd entry))
        (sr_models_available report)"
    by (intro exI [of _ report] conjI)
  with fresh_config ne show ?thesis by (intro conjI)
qed

lemma first_use_distinct:
  assumes "distinct (map fst (model_config L))" and "item \<in> set (model_config L)"
  shows "first_use L F (fst item) \<longleftrightarrow>
     (\<exists>content. nodes F (model_path L (snd item)) = Some (Readable content)) \<and>
     expected_sha256 (snd item) = None"
proof -
  from assms have "map_of (model_config L) (fst item) = Some (snd item)"
    by (cases item) simp
  then show ?thesis
    by (auto simp: first_use_def split: option.splits node.splits)
qed

lemma status_pins_single:
  assumes "model_config L = [(name, cfg)]"
    and "nodes F (model_path L cfg) = Some (Readable content)"
    and "expected_sha256 cfg = None"
  shows "\<exists>report F'. get_model_status env (L, F)
        = (report,
           L\<lparr>model_config := [(name, cfg\<lparr>expected_sha256 := Some (sha256_hexdigest env content)\<rparr>)]\<rparr>,
           F') \<and>
     map (\<lambda>entry. ms_integrity_verified (snd entry)) (sr_models_available report) = [True] \<and>
     (write_error F (metadata_path L name) = None \<longrightarrow>
        nodes F' (metadata_path L name)
          = Some (Readable (json_dump env
               \<lparr>sm_checksum = sha256_hexdigest env content,
                sm_file_size = length content,
                sm_last_verified = now_isoformat env,
                sm_version = cfg_version cfg\<rparr>)))"
proof -
  have m: "map_of (model_config L) name = Some cfg" using assms(1) by simp
  note v = verify_first_use [OF m assms(2,3), of env]
  have ex: "path_exists F (model_path L cfg)" using assms(2) by (simp add: path_exists_def)
  have "status_round env (name, cfg) ([], L, F)
          = ([(name, status_entry env L F name cfg)],
             snd (verify_model_integrity env name (L, F)))"
    unfolding status_round_eq using ex by simp
  moreover have "ms_integrity_verified (status_entry env L F name cfg)"
    using ex v by (simp add: status_entry_def)
  ultimately show ?thesis
    using assms(1) v
    by (auto simp: get_model_status_def Let_def split: option.splits)
qed

text \<open>
  C4 (as amended). When every configured artifact whose file is readable has a pinned
  checksum, \<^verbatim>\<open>get_model_status\<close> leaves the loader and the file system as they were and
  reports, for every configured artifact, whether its file exists, its size, whether it is
  loaded and whether it passes verification now. For a loader with one configured artifact
  whose file is readable and has no pinned checksum, the call pins the SHA-256 of the file,
  writes the metadata file when it can be written, and reports the artifact as verified.
\<close>

theorem status_frame:
  "(distinct (map fst (model_config L)) \<and>
    (\<forall>item\<in>set (model_config L). \<forall>content.
        nodes F (model_path L (snd item)) = Some (Readable content)
        \<longrightarrow> expected_sha256 (snd item) \<noteq> None) \<longrightarrow>
      (\<exists>report. get_model_status env (L, F) = (report, L, F) \<and>
         map fst (sr_models_available report) = map fst (model_config L) \<and>
         sr_loaded_models report = map fst (loaded_models L) \<and>
         (\<forall>item\<in>set (model_config L).
            \<exists>ms. map_of (sr_models_available report) (fst item) = Some ms \<and>
              ms_file_exists ms = path_exists F (model_path L (snd item)) \<and>
              ms_file_size_mb ms =
                (case nodes F (model_path L (snd item)) of
                   Some nd \<Rightarrow> Round2MB (st_size nd) | None \<Rightarrow> PyInt 0) \<and>
              ms_loaded ms = (fst item \<in> fst ` set (loaded_models L)) \<and>
              ms_integrity_verified ms =
                (path_exists F (model_path L (snd item)) \<and>
                 fst (verify_model_integrity env (fst item) (L, F)) = Inr True)))) \<and>
   (model_config L = [(name, cfg)] \<and>
    nodes F (model_path L cfg) = Some (Readable content) \<and> expected_sha256 cfg = None \<longrightarrow>
      (\<exists>report F'. get_model_status env (L, F)
          = (report,
             L\<lparr>model_config :=
                 [(name, cfg\<lparr>expected_sha256 := Some (sha256_hexdigest env content)\<rparr>)]\<rparr>,
             F') \<and>
         map (\<lambda>entry. ms_integrity_verified (snd entry)) (sr_models_available report) = [True] \<and>
         (write_error F (metadata_path L name) = None \<longrightarrow>
            nodes F' (metadata_path L name)
              = Some (Readable (json_dump env
                   \<lparr>sm_checksum = sha256_hexdigest env content,
                    sm_file_size = length content,
                    sm_last_verified = now_isoformat env,
                    sm_version = cfg_version cfg\<rparr>)))))"
proof (intro conjI impI)
  assume a: "distinct (map fst (model_config L)) \<and>
    (\<forall>item\<in>set (model_config L). \<forall>content.
        nodes F (model_path L (snd item)) = Some (Readable content)
        \<longrightarrow> expected_sha256 (snd item) \<noteq> None)"
  let ?g = "\<lambda>item. status_entry env L F (fst item) (snd item)"
  have keep: "\<forall>item\<in>set (model_config L). \<not> first_use L F (fst item)"
    using a first_use_distinct [of L _ F] by blast
  note st = status_when_state_kept [OF keep, of env]
  from a have av: "fold (\<lambda>item. AList.update (fst item) (?g item)) (model_config L) []
                     = map (\<lambda>item. (fst item, ?g item)) (model_config L)"
    using fold_update_distinct [of "model_config L" "[]" ?g] by simp
  have look: "\<forall>item\<in>set (model_config L).
                map_of (map (\<lambda>item. (fst item, ?g item)) (model_config L)) (fst item)
                  = Some (?g item)"
  proof
    fix item assume i: "item \<in> set (model_config L)"
    from a have "distinct (map fst (map (\<lambda>item. (fst item, ?g item)) (model_config L)))"
      by (simp add: comp_def)
    moreover from i have "(fst item, ?g item)
                            \<in> set (map (\<lambda>item. (fst item, ?g item)) (model_config L))"
      by auto
    ultimately show "map_of (map (\<lambda>item. (fst item, ?g item)) (model_config L)) (fst item)
                  = Some (?g item)"
      by (rule map_of_is_SomeI)
  qed
  show "\<exists>report. get_model_status env (L, F) = (report, L, F) \<and>
         map fst (sr_models_available report) = map fst (model_config L) \<and>
         sr_loaded_models report = map fst (loaded_models L) \<and>
         (\<forall>item\<in>set (model_config L).
            \<exists>ms. map_of (sr_models_available report) (fst item) = Some ms \<and>
              ms_file_exists ms = path_exists F (model_path L (snd item)) \<and>
              ms_file_size_mb ms =
                (case nodes F (model_path L (snd item)) of
                   Some nd \<Rightarrow> Round2MB (st_size nd) | None \<Rightarrow> PyInt 0) \<and>
              ms_loaded ms = (fst item \<in> fst ` set (loaded_models L)) \<and>
              ms_integrity_verified ms =
                (path_exists F (model_path L (snd item)) \<and>
                 fst (verify_model_integrity env (fst item) (L, F)) = Inr True))"
    unfolding st av using look by (simp add: comp_def status_entry_def)
next
  assume "model_config L = [(name, cfg)] \<and>
    nodes F (model_path L cfg) = Some (Readable content) \<and> expected_sha256 cfg = None"
  then show "\<exists>report F'. get_model_status env (L, F)
          = (report,
             L\<lparr>model_config :=
                 [(name, cfg\<lparr>expected_sha256 := Some (sha256_hexdigest env content)\<rparr>)]\<rparr>,
             F') \<and>
         map (\<lambda>entry. ms_integrity_verified (snd entry)) (sr_models_available report) = [True] \<and>
         (write_error F (metadata_path L name) = None \<longrightarrow>
            nodes F' (metadata_path L name)
              = Some (Readable (json_dump env
                   \<lparr>sm_checksum = sha256_hexdigest env content,
                    sm_file_size = length content,
                    sm_last_verified = now_isoformat env,
                    sm_version = cfg_version cfg\<rparr>)))"
    using status_pins_single [of L name cfg F content env] by simp
qed

lemma good_disk_nodes:
  "nodes good_disk ''models/yolo_nas_s_coco.pth'' = Some (Readable ''weights'')"
  "nodes good_disk ''models/yolo_nas_s_metadata.json'' = None"
  "write_error good_disk ''models/yolo_nas_s_metadata.json'' = None"
  by (simp_all add: good_disk_def disk_nodes)

lemma fresh_status_pins:
  "\<exists>report F'. get_model_status demo_ml (fresh_loader, good_disk)
      = (report,
         fresh_loader\<lparr>model_config := [(''yolo_nas_s'', yolo_config (Some ''sha:weights''))]\<rparr>,
         F') \<and>
     map (\<lambda>entry. ms_integrity_verified (snd entry)) (sr_models_available report) = [True] \<and>
     nodes F' ''models/yolo_nas_s_metadata.json'' = Some (Readable ''checksum=sha:weights'')"
  using status_pins_single [OF fresh_config, of good_disk "''weights''" demo_ml]
  by (simp add: fresh_paths good_disk_nodes yolo_config_fields demo_ml_fields)

text \<open>
  C4 fails as stated: on a new loader with the model file present, the status call pins a
  checksum and creates the metadata file.
\<close>

theorem status_pins_checksum_counterexample:
  "map_of (model_config fresh_loader) ''yolo_nas_s'' = Some (yolo_config None) \<and>
   expected_sha256 (yolo_config None) = None \<and>
   nodes good_disk ''models/yolo_nas_s_metadata.json'' = None \<and>
   (\<exists>report L' F'. get_model_status demo_ml (fresh_loader, good_disk) = (report, L', F') \<and>
      map_of (model_config L') ''yolo_nas_s'' = Some (yolo_config (Some ''sha:weights'')) \<and>
      nodes F' ''models/yolo_nas_s_metadata.json'' = Some (Readable ''checksum=sha:weights''))"
proof -
  from fresh_status_pins obtain report F' where
    "get_model_status demo_ml (fresh_loader, good_disk)
      = (report,
         fresh_loader\<lparr>model_config := [(''yolo_nas_s'', yolo_config (Some ''sha:weights''))]\<rparr>,
         F')"
    "nodes F' ''models/yolo_nas_s_metadata.json'' = Some (Readable ''checksum=sha:weights'')"
    by auto
  then have "\<exists>report L' F'. get_model_status demo_ml (fresh_loader, good_disk) = (report, L', F') \<and>
      map_of (model_config L') ''yolo_nas_s'' = Some (yolo_config (Some ''sha:weights'')) \<and>
      nodes F' ''models/yolo_nas_s_metadata.json'' = Some (Readable ''checksum=sha:weights'')"
    by (intro exI [of _ report] exI [of _ F']
          exI [of _ "fresh_loader\<lparr>model_config :=
                       [(''yolo_nas_s'', yolo_config (Some ''sha:weights''))]\<rparr>"]) simp
  with fresh_lookup(1) yolo_config_fields(1) [of None] good_disk_nodes(2)
  show ?thesis by (intro conjI)
qed

theorem status_frame_witness:
  "distinct (map fst (model_config (pinned_loader ''sha:weights''))) \<and>
   model_config (pinned_loader ''sha:weights'') = [(''yolo_nas_s'', yolo_config (Some ''sha:weights''))] \<and>
   expected_sha256 (yolo_config (Some ''sha:weights'')) \<noteq> None \<and>
   (\<exists>report. get_model_status demo_ml (pinned_loader ''sha:weights'', good_disk)
               = (report, pinned_loader ''sha:weights'', good_disk) \<and>
      map fst (sr_models_available report) = [''yolo_nas_s''] \<and>
      (\<exists>ms. map_of (sr_models_available report) ''yolo_nas_s'' = Some ms \<and>
            ms_file_exists ms \<and> ms_file_size_mb ms = Round2MB (length ''weights'') \<and> \<not> ms_loaded ms \<and>
            ms_integrity_verified ms)) \<and>
   model_config fresh_loader = [(''yolo_nas_s'', yolo_config None)] \<and>
   nodes good_disk (model_path fresh_loader (yolo_config None)) = Some (Readable ''weights'') \<and>
   expected_sha256 (yolo_config None) = None \<and>
   (\<exists>report F'. get_model_status demo_ml (fresh_loader, good_disk)
      = (report,
         fresh_loader\<lparr>model_config := [(''yolo_nas_s'', yolo_config (Some ''sha:weights''))]\<rparr>,
         F') \<and>
     map (\<lambda>entry. ms_integrity_verified (snd entry)) (sr_models_available report) = [True])"
proof -
  let ?P = "pinned_loader ''sha:weights''"
  let ?cfg = "yolo_config (Some ''sha:weights'')"
  have pc: "model_config ?P = [(''yolo_nas_s'', ?cfg)]" by (simp add: pinned_loader_def)
  have d: "distinct (map fst (model_config ?P))" by (simp add: pc)
  have pinned: "expected_sha256 ?cfg \<noteq> None" by (simp add: yolo_config_fields)
  have h: "distinct (map fst (model_config ?P)) \<and>
    (\<forall>item\<in>set (model_config ?P). \<forall>content.
        nodes good_disk (model_path ?P (snd item)) = Some (Readable content)
        \<longrightarrow> expected_sha256 (snd item) \<noteq> None)"
    using d pinned by (simp add: pc)
  note inst = status_frame [where env = demo_ml and L = ?P and F = good_disk]
  from inst h obtain report where
    r: "get_model_status demo_ml (?P, good_disk) = (report, ?P, good_disk)"
    and n: "map fst (sr_models_available report) = map fst (model_config ?P)"
    and e: "\<forall>item\<in>set (model_config ?P).
            \<exists>ms. map_of (sr_models_available report) (fst item) = Some ms \<and>
              ms_file_exists ms = path_exists good_disk (model_path ?P (snd item)) \<and>
              ms_file_size_mb ms =
                (case nodes good_disk (model_path ?P (snd item)) of
                   Some nd \<Rightarrow> Round2MB (st_size nd) | None \<Rightarrow> PyInt 0) \<and>
              ms_loaded ms = (fst item \<in> fst ` set (loaded_models ?P)) \<and>
              ms_integrity_verified ms =
                (path_exists good_disk (model_path ?P (snd item)) \<and>
                 fst (verify_model_integrity demo_ml (fst item) (?P, good_disk)) = Inr True)"
    by blast
  have v: "verify_model_integrity demo_ml ''yolo_nas_s'' (?P, good_disk)
             = (Inr True, ?P, good_disk)"
    using verify_pinned [OF fresh_lookup(3), of good_disk "''sha:weights''" "''weights''"
                            "''sha:weights''" demo_ml]
    by (simp add: fresh_paths good_disk_nodes yolo_config_fields demo_ml_fields)
  have lm: "loaded_models ?P = []"
    by (simp add: pinned_loader_def fresh_loader_def ProductionModelLoader_def)
  from e have "\<exists>ms. map_of (sr_models_available report) ''yolo_nas_s'' = Some ms \<and>
            ms_file_exists ms \<and> ms_file_size_mb ms = Round2MB (length ''weights'') \<and> \<not> ms_loaded ms \<and>
            ms_integrity_verified ms"
    by (simp add: pc fresh_paths good_disk_nodes path_exists_def v lm)
  with r n have a: "\<exists>report. get_model_status demo_ml (?P, good_disk) = (report, ?P, good_disk) \<and>
      map fst (sr_models_available report) = [''yolo_nas_s''] \<and>
      (\<exists>ms. map_of (sr_models_available report) ''yolo_nas_s'' = Some ms \<and>
            ms_file_exists ms \<and> ms_file_size_mb ms = Round2MB (length ''weights'') \<and> \<not> ms_loaded ms \<and>
            ms_integrity_verified ms)"
    by (intro exI [of _ report]) (simp add: pc)
  have g: "nodes good_disk (model_path fresh_loader (yolo_config None))
             = Some (Readable ''weights'')"
    by (simp add: fresh_paths good_disk_nodes)
  note inst2 = status_frame [where env = demo_ml and L = fresh_loader and F = good_disk
      and name = "''yolo_nas_s''" and cfg = "yolo_config None" and content = "''weights''"]
  have hyp2: "model_config fresh_loader = [(''yolo_nas_s'', yolo_config None)] \<and>
      nodes good_disk (model_path fresh_loader (yolo_config None)) = Some (Readable ''weights'') \<and>
      expected_sha256 (yolo_config None) = None"
    using fresh_config g yolo_config_fields(1) [of None] by (intro conjI)
  from inst2 [THEN conjunct2, THEN mp, OF hyp2] obtain report2 F2 where
    "get_model_status demo_ml (fresh_loader, good_disk)
          = (report2,
             fresh_loader\<lparr>model_config :=
                 [(''yolo_nas_s'',
                   (yolo_config None)\<lparr>expected_sha256 :=
                       Some (sha256_hexdigest demo_ml ''weights'')\<rparr>)]\<rparr>,
             F2)"
    "map (\<lambda>entry. ms_integrity_verified (snd entry)) (sr_models_available report2) = [True]"
    by (elim exE conjE)
  then have "\<exists>report F'. get_model_status demo_ml (fresh_loader, good_disk)
          = (report,
             fresh_loader\<lparr>model_config :=
                 [(''yolo_nas_s'',
                   (yolo_config None)\<lparr>expected_sha256 :=
                       Some (sha256_hexdigest demo_ml ''weights'')\<rparr>)]\<rparr>,
             F') \<and>
         map (\<lambda>entry. ms_integrity_verified (snd entry)) (sr_models_available report) = [True]"
    by (intro exI [of _ report2] exI [of _ F2] conjI)
  then have b: "\<exists>report F'. get_model_status demo_ml (fresh_loader, good_disk)
      = (report,
         fresh_loader\<lparr>model_config := [(''yolo_nas_s'', yolo_config (Some ''sha:weights''))]\<rparr>,
         F') \<and>
     map (\<lambda>entry. ms_integrity_verified (snd entry)) (sr_models_available report) = [True]"
    by (simp add: yolo_config_fields demo_ml_fields)
  from d pc pinned a fresh_config g yolo_config_fields(1) [of None] b
  show ?thesis by (intro conjI)
qed

end
